(* ===== verification/Prelude.thy ===== *)
theory Prelude
  imports Main
begin

text \<open>
  Shared vocabulary of the development: JavaScript values as the handlers
  read them (falsy strings, \<open>x || d\<close> defaults), the outcome of a store
  query (a query may fail with a transport error, chosen by a \<open>fault\<close>
  value), the order in which two queries issued without waiting for each
  other reach the store, HTTP responses, and the row operations every SQL
  statement of the handlers is built from (\<open>UPDATE ... WHERE\<close>,
  \<open>DELETE ... WHERE\<close>, \<open>SELECT ... WHERE\<close>, first row of a result).
\<close>

named_theorems row_ops "facts on the row operations of the store model"

section \<open>Timestamps and JavaScript values\<close>

text \<open>A JavaScript \<open>Date\<close> read as milliseconds since the epoch; JS
  subtracts dates as numbers, so a difference may be negative.\<close>

type_synonym ms = int

text \<open>A string field of a request body or header: \<open>None\<close> is
  \<open>undefined\<close>. Such a field is falsy when it is absent or empty.\<close>

type_synonym jsstr = "string option"

fun present :: "jsstr \<Rightarrow> string option" where
  "present None = None"
| "present (Some s) = (if s = [] then None else Some s)"

definition truthy :: "jsstr \<Rightarrow> bool" where
  "truthy x \<longleftrightarrow> present x \<noteq> None"

text \<open>\<open>x || d\<close> on a string field.\<close>

definition or_default :: "jsstr \<Rightarrow> string \<Rightarrow> string" where
  "or_default x d = (case present x of None \<Rightarrow> d | Some s \<Rightarrow> s)"

text \<open>\<open>\s\<close> of a JavaScript regular expression, and the characters
  \<open>String.prototype.trim\<close> strips, on ASCII input.\<close>

definition is_js_space :: "char \<Rightarrow> bool" where
  "is_js_space c \<longleftrightarrow> of_char c \<in> {9, 10, 11, 12, 13, 32 :: nat}"

text \<open>\<open>String(n)\<close> of a JavaScript number holding an integer, as \<open>+\<close>
  with a string converts it: decimal digits, a leading \<open>-\<close> when
  negative, no leading zeros.\<close>

definition digit_char :: "nat \<Rightarrow> char" where
  "digit_char d = char_of (48 + d)"

fun nat_digits :: "nat \<Rightarrow> string" where
  "nat_digits n = (if n < 10 then [digit_char n] else nat_digits (n div 10) @ [digit_char (n mod 10)])"

definition dec_string :: "int \<Rightarrow> string" where
  "dec_string i = (if i < 0 then CHR ''-'' # nat_digits (nat (- i)) else nat_digits (nat i))"

text \<open>\<open>Array.prototype.join(",")\<close>, and the separator of SQL's
  \<open>GROUP_CONCAT\<close>.\<close>

fun join_comma :: "string list \<Rightarrow> string" where
  "join_comma [] = []"
| "join_comma [x] = x"
| "join_comma (x # y # zs) = x @ CHR '','' # join_comma (y # zs)"

section \<open>Store queries: faults and scheduling\<close>

text \<open>
  Every \<open>connection.query\<close> may report an error to its callback. A handler
  numbers the queries it issues \<open>1, 2, ...\<close> in source order; \<open>FailAt k\<close>
  makes the \<open>k\<close>-th one fail (with no effect on the store), \<open>NoFault\<close> lets
  all succeed.
\<close>

datatype fault = NoFault | FailAt nat

definition fails :: "fault \<Rightarrow> nat \<Rightarrow> bool" where
  "fails f k \<longleftrightarrow> f = FailAt k"

text \<open>
  The store is a connection pool: two queries issued one after the other
  without waiting for the first callback run on different connections, and
  either may be applied first.
\<close>

datatype sched = FirstIssuedFirst | SecondIssuedFirst

text \<open>
  Two queries issued without waiting: \<open>f\<close> is fire-and-forget (its
  failure is only logged), \<open>g\<close> reports whether it succeeded (\<open>None\<close>:
  failed, store unchanged). The result is the final store and whether
  \<open>g\<close> succeeded.
\<close>

definition race2 :: "sched \<Rightarrow> ('s \<Rightarrow> 's) \<Rightarrow> ('s \<Rightarrow> 's option) \<Rightarrow> 's \<Rightarrow> 's \<times> bool" where
  "race2 sc f g s =
     (case sc of
        FirstIssuedFirst \<Rightarrow>
          (case g (f s) of None \<Rightarrow> (f s, False) | Some s' \<Rightarrow> (s', True))
      | SecondIssuedFirst \<Rightarrow>
          (case g s of None \<Rightarrow> (f s, False) | Some s' \<Rightarrow> (f s', True)))"

section \<open>Responses\<close>

text \<open>An HTTP response: status code and a JSON body of a type chosen by the
  component.\<close>

datatype 'b response = Response (status: nat) (body: 'b)

section \<open>Row operations\<close>

text \<open>A table is the list of its rows in storage order; \<open>results[0]\<close> of
  a \<open>SELECT\<close> is the first matching row.\<close>

definition update_where :: "('r \<Rightarrow> bool) \<Rightarrow> ('r \<Rightarrow> 'r) \<Rightarrow> 'r list \<Rightarrow> 'r list" where
  "update_where P f rs = map (\<lambda>r. if P r then f r else r) rs"

definition delete_where :: "('r \<Rightarrow> bool) \<Rightarrow> 'r list \<Rightarrow> 'r list" where
  "delete_where P rs = filter (\<lambda>r. \<not> P r) rs"

definition first_where :: "('r \<Rightarrow> bool) \<Rightarrow> 'r list \<Rightarrow> 'r option" where
  "first_where P rs = find P rs"

section \<open>Lemmas\<close>

text \<open>\<open>nat_digits\<close> recurses on \<open>n div 10\<close>: its equation is used by
  explicit unfolding only.\<close>

declare nat_digits.simps [simp del]

lemma fails_NoFault [simp]: "\<not> fails NoFault k"
  by (simp add: fails_def)

lemma fails_FailAt [simp]: "fails (FailAt j) k \<longleftrightarrow> j = k"
  by (auto simp: fails_def)

lemma update_where_Nil [simp, row_ops]: "update_where P f [] = []"
  by (simp add: update_where_def)

lemma update_where_Cons [simp, row_ops]:
  "update_where P f (r # rs) = (if P r then f r else r) # update_where P f rs"
  by (simp add: update_where_def)

lemma update_where_append [simp, row_ops]:
  "update_where P f (rs @ qs) = update_where P f rs @ update_where P f qs"
  by (simp add: update_where_def)

lemma length_update_where [simp, row_ops]: "length (update_where P f rs) = length rs"
  by (simp add: update_where_def)

lemma map_update_where [row_ops]:
  "(\<And>r. g (f r) = g r) \<Longrightarrow> map g (update_where P f rs) = map g rs"
  by (induction rs) auto

lemma set_update_where [row_ops]:
  "r \<in> set (update_where P f rs) \<longleftrightarrow> (\<exists>q \<in> set rs. r = (if P q then f q else q))"
  by (auto simp: update_where_def)

lemma first_where_update_where [row_ops]:
  "(\<And>r. P (f r) = P r) \<Longrightarrow> first_where P (update_where P f rs) = map_option f (first_where P rs)"
  by (induction rs) (simp_all add: first_where_def)

lemma update_where_id [row_ops]:
  "(\<And>r. r \<in> set rs \<Longrightarrow> P r \<Longrightarrow> f r = r) \<Longrightarrow> update_where P f rs = rs"
  by (induction rs) auto

lemma update_where_idem [row_ops]:
  "(\<And>r. P r \<Longrightarrow> P (f r) \<and> f (f r) = f r) \<Longrightarrow>
     update_where P f (update_where P f rs) = update_where P f rs"
  by (induction rs) auto

lemma mem_update_where [row_ops]:
  "r \<in> set rs \<Longrightarrow> P r \<Longrightarrow> f r \<in> set (update_where P f rs)"
  by (auto simp: update_where_def)

lemma delete_where_Nil [simp, row_ops]: "delete_where P [] = []"
  by (simp add: delete_where_def)

lemma delete_where_Cons [simp, row_ops]:
  "delete_where P (r # rs) = (if P r then delete_where P rs else r # delete_where P rs)"
  by (simp add: delete_where_def)

lemma delete_where_append [simp, row_ops]:
  "delete_where P (rs @ qs) = delete_where P rs @ delete_where P qs"
  by (simp add: delete_where_def)

lemma set_delete_where [simp, row_ops]:
  "set (delete_where P rs) = {r \<in> set rs. \<not> P r}"
  by (auto simp: delete_where_def)

lemma first_where_Nil [simp, row_ops]: "first_where P [] = None"
  by (simp add: first_where_def)

lemma first_where_Cons [simp, row_ops]:
  "first_where P (r # rs) = (if P r then Some r else first_where P rs)"
  by (simp add: first_where_def)

lemma first_where_Some [row_ops]:
  "first_where P rs = Some r \<Longrightarrow> r \<in> set rs \<and> P r"
  by (induction rs) (auto split: if_splits)

lemma first_where_None [row_ops]:
  "first_where P rs = None \<longleftrightarrow> (\<forall>r \<in> set rs. \<not> P r)"
  by (induction rs) auto

lemma present_Some [simp]: "present x = Some s \<longleftrightarrow> x = Some s \<and> s \<noteq> []"
  by (cases x) auto

lemma truthy_simps [simp]:
  "\<not> truthy None" "truthy (Some s) \<longleftrightarrow> s \<noteq> []"
  by (simp_all add: truthy_def)

lemma list_all_update_where [row_ops]:
  "(\<And>x. P x \<Longrightarrow> Q x \<Longrightarrow> Q (f x)) \<Longrightarrow> list_all Q xs \<Longrightarrow> list_all Q (update_where P f xs)"
  by (induction xs) auto

lemma list_all_delete_where [row_ops]: "list_all Q xs \<Longrightarrow> list_all Q (delete_where P xs)"
  by (induction xs) (auto simp: delete_where_def)

lemma length_filter_two_values:
  "list_all (\<lambda>x. s x \<in> set [a, b]) xs \<Longrightarrow> a \<noteq> b \<Longrightarrow>
     length (filter (\<lambda>x. s x = a) xs) + length (filter (\<lambda>x. s x = b) xs) = length xs"
  by (induction xs) auto

lemma length_filter_distinct_key:
  "distinct (map f xs) \<Longrightarrow> length (filter (\<lambda>x. f x = k) xs) \<le> 1"
proof (induction xs)
  case Nil then show ?case by simp
next
  case (Cons x xs)
  show ?case
  proof (cases "f x = k")
    case True
    with Cons.prems have "filter (\<lambda>x. f x = k) xs = []" by (auto simp: filter_empty_conv image_iff)
    with True show ?thesis by simp
  next
    case False with Cons show ?thesis by simp
  qed
qed

lemma list_ex_update_where [row_ops]:
  "list_ex Q (update_where P f xs) \<longleftrightarrow> list_ex (\<lambda>x. if P x then Q (f x) else Q x) xs"
  by (induction xs) auto

lemma list_ex_False [simp]: "\<not> list_ex (\<lambda>x. False) xs"
  by (induction xs) auto

lemma unique_key_split [row_ops]:
  assumes "distinct (map k xs)" "first_where (\<lambda>y. k y = i) xs = Some x"
  shows "\<exists>as bs. xs = as @ x # bs \<and> k x = i \<and> i \<notin> k ` set as \<and> i \<notin> k ` set bs"
  using assms
proof (induction xs)
  case Nil then show ?case by simp
next
  case (Cons y ys)
  show ?case
  proof (cases "k y = i")
    case True
    with Cons.prems have "x = y" "i \<notin> k ` set ys" by auto
    then show ?thesis using True by (intro exI [of _ "[]"] exI [of _ ys]) simp
  next
    case False
    with Cons.prems obtain as bs where "ys = as @ x # bs" "k x = i" "i \<notin> k ` set as" "i \<notin> k ` set bs"
      using Cons.IH by auto
    with False show ?thesis by (intro exI [of _ "y # as"] exI [of _ bs]) simp
  qed
qed

lemma update_where_split [row_ops]:
  "i \<notin> k ` set as \<Longrightarrow> i \<notin> k ` set bs \<Longrightarrow> k x = i \<Longrightarrow>
     update_where (\<lambda>y. k y = i) f (as @ x # bs) = as @ f x # bs"
  by (auto simp: image_iff intro!: update_where_id)

lemma delete_where_absent [row_ops]:
  "i \<notin> k ` set xs \<Longrightarrow> delete_where (\<lambda>y. k y = i) xs = xs"
  by (induction xs) auto

lemma delete_where_split:
  "i \<notin> k ` set as \<Longrightarrow> i \<notin> k ` set bs \<Longrightarrow> k x = i \<Longrightarrow>
     delete_where (\<lambda>y. k y = i) (as @ x # bs) = as @ bs"
  by (simp add: delete_where_absent)

lemma update_where_absent_set [row_ops]:
  "i \<notin> k ` set xs \<Longrightarrow> update_where (\<lambda>y. k y = i) f xs = xs"
  by (auto simp: image_iff intro!: update_where_id)

lemma update_where_absent [row_ops]:
  "first_where (\<lambda>y. k y = i) xs = None \<Longrightarrow> update_where (\<lambda>y. k y = i) f xs = xs"
  by (auto simp: first_where_None intro!: update_where_id)


lemma first_where_append [row_ops]:
  "first_where P (xs @ ys) = (case first_where P xs of None \<Rightarrow> first_where P ys | r \<Rightarrow> r)"
  by (induction xs) simp_all

lemma first_where_update_key [row_ops]:
  "(\<And>y. k (f y) = k y) \<Longrightarrow>
   first_where (\<lambda>y. k y = j) (update_where (\<lambda>y. k y = i) f rs) =
     (if j = i then map_option f (first_where (\<lambda>y. k y = i) rs) else first_where (\<lambda>y. k y = j) rs)"
  by (induction rs) auto

lemma first_where_delete_key [row_ops]:
  "first_where (\<lambda>y. k y = j) (delete_where (\<lambda>y. k y = i) rs) =
     (if j = i then None else first_where (\<lambda>y. k y = j) rs)"
  by (induction rs) auto

end
