(* ===== verification/Accounts.thy ===== *)
theory Accounts
  imports Prelude
begin

text \<open>
  The \<open>admin\<close> table: one row per administrator account, as the handlers of
  \<open>src/controller/login/login.js\<close> and \<open>src/controller/manage-admin/admin.js\<close>
  read it, and the two lookups the session handlers issue on it.
  The password column holds a bcrypt hash; the comparison is the external
  credential verifier, a parameter \<open>cmp\<close> of the handlers that use it.
\<close>

record admin =
  adm_id :: nat
  adm_name :: string
  adm_email :: string
  adm_number :: string
  adm_password :: string
  adm_status :: string

text \<open>\<open>SELECT * FROM admin WHERE (email = ? OR number = ?)\<close>, first row
  (\<open>login.js\<close>, lines 16--28).\<close>

definition admin_by_identifier :: "string \<Rightarrow> admin list \<Rightarrow> admin option" where
  "admin_by_identifier ident adms =
     first_where (\<lambda>a. adm_email a = ident \<or> adm_number a = ident) adms"

text \<open>\<open>SELECT * FROM admin WHERE id = ?\<close>, first row.\<close>

definition admin_by_id :: "nat \<Rightarrow> admin list \<Rightarrow> admin option" where
  "admin_by_id aid adms = first_where (\<lambda>a. adm_id a = aid) adms"

lemma admin_by_identifier_Some:
  "admin_by_identifier ident adms = Some a \<Longrightarrow>
     a \<in> set adms \<and> (adm_email a = ident \<or> adm_number a = ident)"
  unfolding admin_by_identifier_def by (rule first_where_Some)

lemma admin_by_id_Some:
  "admin_by_id aid adms = Some a \<Longrightarrow> a \<in> set adms \<and> adm_id a = aid"
  unfolding admin_by_id_def by (rule first_where_Some)

lemma admin_by_id_None:
  "admin_by_id aid adms = None \<longleftrightarrow> aid \<notin> adm_id ` set adms"
  by (auto simp: admin_by_id_def first_where_None)

end
