(* ===== verification/Token.thy ===== *)
theory Token
  imports Accounts
begin

text \<open>
  The Token Codec. \<open>src/utils/jwtUtils.js\<close> mints an access token with
  \<open>jwt.sign\<close> of the \<open>jsonwebtoken\<close> library; the middlewares check it with
  \<open>jwt.verify\<close>. The library is not part of the repository, so its two
  functions are modelled from the spec (a token is signed with a key, carries
  its claims, an issue time and an expiry time in whole seconds, and verifies
  only under the same key and before its expiry), in the way the library
  computes them: \<open>iat\<close> is the current time in seconds, rounded down,
  \<open>exp = iat + expiresIn\<close>, and a token is expired once the current second
  reaches \<open>exp\<close>. A signature is modelled by the key it was made with: a
  token is either signed (with some key) or a string that does not decode.
\<close>

definition ACCESS_TOKEN_SECRET :: string where
  "ACCESS_TOKEN_SECRET = ''f8b54dd08c66f24176c682a3a74f7818c740ee5c1805c3e88a16ac1c92d1e721''"

record claims =
  cl_id :: nat
  cl_email :: string
  cl_name :: string
  cl_status :: string
  cl_jti :: string
  cl_ip :: string
  cl_userAgent :: string

datatype jwt = Jwt (jwt_claims: claims) (jwt_iat: int) (jwt_exp: int) (jwt_key: string)

datatype token_str = Signed jwt | Garbage string

datatype jwt_error = JsonWebTokenError | TokenExpiredError

definition jwt_sign :: "claims \<Rightarrow> string \<Rightarrow> int \<Rightarrow> ms \<Rightarrow> jwt" where
  "jwt_sign c key expires_in now = (let iat = now div 1000 in Jwt c iat (iat + expires_in) key)"

fun jwt_verify :: "token_str \<Rightarrow> string \<Rightarrow> ms \<Rightarrow> jwt_error + claims" where
  "jwt_verify (Garbage _) key now = Inl JsonWebTokenError"
| "jwt_verify (Signed t) key now =
     (if jwt_key t \<noteq> key then Inl JsonWebTokenError
      else if jwt_exp t \<le> now div 1000 then Inl TokenExpiredError
      else Inr (jwt_claims t))"

text \<open>\<open>generateAccessToken(admin, ip, userAgent)\<close> (\<open>jwtUtils.js\<close>, lines
  6--16): the fresh \<open>uuidv4()\<close> session id is an input \<open>jti\<close>, the clock
  an input \<open>now\<close>; \<open>'30m'\<close> is 1800 seconds.\<close>

definition token_claims :: "admin \<Rightarrow> string \<Rightarrow> string \<Rightarrow> string \<Rightarrow> claims" where
  "token_claims a jti ip ua =
     \<lparr>cl_id = adm_id a, cl_email = adm_email a, cl_name = adm_name a,
      cl_status = adm_status a, cl_jti = jti, cl_ip = ip, cl_userAgent = ua\<rparr>"

definition generateAccessToken ::
  "admin \<Rightarrow> string \<Rightarrow> string \<Rightarrow> string \<Rightarrow> ms \<Rightarrow> token_str \<times> string" where
  "generateAccessToken a ip ua jti now =
     (Signed (jwt_sign (token_claims a jti ip ua) ACCESS_TOKEN_SECRET 1800 now), jti)"

lemma generateAccessToken_jti [simp]: "snd (generateAccessToken a ip ua jti now) = jti"
  by (simp add: generateAccessToken_def)

lemma verify_generated:
  "jwt_verify (fst (generateAccessToken a ip ua jti now)) ACCESS_TOKEN_SECRET t =
     (if now div 1000 + 1800 \<le> t div 1000 then Inl TokenExpiredError
      else Inr (token_claims a jti ip ua))"
  by (simp add: generateAccessToken_def jwt_sign_def Let_def)

lemma div_1000_shift: "(x + 1000 * k) div 1000 = x div 1000 + (k::int)"
  by simp

lemma generated_valid_within:
  assumes "t \<le> now + (1799000::int)"
  shows "t div 1000 < now div 1000 + 1800"
proof -
  from assms have "t div 1000 \<le> (now + 1000 * 1799) div 1000" by (intro zdiv_mono1) simp_all
  then show ?thesis by (simp only: div_1000_shift)
qed

lemma generated_expired_after:
  assumes "now + 1800000 \<le> (t::int)"
  shows "now div 1000 + 1800 \<le> t div 1000"
proof -
  from assms have "(now + 1000 * 1800) div 1000 \<le> t div 1000" by (intro zdiv_mono1) simp_all
  then show ?thesis by (simp only: div_1000_shift)
qed

text \<open>C16. A minted token is accepted from its minting up to 29 minutes 59 seconds
  later and refused as expired from 30 minutes on: the library counts whole
  seconds, so the accepted span is between 1799 and 1800 seconds.\<close>

theorem token_lifetime_bounds:
  "(now \<le> t \<and> t \<le> now + 1799000 \<longrightarrow>
      jwt_verify (fst (generateAccessToken a ip ua jti now)) ACCESS_TOKEN_SECRET t = Inr (token_claims a jti ip ua)) \<and>
   (now + 1800000 \<le> t \<longrightarrow>
      jwt_verify (fst (generateAccessToken a ip ua jti now)) ACCESS_TOKEN_SECRET t = Inl TokenExpiredError)"
proof (intro conjI impI)
  assume "now \<le> t \<and> t \<le> now + 1799000"
  then have "t div 1000 < now div 1000 + 1800" by (simp add: generated_valid_within)
  then show "jwt_verify (fst (generateAccessToken a ip ua jti now)) ACCESS_TOKEN_SECRET t =
      Inr (token_claims a jti ip ua)"
    by (simp add: verify_generated)
next
  assume "now + 1800000 \<le> t"
  then show "jwt_verify (fst (generateAccessToken a ip ua jti now)) ACCESS_TOKEN_SECRET t =
      Inl TokenExpiredError"
    by (simp add: verify_generated generated_expired_after)
qed

lemma generated_claims [simp]:
  "cl_id (token_claims a jti ip ua) = adm_id a" "cl_jti (token_claims a jti ip ua) = jti"
  "cl_status (token_claims a jti ip ua) = adm_status a"
  by (simp_all add: token_claims_def)

end
