(* ===== verification/Sessions.thy ===== *)
theory Sessions
  imports Token
begin

text \<open>
  The Session Store: the \<open>active_tokens\<close> table, keyed by \<open>token_id\<close> (the
  token's \<open>jti\<close>), and every SQL statement the session handlers issue on it,
  each as a function on the list of rows. The store the auth handlers share
  is the record \<open>auth_db\<close> of the \<open>admin\<close> and \<open>active_tokens\<close> tables.
  The invariants of the table are stated here with one preservation lemma
  per statement.
\<close>

record session_row =
  token_id :: string
  admin_id :: nat
  ip_address :: string
  user_agent :: string
  issued_at :: ms
  last_activity :: ms
  expires_at :: ms
  is_blacklisted :: bool

record auth_db =
  admins :: "admin list"
  active_tokens :: "session_row list"

text \<open>\<open>30 * 60 * 1000\<close> milliseconds.\<close>

definition SESSION_TTL :: ms where
  "SESSION_TTL = 30 * 60 * 1000"

text \<open>The row that \<open>login\<close> and \<open>refreshToken\<close> insert
  (\<open>login.js\<close>, lines 58--63 and 122--127).\<close>

definition new_session :: "string \<Rightarrow> nat \<Rightarrow> string \<Rightarrow> string \<Rightarrow> ms \<Rightarrow> session_row" where
  "new_session jti aid ip ua now =
     \<lparr>token_id = jti, admin_id = aid, ip_address = ip, user_agent = ua,
      issued_at = now, last_activity = now, expires_at = now + SESSION_TTL,
      is_blacklisted = False\<rparr>"

text \<open>\<open>INSERT INTO active_tokens ...\<close>: rejected when the key is taken.\<close>

definition insert_session :: "session_row \<Rightarrow> session_row list \<Rightarrow> session_row list option" where
  "insert_session row rs =
     (if token_id row \<in> set (map token_id rs) then None else Some (rs @ [row]))"

text \<open>\<open>SELECT * FROM active_tokens WHERE token_id = ? AND admin_id = ? AND
  is_blacklisted = 0\<close> (\<open>login.js\<close> line 84, \<open>verifyToken.js\<close> line 17).\<close>

definition live_rows :: "string \<Rightarrow> nat \<Rightarrow> session_row list \<Rightarrow> session_row list" where
  "live_rows jti aid rs =
     filter (\<lambda>r. token_id r = jti \<and> admin_id r = aid \<and> \<not> is_blacklisted r) rs"

definition blacklist :: "session_row \<Rightarrow> session_row" where
  "blacklist r = r\<lparr>is_blacklisted := True\<rparr>"

text \<open>\<open>UPDATE active_tokens SET is_blacklisted = 1 WHERE admin_id = ? AND
  is_blacklisted = 0\<close> (\<open>login.js\<close>, line 50).\<close>

definition blacklist_admin_sessions :: "nat \<Rightarrow> session_row list \<Rightarrow> session_row list" where
  "blacklist_admin_sessions aid =
     update_where (\<lambda>r. admin_id r = aid \<and> \<not> is_blacklisted r) blacklist"

text \<open>\<open>UPDATE active_tokens SET is_blacklisted = 1 WHERE token_id = ?\<close>
  (\<open>login.js\<close>, lines 110 and 121).\<close>

definition blacklist_token :: "string \<Rightarrow> session_row list \<Rightarrow> session_row list" where
  "blacklist_token jti = update_where (\<lambda>r. token_id r = jti) blacklist"

text \<open>\<open>... WHERE token_id = ? AND admin_id = ?\<close> (\<open>login.js\<close>, line 162).\<close>

definition blacklist_token_of :: "string \<Rightarrow> nat \<Rightarrow> session_row list \<Rightarrow> session_row list" where
  "blacklist_token_of jti aid =
     update_where (\<lambda>r. token_id r = jti \<and> admin_id r = aid) blacklist"

text \<open>\<open>UPDATE active_tokens SET last_activity = ? WHERE token_id = ? AND
  admin_id = ? AND is_blacklisted = 0\<close> (\<open>login.js\<close>, line 147).\<close>

definition touch_session :: "ms \<Rightarrow> string \<Rightarrow> nat \<Rightarrow> session_row list \<Rightarrow> session_row list" where
  "touch_session now jti aid =
     update_where (\<lambda>r. token_id r = jti \<and> admin_id r = aid \<and> \<not> is_blacklisted r)
       (\<lambda>r. r\<lparr>last_activity := now\<rparr>)"

text \<open>\<open>updateExpiredTokens\<close> and \<open>cleanupExpiredTokens\<close>
  (\<open>tokenCleanup.js\<close>, lines 4--27).\<close>

definition expire_sessions :: "ms \<Rightarrow> session_row list \<Rightarrow> session_row list" where
  "expire_sessions now =
     update_where (\<lambda>r. expires_at r < now \<and> \<not> is_blacklisted r) blacklist"

definition purge_blacklisted :: "session_row list \<Rightarrow> session_row list" where
  "purge_blacklisted = delete_where is_blacklisted"

text \<open>\<open>DELETE FROM active_tokens WHERE admin_id = ?\<close>
  (\<open>admin.js\<close>, line 182).\<close>

definition delete_admin_sessions :: "nat \<Rightarrow> session_row list \<Rightarrow> session_row list" where
  "delete_admin_sessions aid = delete_where (\<lambda>r. admin_id r = aid)"

section \<open>Invariants of the table\<close>

text \<open>The live sessions of an account.\<close>

definition live_sessions :: "nat \<Rightarrow> session_row list \<Rightarrow> session_row list" where
  "live_sessions aid rs = filter (\<lambda>r. admin_id r = aid \<and> \<not> is_blacklisted r) rs"

text \<open>The primary key: no two rows share a \<open>token_id\<close>.\<close>

definition keys_unique :: "session_row list \<Rightarrow> bool" where
  "keys_unique rs \<longleftrightarrow> distinct (map token_id rs)"

text \<open>The policy of the spec: at most one live session per account.\<close>

definition at_most_one_live :: "session_row list \<Rightarrow> bool" where
  "at_most_one_live rs \<longleftrightarrow> (\<forall>r \<in> set rs. length (live_sessions (admin_id r) rs) \<le> 1)"

text \<open>Well-formed timestamps: a session is issued before its last recorded
  activity, which is not in the future, and expires 30 minutes after issue.\<close>

definition row_ok :: "ms \<Rightarrow> session_row \<Rightarrow> bool" where
  "row_ok clk r \<longleftrightarrow>
     issued_at r \<le> last_activity r \<and> last_activity r \<le> clk \<and>
     expires_at r = issued_at r + SESSION_TTL"

definition rows_ok :: "ms \<Rightarrow> session_row list \<Rightarrow> bool" where
  "rows_ok clk rs \<longleftrightarrow> (\<forall>r \<in> set rs. row_ok clk r)"

text \<open>A row the sweep leaves alone: live and not yet expired.\<close>

definition swept :: "ms \<Rightarrow> session_row \<Rightarrow> bool" where
  "swept now r \<longleftrightarrow> \<not> is_blacklisted r \<and> now \<le> expires_at r"

lemmas session_ops_defs =
  blacklist_admin_sessions_def blacklist_token_def blacklist_token_of_def
  touch_session_def expire_sessions_def purge_blacklisted_def
  delete_admin_sessions_def

subsection \<open>Keys\<close>

lemma token_id_blacklist [simp]: "token_id (blacklist r) = token_id r"
  by (simp add: blacklist_def)

lemma admin_id_blacklist [simp]: "admin_id (blacklist r) = admin_id r"
  by (simp add: blacklist_def)

lemma is_blacklisted_blacklist [simp]: "is_blacklisted (blacklist r)"
  by (simp add: blacklist_def)

lemma map_token_id_updates [simp]:
  "map token_id (blacklist_admin_sessions aid rs) = map token_id rs"
  "map token_id (blacklist_token jti rs) = map token_id rs"
  "map token_id (blacklist_token_of jti aid rs) = map token_id rs"
  "map token_id (touch_session now jti aid rs) = map token_id rs"
  "map token_id (expire_sessions now rs) = map token_id rs"
  by (simp_all add: session_ops_defs map_update_where)

lemma keys_unique_delete_where [intro]:
  "keys_unique rs \<Longrightarrow> keys_unique (delete_where P rs)"
  by (simp add: keys_unique_def delete_where_def distinct_map_filter)

lemma keys_unique_insert_session:
  "insert_session row rs = Some rs' \<Longrightarrow> keys_unique rs \<Longrightarrow> keys_unique rs'"
  by (auto simp: insert_session_def keys_unique_def split: if_splits)

lemma insert_session_None:
  "insert_session row rs = None \<longleftrightarrow> token_id row \<in> token_id ` set rs"
  by (simp add: insert_session_def)

lemma keys_unique_updates [simp]:
  "keys_unique (blacklist_admin_sessions aid rs) = keys_unique rs"
  "keys_unique (blacklist_token jti rs) = keys_unique rs"
  "keys_unique (blacklist_token_of jti aid rs) = keys_unique rs"
  "keys_unique (touch_session now jti aid rs) = keys_unique rs"
  "keys_unique (expire_sessions now rs) = keys_unique rs"
  by (simp_all add: keys_unique_def)

lemma keys_unique_deletes [simp]:
  "keys_unique rs \<Longrightarrow> keys_unique (purge_blacklisted rs)"
  "keys_unique rs \<Longrightarrow> keys_unique (delete_admin_sessions aid rs)"
  by (auto simp: purge_blacklisted_def delete_admin_sessions_def)

subsection \<open>Live sessions\<close>

lemma blacklist_idem [simp]: "blacklist (blacklist r) = blacklist r"
  by (simp add: blacklist_def)

lemma expires_at_blacklist [simp]: "expires_at (blacklist r) = expires_at r"
  by (simp add: blacklist_def)

lemma jti_fresh_blacklist_admin:
  "jti \<notin> token_id ` set rs \<Longrightarrow> jti \<notin> token_id ` set (blacklist_admin_sessions aid rs)"
  by (metis list.set_map map_token_id_updates(1))

lemma jti_fresh_blacklist_token:
  "jti' \<notin> token_id ` set rs \<Longrightarrow> jti' \<notin> token_id ` set (blacklist_token jti rs)"
  by (metis list.set_map map_token_id_updates(2))

lemma live_sessions_append [simp]:
  "live_sessions aid (rs @ qs) = live_sessions aid rs @ live_sessions aid qs"
  by (simp add: live_sessions_def)

lemma live_sessions_blacklist_admin_sessions [simp]:
  "live_sessions aid (blacklist_admin_sessions aid rs) = []"
  by (induction rs) (auto simp: live_sessions_def blacklist_admin_sessions_def)

lemma live_sessions_new_session [simp]:
  "live_sessions aid [new_session j aid' ip ua now] =
     (if aid' = aid then [new_session j aid' ip ua now] else [])"
  by (simp add: live_sessions_def new_session_def)

lemma live_sessions_blacklist_token:
  "live_sessions aid (blacklist_token jti rs) = filter (\<lambda>r. token_id r \<noteq> jti) (live_sessions aid rs)"
  by (induction rs) (auto simp: live_sessions_def blacklist_token_def)

lemma live_rows_append [simp]:
  "live_rows jti aid (rs @ qs) = live_rows jti aid rs @ live_rows jti aid qs"
  by (simp add: live_rows_def)

lemma live_rows_new_session [simp]:
  "live_rows jti aid [new_session j aid' ip ua now] =
     (if j = jti \<and> aid' = aid then [new_session j aid' ip ua now] else [])"
  by (simp add: live_rows_def new_session_def)

lemma live_rows_blacklist_admin_sessions [simp]:
  "live_rows jti aid (blacklist_admin_sessions aid rs) = []"
  by (induction rs) (auto simp: live_rows_def blacklist_admin_sessions_def)

lemma live_rows_blacklist_token [simp]: "live_rows jti aid (blacklist_token jti rs) = []"
  by (induction rs) (auto simp: live_rows_def blacklist_token_def)

lemma live_rows_blacklist_token_of [simp]: "live_rows jti aid (blacklist_token_of jti aid rs) = []"
  by (induction rs) (auto simp: live_rows_def blacklist_token_of_def)

lemma live_rows_Cons:
  "live_rows jti aid rs = row # rest \<Longrightarrow>
     row \<in> set rs \<and> token_id row = jti \<and> admin_id row = aid \<and> \<not> is_blacklisted row"
proof -
  assume "live_rows jti aid rs = row # rest"
  then have "row \<in> set (live_rows jti aid rs)" by simp
  then show ?thesis by (simp add: live_rows_def)
qed

lemma live_rows_fresh: "jti \<notin> token_id ` set rs \<Longrightarrow> live_rows jti aid rs = []"
  by (induction rs) (auto simp: live_rows_def)

lemma live_sessions_nonempty:
  "live_rows jti aid rs = row # rest \<Longrightarrow> live_sessions aid rs \<noteq> []"
  by (drule live_rows_Cons) (auto simp: live_sessions_def filter_empty_conv)

lemma blacklist_token_of_idem [simp]:
  "blacklist_token_of jti aid (blacklist_token_of jti aid rs) = blacklist_token_of jti aid rs"
  unfolding blacklist_token_of_def by (rule update_where_idem) simp

lemma touch_session_no_live:
  "live_rows jti aid rs = [] \<Longrightarrow> touch_session now jti aid rs = rs"
  unfolding touch_session_def live_rows_def
  by (rule update_where_id) (auto simp: filter_empty_conv)

subsection \<open>The sweep statements\<close>

lemma mem_purge_blacklisted [simp]:
  "r \<in> set (purge_blacklisted rs) \<longleftrightarrow> r \<in> set rs \<and> \<not> is_blacklisted r"
  by (simp add: purge_blacklisted_def)

lemma mem_expire_sessions:
  "r \<in> set (expire_sessions now rs) \<Longrightarrow>
     \<exists>q \<in> set rs. r = (if expires_at q < now \<and> \<not> is_blacklisted q then blacklist q else q)"
  by (simp add: expire_sessions_def set_update_where)

lemma swept_after_expire:
  "\<not> is_blacklisted r \<Longrightarrow>
     r = (if expires_at q < now \<and> \<not> is_blacklisted q then blacklist q else q) \<Longrightarrow> swept now r"
  by (cases "expires_at q < now \<and> \<not> is_blacklisted q") (auto simp: swept_def)

lemma purge_expire_swept:
  assumes "r \<in> set (purge_blacklisted (expire_sessions now rs))"
  shows "swept now r"
proof -
  from assms have nb: "\<not> is_blacklisted r" and mem: "r \<in> set (expire_sessions now rs)"
    by simp_all
  from mem_expire_sessions [OF mem] obtain q
    where "q \<in> set rs"
      and eq: "r = (if expires_at q < now \<and> \<not> is_blacklisted q then blacklist q else q)"
    by (rule bexE)
  from nb eq show ?thesis by (rule swept_after_expire)
qed

lemma sweep_fixpoint:
  assumes "\<forall>r \<in> set rs. swept now r"
  shows "expire_sessions now rs = rs" "purge_blacklisted rs = rs"
proof -
  show "expire_sessions now rs = rs"
    unfolding expire_sessions_def
    by (rule update_where_id) (use assms in \<open>auto simp: swept_def\<close>)
  show "purge_blacklisted rs = rs"
    using assms by (simp add: purge_blacklisted_def delete_where_def swept_def filter_id_conv)
qed

end
