(* ===== verification/Lifecycle.thy ===== *)
theory Lifecycle
  imports Sessions
begin

text \<open>
  The Session Lifecycle Manager: the handlers \<open>login\<close>, \<open>refreshToken\<close>,
  \<open>updateActivity\<close> and \<open>logout\<close> of \<open>src/controller/login/login.js\<close>
  and the background sweep \<open>runTokenCleanup\<close> of
  \<open>src/utils/tokenCleanup.js\<close>. Each handler is one function from its
  inputs and the store to the new store and the response. The inputs the
  code draws from its environment are explicit: the clock \<open>now\<close>, the fresh
  \<open>uuidv4()\<close> session id \<open>jti\<close>, the credential verifier \<open>cmp\<close>
  (\<open>bcrypt.compare\<close>), the \<open>fault\<close> that decides which query reports an
  error, and, where two queries are issued without waiting for each other,
  the \<open>sched\<close> that decides which reaches the store first.
\<close>

datatype auth_body =
    ErrBody string
  | MsgBody string
  | TokenBody token_str
  | LoginBody token_str nat string string
  | AdminInfo nat string string string string

type_synonym auth_result = "auth_db \<times> auth_body response"

text \<open>\<open>req.ip || '127.0.0.1'\<close> and \<open>req.headers['user-agent'] || ''\<close>.\<close>

record client =
  req_ip :: jsstr
  req_ua :: jsstr

definition client_ip :: "client \<Rightarrow> string" where
  "client_ip c = or_default (req_ip c) ''127.0.0.1''"

definition client_ua :: "client \<Rightarrow> string" where
  "client_ua c = or_default (req_ua c) ''''"

record login_req =
  body_identifier :: jsstr
  body_password :: jsstr

text \<open>The identity \<open>verifyToken\<close> attaches to the request: \<open>req.admin =
  { id, jti }\<close>.\<close>

type_synonym req_admin = "nat \<times> string"

definition set_tokens :: "session_row list \<Rightarrow> auth_db \<Rightarrow> auth_db" where
  "set_tokens rs db = db\<lparr>active_tokens := rs\<rparr>"

section \<open>login\<close>

text \<open>
  \<open>login.js\<close>, lines 5--74. Query 1 is the account lookup; query 2 the
  blacklisting of the account's live sessions (its error is only logged);
  query 3 the insert of the new session. Queries 2 and 3 are issued one
  after the other without waiting, so \<open>sc\<close> decides their order.
\<close>

definition login_session :: "fault \<Rightarrow> sched \<Rightarrow> ms \<Rightarrow> string \<Rightarrow> client \<Rightarrow> admin \<Rightarrow> auth_db \<Rightarrow> auth_result" where
  "login_session ff sc now jti cl a db =
     (let (tok, j) = generateAccessToken a (client_ip cl) (client_ua cl) jti now;
          row = new_session j (adm_id a) (client_ip cl) (client_ua cl) now;
          kill = (\<lambda>rs. if fails ff 2 then rs else blacklist_admin_sessions (adm_id a) rs);
          ins = (\<lambda>rs. if fails ff 3 then None else insert_session row rs);
          (rs', ok) = race2 sc kill ins (active_tokens db)
      in (set_tokens rs' db,
          if ok then Response 200 (LoginBody tok (adm_id a) (adm_name a) (adm_email a))
          else Response 500 (ErrBody ''Failed to create session'')))"

definition login :: "(string \<Rightarrow> string \<Rightarrow> bool) \<Rightarrow> fault \<Rightarrow> sched \<Rightarrow> ms \<Rightarrow> string \<Rightarrow>
    client \<Rightarrow> login_req \<Rightarrow> auth_db \<Rightarrow> auth_result" where
  "login cmp ff sc now jti cl rq db =
     (case (present (body_identifier rq), present (body_password rq)) of
        (Some ident, Some pw) \<Rightarrow>
          if fails ff 1 then (db, Response 500 (ErrBody ''Database error''))
          else (case admin_by_identifier ident (admins db) of
                  None \<Rightarrow> (db, Response 401 (ErrBody ''Invalid credentials''))
                | Some a \<Rightarrow>
                    if adm_status a = ''blocked'' then
                      (db, Response 403 (ErrBody ''Your account is blocked. Please contact support.''))
                    else if adm_status a \<noteq> ''active'' then
                      (db, Response 403 (ErrBody ''Your account is not active.''))
                    else if \<not> cmp pw (adm_password a) then
                      (db, Response 401 (ErrBody ''Invalid credentials''))
                    else login_session ff sc now jti cl a db)
      | _ \<Rightarrow> (db, Response 400 (ErrBody ''Identifier and password are required'')))"

section \<open>refreshToken\<close>

text \<open>
  \<open>login.js\<close>, lines 77--140. \<open>tok\<close> is the bearer token of the request
  (\<open>req.headers['authorization'].split(' ')[1]\<close>), \<open>(aid, jti)\<close> the
  identity \<open>verifyToken\<close> attached, \<open>jti'\<close> the fresh id of the rotated
  session. Query 1 selects the live row; query 2 is the fire-and-forget
  blacklisting of an idle session; query 3 the account lookup; query 4 the
  blacklisting of the old session, whose callback ignores its error; query 5
  the insert of the new session.
\<close>

definition refresh_rotate :: "fault \<Rightarrow> ms \<Rightarrow> string \<Rightarrow> req_admin \<Rightarrow> client \<Rightarrow> admin \<Rightarrow>
    auth_db \<Rightarrow> auth_result" where
  "refresh_rotate ff now jti' ra cl a db =
     (let (aid, jti) = ra;
          rs1 = (if fails ff 4 then active_tokens db else blacklist_token jti (active_tokens db));
          (tok, j) = generateAccessToken a (client_ip cl) (client_ua cl) jti' now;
          row = new_session j aid (client_ip cl) (client_ua cl) now
      in if fails ff 5 then (set_tokens rs1 db, Response 500 (ErrBody ''Failed to refresh token''))
         else (case insert_session row rs1 of
                 None \<Rightarrow> (set_tokens rs1 db, Response 500 (ErrBody ''Failed to refresh token''))
               | Some rs2 \<Rightarrow> (set_tokens rs2 db, Response 200 (TokenBody tok))))"

definition refreshToken :: "fault \<Rightarrow> ms \<Rightarrow> string \<Rightarrow> req_admin \<Rightarrow> token_str \<Rightarrow> client \<Rightarrow>
    auth_db \<Rightarrow> auth_result" where
  "refreshToken ff now jti' ra tok cl db =
     (let (aid, jti) = ra in
      if fails ff 1 then (db, Response 500 (ErrBody ''Database error''))
      else (case live_rows jti aid (active_tokens db) of
              [] \<Rightarrow> (db, Response 401 (ErrBody ''Token invalidated or not found''))
            | row # _ \<Rightarrow>
                if now - issued_at row < 13 * 60 * 1000 then
                  (db, Response 200 (TokenBody tok))
                else if last_activity row - issued_at row < 1000 then
                  (if fails ff 2 then db else set_tokens (blacklist_token jti (active_tokens db)) db,
                   Response 401 (ErrBody ''No activity detected, session expired''))
                else if fails ff 3 then (db, Response 401 (ErrBody ''User not found''))
                else (case admin_by_id aid (admins db) of
                        None \<Rightarrow> (db, Response 401 (ErrBody ''User not found''))
                      | Some a \<Rightarrow> refresh_rotate ff now jti' ra cl a db)))"

section \<open>updateActivity and logout\<close>

text \<open>\<open>login.js\<close>, lines 142--157: success whether or not a row matched.\<close>

definition updateActivity :: "fault \<Rightarrow> ms \<Rightarrow> req_admin \<Rightarrow> auth_db \<Rightarrow> auth_result" where
  "updateActivity ff now ra db =
     (let (aid, jti) = ra in
      if fails ff 1 then (db, Response 500 (ErrBody ''Failed to update activity''))
      else (set_tokens (touch_session now jti aid (active_tokens db)) db,
            Response 200 (MsgBody ''Activity updated'')))"

text \<open>\<open>login.js\<close>, lines 159--172.\<close>

definition logout :: "fault \<Rightarrow> req_admin \<Rightarrow> auth_db \<Rightarrow> auth_result" where
  "logout ff ra db =
     (let (aid, jti) = ra in
      if fails ff 1 then (db, Response 500 (ErrBody ''Logout failed''))
      else (set_tokens (blacklist_token_of jti aid (active_tokens db)) db,
            Response 200 (MsgBody ''Logged out successfully'')))"

section \<open>The sweep\<close>

text \<open>
  \<open>runTokenCleanup\<close> (\<open>tokenCleanup.js\<close>, lines 29--32) issues
  \<open>updateExpiredTokens\<close> (query 1) and \<open>cleanupExpiredTokens\<close> (query 2)
  without waiting; both errors are only logged. \<open>src/index.js\<close> runs it at
  start and every five minutes.
\<close>

definition runTokenCleanup :: "fault \<Rightarrow> sched \<Rightarrow> ms \<Rightarrow> session_row list \<Rightarrow> session_row list" where
  "runTokenCleanup ff sc now rs =
     (let upd = (\<lambda>rs. if fails ff 1 then rs else expire_sessions now rs);
          del = (\<lambda>rs. if fails ff 2 then rs else purge_blacklisted rs)
      in case sc of FirstIssuedFirst \<Rightarrow> del (upd rs) | SecondIssuedFirst \<Rightarrow> upd (del rs))"

section \<open>Properties of the handlers\<close>

subsection \<open>Characteristic equations\<close>

lemma set_tokens_simps [simp]:
  "admins (set_tokens rs db) = admins db" "active_tokens (set_tokens rs db) = rs"
  by (simp_all add: set_tokens_def)

lemma login_guards_pass:
  assumes "present (body_identifier rq) = Some ident" "present (body_password rq) = Some pw"
    "\<not> fails ff 1" "admin_by_identifier ident (admins db) = Some a"
    "adm_status a = ''active''" "cmp pw (adm_password a)"
  shows "login cmp ff sc now jti cl rq db = login_session ff sc now jti cl a db"
  using assms by (simp add: login_def)

lemma login_session_ok:
  assumes "jti \<notin> token_id ` set (active_tokens db)"
  shows "login_session NoFault FirstIssuedFirst now jti cl a db =
     (set_tokens (blacklist_admin_sessions (adm_id a) (active_tokens db)
                  @ [new_session jti (adm_id a) (client_ip cl) (client_ua cl) now]) db,
      Response 200 (LoginBody (fst (generateAccessToken a (client_ip cl) (client_ua cl) jti now))
                      (adm_id a) (adm_name a) (adm_email a)))"
  using jti_fresh_blacklist_admin [OF assms, of "adm_id a"]
  by (simp add: login_session_def race2_def insert_session_def generateAccessToken_def new_session_def)

lemma refresh_on_live_row:
  assumes "live_rows jti aid (active_tokens db) = row # rest" "\<not> fails ff 1"
  shows "refreshToken ff now jti' (aid, jti) tok cl db =
    (if now - issued_at row < 13 * 60 * 1000 then (db, Response 200 (TokenBody tok))
     else if last_activity row - issued_at row < 1000 then
       (if fails ff 2 then db else set_tokens (blacklist_token jti (active_tokens db)) db,
        Response 401 (ErrBody ''No activity detected, session expired''))
     else if fails ff 3 then (db, Response 401 (ErrBody ''User not found''))
     else (case admin_by_id aid (admins db) of
             None \<Rightarrow> (db, Response 401 (ErrBody ''User not found''))
           | Some a \<Rightarrow> refresh_rotate ff now jti' (aid, jti) cl a db))"
  using assms by (simp add: refreshToken_def)

lemma refresh_rotate_eq:
  assumes "\<not> fails ff 5" "jti' \<notin> token_id ` set (active_tokens db)"
  shows "refresh_rotate ff now jti' (aid, jti) cl a db =
    (set_tokens ((if fails ff 4 then active_tokens db else blacklist_token jti (active_tokens db))
                 @ [new_session jti' aid (client_ip cl) (client_ua cl) now]) db,
     Response 200 (TokenBody (fst (generateAccessToken a (client_ip cl) (client_ua cl) jti' now))))"
  using assms jti_fresh_blacklist_token [OF assms(2), of jti]
  by (simp add: refresh_rotate_def insert_session_def generateAccessToken_def new_session_def Let_def)

lemma runTokenCleanup_ordered:
  "runTokenCleanup NoFault FirstIssuedFirst now rs = purge_blacklisted (expire_sessions now rs)"
  unfolding runTokenCleanup_def Let_def by simp

lemma runTokenCleanup_reversed:
  "runTokenCleanup NoFault SecondIssuedFirst now rs = expire_sessions now (purge_blacklisted rs)"
  unfolding runTokenCleanup_def Let_def by simp

subsection \<open>login\<close>

text \<open>C1. A successful login, with no store error and the blacklisting applied
  before the insert, answers 200 and leaves exactly one live session for the
  account: the new one, with the fresh session id, the client's address and
  agent, issued now.\<close>

theorem login_one_live_session:
  assumes "present (body_identifier rq) = Some ident" "present (body_password rq) = Some pw"
    "admin_by_identifier ident (admins db) = Some a"
    "adm_status a = ''active''" "cmp pw (adm_password a)"
    "jti \<notin> token_id ` set (active_tokens db)"
  shows "status (snd (login cmp NoFault FirstIssuedFirst now jti cl rq db)) = 200 \<and>
     live_sessions (adm_id a) (active_tokens (fst (login cmp NoFault FirstIssuedFirst now jti cl rq db)))
       = [new_session jti (adm_id a) (client_ip cl) (client_ua cl) now]"
  using assms by (simp add: login_guards_pass login_session_ok set_tokens_def)

text \<open>C2. \<open>login\<close> issues the blacklisting \<open>UPDATE\<close> and the \<open>INSERT\<close> of
  the new session without waiting for the first. When the pool applies the
  insert first, the update also blacklists the new session: the client gets
  200 and a token, but the account has no live session left.\<close>

theorem login_race_kills_new_session:
  assumes "present (body_identifier rq) = Some ident" "present (body_password rq) = Some pw"
    "admin_by_identifier ident (admins db) = Some a"
    "adm_status a = ''active''" "cmp pw (adm_password a)"
    "jti \<notin> token_id ` set (active_tokens db)"
  shows "status (snd (login cmp NoFault SecondIssuedFirst now jti cl rq db)) = 200 \<and>
     live_sessions (adm_id a) (active_tokens (fst (login cmp NoFault SecondIssuedFirst now jti cl rq db))) = []"
  using assms
  by (simp add: login_guards_pass login_session_def race2_def insert_session_def
      generateAccessToken_def set_tokens_def Let_def new_session_def)

text \<open>C11. A blocked account is refused with 403 and the store is unchanged:
  no session row is created.\<close>

theorem login_blocked_no_session:
  assumes "present (body_identifier rq) = Some ident" "present (body_password rq) = Some pw"
    "\<not> fails ff 1" "admin_by_identifier ident (admins db) = Some a" "adm_status a = ''blocked''"
  shows "login cmp ff sc now jti cl rq db =
     (db, Response 403 (ErrBody ''Your account is blocked. Please contact support.''))"
  using assms by (simp add: login_def)

subsection \<open>refreshToken\<close>

text \<open>C4. Within 13 minutes of issue, a refresh of a live session returns the
  presented token unchanged and changes nothing.\<close>

theorem refresh_within_window_same_token:
  assumes "live_rows jti aid (active_tokens db) = row # rest" "\<not> fails ff 1"
    "now - issued_at row < 13 * 60 * 1000"
  shows "refreshToken ff now jti' (aid, jti) tok cl db = (db, Response 200 (TokenBody tok))"
  using assms by (simp add: refresh_on_live_row)

text \<open>C5. After the window, a session whose last activity is less than one
  second after its issue is refused with 401 and blacklisted.\<close>

theorem refresh_idle_session_blacklisted:
  assumes "live_rows jti aid (active_tokens db) = row # rest"
    "13 * 60 * 1000 \<le> now - issued_at row" "last_activity row - issued_at row < 1000"
  shows "status (snd (refreshToken NoFault now jti' (aid, jti) tok cl db)) = 401 \<and>
     live_rows jti aid (active_tokens (fst (refreshToken NoFault now jti' (aid, jti) tok cl db))) = []"
  using assms by (simp add: refresh_on_live_row set_tokens_def)

text \<open>C3. After the window, with recorded activity and the account present, a
  refresh rotates: it answers 200 with a token for the fresh session id, which
  differs from the old one; the old session is no longer live and the new
  one is.\<close>

theorem refresh_rotates_session:
  assumes "live_rows jti aid (active_tokens db) = row # rest"
    "13 * 60 * 1000 \<le> now - issued_at row" "1000 \<le> last_activity row - issued_at row"
    "admin_by_id aid (admins db) = Some a" "jti' \<notin> token_id ` set (active_tokens db)"
  shows "snd (refreshToken NoFault now jti' (aid, jti) tok cl db) =
       Response 200 (TokenBody (fst (generateAccessToken a (client_ip cl) (client_ua cl) jti' now))) \<and>
     jti' \<noteq> jti \<and>
     live_rows jti aid (active_tokens (fst (refreshToken NoFault now jti' (aid, jti) tok cl db))) = [] \<and>
     live_rows jti' aid (active_tokens (fst (refreshToken NoFault now jti' (aid, jti) tok cl db))) =
       [new_session jti' aid (client_ip cl) (client_ua cl) now]"
proof -
  have "row \<in> set (active_tokens db)" "token_id row = jti"
    using live_rows_Cons [OF assms(1)] by auto
  then have ne: "jti' \<noteq> jti" using assms(5) by auto
  have "live_rows jti' aid (blacklist_token jti (active_tokens db)) = []"
    using jti_fresh_blacklist_token [OF assms(5)] by (rule live_rows_fresh)
  then show ?thesis
    using assms ne by (simp add: refresh_on_live_row refresh_rotate_eq set_tokens_def)
qed

text \<open>C6. The callback of the old session's blacklisting ignores its error.
  When that update fails, the refresh still answers 200 and inserts the new
  session, so the account has two live sessions, where the spec says the
  refresh fails with a persistence error.\<close>

theorem refresh_blacklist_failure_two_live:
  assumes "live_rows jti aid (active_tokens db) = row # rest"
    "13 * 60 * 1000 \<le> now - issued_at row" "1000 \<le> last_activity row - issued_at row"
    "admin_by_id aid (admins db) = Some a" "jti' \<notin> token_id ` set (active_tokens db)"
  shows "status (snd (refreshToken (FailAt 4) now jti' (aid, jti) tok cl db)) = 200 \<and>
     2 \<le> length (live_sessions aid (active_tokens (fst (refreshToken (FailAt 4) now jti' (aid, jti) tok cl db))))"
proof -
  have "live_sessions aid (active_tokens db) \<noteq> []"
    using assms(1) by (rule live_sessions_nonempty)
  then have "1 \<le> length (live_sessions aid (active_tokens db))"
    by (simp add: Suc_le_eq)
  then show ?thesis
    using assms by (simp add: refresh_on_live_row refresh_rotate_eq set_tokens_def)
qed

subsection \<open>updateActivity and logout\<close>

text \<open>Logout is idempotent: a second logout leaves the store as the first
  left it, the first answers 200, and the session is no longer live.\<close>

theorem logout_idempotent:
  "logout NoFault (aid, jti) (fst (logout NoFault (aid, jti) db)) = logout NoFault (aid, jti) db \<and>
   status (snd (logout NoFault (aid, jti) db)) = 200 \<and>
   live_rows jti aid (active_tokens (fst (logout NoFault (aid, jti) db))) = []"
  by (simp add: logout_def set_tokens_def)

text \<open>\<open>updateActivity\<close> answers 200 and changes nothing when the session
  is not live (already blacklisted or gone): the caller cannot tell.\<close>

theorem updateActivity_succeeds_without_session:
  assumes "live_rows jti aid (active_tokens db) = []"
  shows "updateActivity NoFault now (aid, jti) db = (db, Response 200 (MsgBody ''Activity updated''))"
  using assms by (simp add: updateActivity_def touch_session_no_live set_tokens_def)

subsection \<open>The sweep\<close>

text \<open>C8. When the blacklisting of expired sessions reaches the store before
  the delete, a sweep leaves only live, unexpired sessions.\<close>

theorem sweep_clears_expired:
  "\<forall>r \<in> set (runTokenCleanup NoFault FirstIssuedFirst now rs).
     \<not> is_blacklisted r \<and> now \<le> expires_at r"
  using purge_expire_swept [of _ now rs]
  by (simp add: runTokenCleanup_ordered swept_def)

text \<open>In that order, a second sweep at the same time changes nothing.\<close>

theorem sweep_idempotent:
  "runTokenCleanup NoFault FirstIssuedFirst now (runTokenCleanup NoFault FirstIssuedFirst now rs) =
   runTokenCleanup NoFault FirstIssuedFirst now rs"
proof -
  let ?rs' = "purge_blacklisted (expire_sessions now rs)"
  have sw: "\<forall>r \<in> set ?rs'. swept now r"
    by (intro ballI purge_expire_swept)
  have e: "expire_sessions now ?rs' = ?rs'" and p: "purge_blacklisted ?rs' = ?rs'"
    using sweep_fixpoint [OF sw] by simp_all
  show ?thesis
    unfolding runTokenCleanup_ordered e p ..
qed

text \<open>C10. The two sweep statements are issued without waiting. When the delete
  reaches the store first, an expired live session is only blacklisted by
  this sweep and is deleted by the next one at the same time: a second run
  deletes a row although nothing expired in between.\<close>

theorem sweep_reversed_defers_delete:
  assumes "r \<in> set rs" "expires_at r < now" "\<not> is_blacklisted r"
  shows "blacklist r \<in> set (runTokenCleanup NoFault SecondIssuedFirst now rs) \<and>
    blacklist r \<notin> set (runTokenCleanup NoFault SecondIssuedFirst now
                          (runTokenCleanup NoFault SecondIssuedFirst now rs))"
proof
  have "r \<in> set (purge_blacklisted rs)" using assms by simp
  then show "blacklist r \<in> set (runTokenCleanup NoFault SecondIssuedFirst now rs)"
    unfolding runTokenCleanup_reversed expire_sessions_def
    by (rule mem_update_where) (simp add: assms)
next
  let ?rs' = "purge_blacklisted (expire_sessions now (purge_blacklisted rs))"
  have sw: "\<forall>r \<in> set ?rs'. swept now r"
    by (intro ballI purge_expire_swept)
  then have "expire_sessions now ?rs' = ?rs'" by (rule sweep_fixpoint)
  then have "runTokenCleanup NoFault SecondIssuedFirst now
               (runTokenCleanup NoFault SecondIssuedFirst now rs) = ?rs'"
    unfolding runTokenCleanup_reversed .
  with sw show "blacklist r \<notin> set (runTokenCleanup NoFault SecondIssuedFirst now
                          (runTokenCleanup NoFault SecondIssuedFirst now rs))"
    by (auto simp: swept_def)
qed

end
