(* ===== verification/Middleware.thy ===== *)
theory Middleware
  imports Lifecycle
begin

text \<open>
  The Request Authenticator and the routes of the session subsystem:
  \<open>verifyToken\<close> (\<open>src/middleware/verifyToken.js\<close>, the strict variant
  that re-reads the session store), \<open>authenticateToken\<close>
  (\<open>src/middleware/authMiddleware.js\<close>, the light variant that trusts the
  token), \<open>authenticateAPIKey\<close> (\<open>src/middleware/authenticateAPIKey.js\<close>)
  and the chains of \<open>src/routes/login/login.js\<close>. A middleware either
  answers the request (\<open>Inl\<close> of the response) or passes it on (\<open>Inr\<close> of
  what it attaches to the request).

  The \<open>Authorization\<close> header is modelled by what the middlewares read
  from it: absent or empty (falsy), present with no second word
  (\<open>split(' ')[1]\<close> undefined or empty), or carrying a token string.
\<close>

datatype header = Absent | Malformed | Bearer token_str

text \<open>\<open>verifyToken\<close>, lines 5--27; query 1 is the session lookup.\<close>

definition verifyToken :: "fault \<Rightarrow> ms \<Rightarrow> header \<Rightarrow> auth_db \<Rightarrow> auth_body response + req_admin" where
  "verifyToken ff now h db =
     (case h of
        Bearer t \<Rightarrow>
          (case jwt_verify t ACCESS_TOKEN_SECRET now of
             Inl _ \<Rightarrow> Inl (Response 401 (ErrBody ''Invalid or expired token''))
           | Inr c \<Rightarrow>
               if fails ff 1 then Inl (Response 500 (ErrBody ''Database error''))
               else if live_rows (cl_jti c) (cl_id c) (active_tokens db) = [] then
                 Inl (Response 401 (ErrBody ''Token has been invalidated''))
               else Inr (cl_id c, cl_jti c))
      | _ \<Rightarrow> Inl (Response 401 (ErrBody ''Access token required'')))"

text \<open>\<open>authenticateToken\<close>, lines 3--20. It verifies with
  \<open>process.env.ACCESS_TOKEN_SECRET\<close>, an environment setting \<open>env\<close> that
  may be unset (then \<open>jwt.verify\<close> reports an error), not with the constant
  \<open>jwtUtils.js\<close> signs with.\<close>

definition authenticateToken :: "string option \<Rightarrow> ms \<Rightarrow> header \<Rightarrow> auth_body response + claims" where
  "authenticateToken env now h =
     (case h of
        Absent \<Rightarrow> Inl (Response 401 (ErrBody ''Authorization header missing''))
      | Malformed \<Rightarrow> Inl (Response 401 (ErrBody ''Access token missing''))
      | Bearer t \<Rightarrow>
          (case env of
             None \<Rightarrow> Inl (Response 403 (ErrBody ''Invalid or expired access token''))
           | Some key \<Rightarrow>
               (case jwt_verify t key now of
                  Inl _ \<Rightarrow> Inl (Response 403 (ErrBody ''Invalid or expired access token''))
                | Inr c \<Rightarrow>
                    if cl_status c = ''block'' then Inl (Response 403 (ErrBody ''Your account is blocked''))
                    else Inr c)))"

text \<open>\<open>authenticateAPIKey\<close>, lines 5--14: \<open>cfg\<close> is
  \<open>process.env.API_KEY\<close>, \<open>k\<close> the \<open>x-api-key\<close> header.\<close>

definition authenticateAPIKey :: "string option \<Rightarrow> jsstr \<Rightarrow> auth_body response + unit" where
  "authenticateAPIKey cfg k =
     (case present k of
        None \<Rightarrow> Inl (Response 401 (MsgBody ''Access Denied''))
      | Some s \<Rightarrow> if cfg \<noteq> Some s then Inl (Response 403 (MsgBody ''Invalid API key'')) else Inr ())"

section \<open>Routes\<close>

text \<open>A request to the \<open>/admin\<close> router: its two headers the middlewares
  read, the client, and the login body.\<close>

record http_req =
  hdr_api_key :: jsstr
  hdr_auth :: header
  req_client :: client
  req_body :: login_req

text \<open>\<open>req.headers['authorization'].split(' ')[1]\<close> as \<open>refreshToken\<close>
  reads it; \<open>verifyToken\<close> has admitted the request only with a token.\<close>

fun bearer_of :: "header \<Rightarrow> token_str" where
  "bearer_of (Bearer t) = t"
| "bearer_of _ = Garbage ''''"

text \<open>\<open>router.use(authenticateAPIKey)\<close>, then
  \<open>router.post('/login', login.login)\<close>.\<close>

definition route_login :: "string option \<Rightarrow> (string \<Rightarrow> string \<Rightarrow> bool) \<Rightarrow> fault \<Rightarrow> sched \<Rightarrow>
    ms \<Rightarrow> string \<Rightarrow> http_req \<Rightarrow> auth_db \<Rightarrow> auth_result" where
  "route_login cfg cmp ff sc now jti rq db =
     (case authenticateAPIKey cfg (hdr_api_key rq) of
        Inl r \<Rightarrow> (db, r)
      | Inr _ \<Rightarrow> login cmp ff sc now jti (req_client rq) (req_body rq) db)"

text \<open>\<open>router.post(path, verifyToken, handler)\<close> for the three protected
  routes; \<open>fv\<close> is the fault of \<open>verifyToken\<close>'s query, \<open>ff\<close> that of the
  handler's queries.\<close>

definition route_protected :: "string option \<Rightarrow> fault \<Rightarrow> ms \<Rightarrow> http_req \<Rightarrow> auth_db \<Rightarrow>
    (req_admin \<Rightarrow> auth_result) \<Rightarrow> auth_result" where
  "route_protected cfg fv now rq db handler =
     (case authenticateAPIKey cfg (hdr_api_key rq) of
        Inl r \<Rightarrow> (db, r)
      | Inr _ \<Rightarrow> (case verifyToken fv now (hdr_auth rq) db of
                   Inl r \<Rightarrow> (db, r)
                 | Inr ra \<Rightarrow> handler ra))"

definition route_refresh :: "string option \<Rightarrow> fault \<Rightarrow> fault \<Rightarrow> ms \<Rightarrow> string \<Rightarrow> http_req \<Rightarrow>
    auth_db \<Rightarrow> auth_result" where
  "route_refresh cfg fv ff now jti' rq db =
     route_protected cfg fv now rq db
       (\<lambda>ra. refreshToken ff now jti' ra (bearer_of (hdr_auth rq)) (req_client rq) db)"

definition route_update_activity :: "string option \<Rightarrow> fault \<Rightarrow> fault \<Rightarrow> ms \<Rightarrow> http_req \<Rightarrow>
    auth_db \<Rightarrow> auth_result" where
  "route_update_activity cfg fv ff now rq db =
     route_protected cfg fv now rq db (\<lambda>ra. updateActivity ff now ra db)"

definition route_logout :: "string option \<Rightarrow> fault \<Rightarrow> fault \<Rightarrow> ms \<Rightarrow> http_req \<Rightarrow>
    auth_db \<Rightarrow> auth_result" where
  "route_logout cfg fv ff now rq db =
     route_protected cfg fv now rq db (\<lambda>ra. logout ff ra db)"

section \<open>Properties of the middlewares\<close>

lemma authenticateToken_generated:
  "t div 1000 < now div 1000 + 1800 \<Longrightarrow> adm_status a \<noteq> ''block'' \<Longrightarrow>
   authenticateToken (Some ACCESS_TOKEN_SECRET) t (Bearer (fst (generateAccessToken a ip ua jti now))) =
     Inr (token_claims a jti ip ua)"
  by (simp add: authenticateToken_def verify_generated)

lemma verifyToken_generated:
  "t div 1000 < now div 1000 + 1800 \<Longrightarrow>
   verifyToken NoFault t (Bearer (fst (generateAccessToken a ip ua jti now))) db =
     (if live_rows jti (adm_id a) (active_tokens db) = []
      then Inl (Response 401 (ErrBody ''Token has been invalidated''))
      else Inr (adm_id a, jti))"
  by (simp add: verifyToken_def verify_generated)

text \<open>The strict authenticator admits a request exactly when it carries a
  token that verifies under the signing key, now, and the session the token
  names is live in the store; it then attaches the token's account id and
  session id.\<close>

theorem verifyToken_admits_iff:
  "verifyToken NoFault now h db = Inr (aid, jti) \<longleftrightarrow>
     (\<exists>t c. h = Bearer t \<and> jwt_verify t ACCESS_TOKEN_SECRET now = Inr c \<and>
            cl_id c = aid \<and> cl_jti c = jti \<and> live_rows jti aid (active_tokens db) \<noteq> [])"
  by (auto simp: verifyToken_def split: header.splits sum.splits)

text \<open>C13. The light authenticator's blocked check compares the status claim
  with \<open>''block''\<close>, while accounts are stored as \<open>''blocked''\<close>: a valid
  token minted for a blocked account is admitted.\<close>

theorem authenticateToken_admits_blocked:
  assumes "adm_status a = ''blocked''" "t \<le> now + 1799000"
  shows "authenticateToken (Some ACCESS_TOKEN_SECRET) t (Bearer (fst (generateAccessToken a ip ua jti now))) =
     Inr (token_claims a jti ip ua)"
  using assms by (simp add: authenticateToken_generated generated_valid_within)

text \<open>C17. The light authenticator verifies with the environment's
  \<open>ACCESS_TOKEN_SECRET\<close>; unless that setting equals the constant tokens are
  signed with, it refuses every minted token with 403.\<close>

theorem authenticateToken_env_secret_mismatch:
  assumes "env \<noteq> Some ACCESS_TOKEN_SECRET"
  shows "authenticateToken env t (Bearer (fst (generateAccessToken a ip ua jti now))) =
     Inl (Response 403 (ErrBody ''Invalid or expired access token''))"
  using assms
  by (cases env) (auto simp: authenticateToken_def generateAccessToken_def jwt_sign_def Let_def)

text \<open>The API-key gate passes a request exactly when its \<open>x-api-key\<close>
  header is a non-empty string equal to the configured key; with no key
  configured, it refuses every request.\<close>

theorem authenticateAPIKey_admits_iff:
  "authenticateAPIKey cfg k = Inr () \<longleftrightarrow> (\<exists>s. present k = Some s \<and> cfg = Some s)"
  by (auto simp: authenticateAPIKey_def split: option.splits)

end
