(* ===== verification/Branches.thy ===== *)
theory Branches
  imports Prelude "HOL-Library.Char_ord" "HOL-Library.List_Lexorder" "HOL-Library.Option_ord" "HOL-Library.Product_Lexorder"
    "HOL-Library.Multiset"
begin

text \<open>
  Branches and branch categories: the \<open>branches\<close> and \<open>category_branch\<close>
  tables of \<open>src/controller/settings/branchSetting.js\<close>. A branch's
  \<open>category_id\<close> may be \<open>NULL\<close> (uncategorised); its status is the string
  the handlers write (\<open>'active'\<close> or \<open>'inactive'\<close>). Timestamps set by
  \<open>CURRENT_TIMESTAMP\<close> are the clock input \<open>now\<close>; the auto-increment id
  of an insert is an input too.
\<close>

record branch =
  br_id :: nat
  br_name :: string
  br_category :: "nat option"
  br_location :: string
  br_phone_main :: string
  br_phone_orders :: jsstr
  br_email_info :: string
  br_email_orders :: jsstr
  br_opening_hours :: string
  br_map_embed :: jsstr
  br_status :: string
  br_created :: ms
  br_updated :: ms

record branch_category =
  bc_id :: nat
  bc_name :: string
  bc_status :: string
  bc_created :: ms
  bc_updated :: ms

record branch_db =
  branches :: "branch list"
  categories :: "branch_category list"

text \<open>\<open>SELECT id FROM branches WHERE id = ? AND status = "active"\<close>
  (\<open>contact.js\<close>, line 97).\<close>

definition active_branch :: "nat \<Rightarrow> branch list \<Rightarrow> bool" where
  "active_branch bid bs \<longleftrightarrow> list_ex (\<lambda>b. br_id b = bid \<and> br_status b = ''active'') bs"

datatype branch_body =
    BrErr string
  | BrMsg string
  | BrAffected string nat
  | BrCreated string nat
  | BrRows "(branch \<times> string option) list"
  | BrRow "branch \<times> string option"
  | BrStats nat nat nat
  | BrCats "branch_category list"

type_synonym branch_result = "branch_db \<times> branch_body response"

section \<open>Reads\<close>

text \<open>\<open>FROM branches b LEFT JOIN category_branch c ON b.category_id = c.id\<close>:
  one row per matching category, or one row with a \<open>NULL\<close> name.\<close>

definition left_join :: "branch_category list \<Rightarrow> branch \<Rightarrow> (branch \<times> string option) list" where
  "left_join cs b =
     (case filter (\<lambda>c. br_category b = Some (bc_id c)) cs of
        [] \<Rightarrow> [(b, None)]
      | ms \<Rightarrow> map (\<lambda>c. (b, Some (bc_name c))) ms)"

definition branch_rows :: "branch_category list \<Rightarrow> branch list \<Rightarrow> (branch \<times> string option) list" where
  "branch_rows cs bs = concat (map (left_join cs) bs)"

text \<open>\<open>ORDER BY\<close> compares strings under the table's collation, given as a
  key function \<open>coll\<close>; \<open>NULL\<close> sorts first (\<open>None < Some _\<close>).
  Rows with equal keys come in an order SQL leaves open; the model keeps
  their storage order. \<open>getAllBranchesForDashboard\<close>, lines 5--28.\<close>

definition getAllBranchesForDashboard ::
  "(string \<Rightarrow> string) \<Rightarrow> fault \<Rightarrow> branch_db \<Rightarrow> branch_body response" where
  "getAllBranchesForDashboard coll ff db =
     (if fails ff 1 then Response 500 (BrErr ''Error fetching branches'')
      else Response 200 (BrRows (sort_key (\<lambda>(b, cn). (coll (br_status b), map_option coll cn, coll (br_name b)))
                                   (branch_rows (categories db) (branches db)))))"

text \<open>\<open>getAllBranchesForWebsite\<close>, lines 31--57.\<close>

definition getAllBranchesForWebsite ::
  "(string \<Rightarrow> string) \<Rightarrow> fault \<Rightarrow> branch_db \<Rightarrow> branch_body response" where
  "getAllBranchesForWebsite coll ff db =
     (if fails ff 1 then Response 500 (BrErr ''Error fetching branches'')
      else Response 200 (BrRows (sort_key (\<lambda>(b, cn). (map_option coll cn, coll (br_name b)))
             (branch_rows (categories db) (filter (\<lambda>b. br_status b = ''active'') (branches db))))))"

text \<open>\<open>getBranchById\<close>, lines 60--100. \<open>req.params.id\<close> is \<open>None\<close> when
  missing (the routes always supply it).\<close>

definition getBranchById :: "fault \<Rightarrow> nat option \<Rightarrow> branch_db \<Rightarrow> branch_body response" where
  "getBranchById ff pid db =
     (case pid of
        None \<Rightarrow> Response 400 (BrErr ''Branch ID is required'')
      | Some i \<Rightarrow>
          if fails ff 1 then Response 500 (BrErr ''Error fetching branch data'')
          else case branch_rows (categories db) (filter (\<lambda>b. br_id b = i) (branches db)) of
            [] \<Rightarrow> Response 404 (BrErr ''Branch not found'')
          | r # _ \<Rightarrow> Response 200 (BrRow r))"

text \<open>\<open>getBranchStats\<close>, lines 332--357.\<close>

definition getBranchStats :: "fault \<Rightarrow> branch_db \<Rightarrow> branch_body response" where
  "getBranchStats ff db =
     (if fails ff 1 then Response 500 (BrErr ''Error fetching branch statistics'')
      else Response 200 (BrStats (length (branches db))
             (length (filter (\<lambda>b. br_status b = ''active'') (branches db)))
             (length (filter (\<lambda>b. br_status b = ''inactive'') (branches db)))))"

text \<open>\<open>getAllCategories\<close>, lines 362--381.\<close>

definition getAllCategories :: "(string \<Rightarrow> string) \<Rightarrow> fault \<Rightarrow> branch_db \<Rightarrow> branch_body response" where
  "getAllCategories coll ff db =
     (if fails ff 1 then Response 500 (BrErr ''Error fetching categories'')
      else Response 200 (BrCats (sort_key (\<lambda>c. (coll (bc_status c), coll (bc_name c))) (categories db))))"

section \<open>Writes\<close>

text \<open>The body of \<open>addBranch\<close> and \<open>updateBranch\<close>; \<open>category_id\<close>
  is a number or absent.\<close>

record branch_form =
  bf_name :: jsstr
  bf_category :: "nat option"
  bf_location :: jsstr
  bf_phone_main :: jsstr
  bf_phone_orders :: jsstr
  bf_email_info :: jsstr
  bf_email_orders :: jsstr
  bf_opening_hours :: jsstr
  bf_map_embed :: jsstr

text \<open>\<open>category_id || null\<close>.\<close>

definition category_or_null :: "nat option \<Rightarrow> nat option" where
  "category_or_null c = (case c of Some n \<Rightarrow> if n = 0 then None else Some n | None \<Rightarrow> None)"

text \<open>\<open>!status || !['active', 'inactive'].includes(status)\<close>, negated.\<close>

definition status_ok :: "jsstr \<Rightarrow> bool" where
  "status_ok st \<longleftrightarrow> truthy st \<and> the st \<in> set [''active'', ''inactive'']"

text \<open>The \<open>SET\<close> list of \<open>updateBranch\<close> (lines 134--147).\<close>

definition edit_branch :: "ms \<Rightarrow> branch_form \<Rightarrow> branch \<Rightarrow> branch" where
  "edit_branch now f b =
     b\<lparr>br_category := category_or_null (bf_category f), br_location := the (bf_location f),
       br_phone_main := the (bf_phone_main f), br_phone_orders := bf_phone_orders f,
       br_email_info := the (bf_email_info f), br_email_orders := bf_email_orders f,
       br_opening_hours := the (bf_opening_hours f), br_map_embed := bf_map_embed f,
       br_updated := now\<rparr>"

text \<open>\<open>updateBranch\<close>, lines 103--184. \<open>affectedRows\<close> counts the
  matched rows (the \<open>SET\<close> always changes \<open>updated_at\<close>).\<close>

definition updateBranch :: "fault \<Rightarrow> ms \<Rightarrow> nat option \<Rightarrow> branch_form \<Rightarrow> branch_db \<Rightarrow> branch_result" where
  "updateBranch ff now pid f db =
     (case pid of
        None \<Rightarrow> (db, Response 400 (BrErr ''Branch ID is required''))
      | Some i \<Rightarrow>
          if \<not> (truthy (bf_location f) \<and> truthy (bf_phone_main f) \<and> truthy (bf_email_info f) \<and>
                 truthy (bf_opening_hours f))
          then (db, Response 400 (BrErr ''Location, main phone, info email, and opening hours are required''))
          else if fails ff 1 then (db, Response 500 (BrErr ''Error updating branch data''))
          else let n = length (filter (\<lambda>b. br_id b = i) (branches db));
                   db' = db\<lparr>branches := update_where (\<lambda>b. br_id b = i) (edit_branch now f) (branches db)\<rparr> in
            if n = 0 then (db', Response 404 (BrErr ''Branch not found or no changes made''))
            else (db', Response 200 (BrAffected ''Branch updated successfully'' n)))"

text \<open>\<open>updateBranchStatus\<close>, lines 187--230.\<close>

definition updateBranchStatus :: "fault \<Rightarrow> ms \<Rightarrow> nat option \<Rightarrow> jsstr \<Rightarrow> branch_db \<Rightarrow> branch_result" where
  "updateBranchStatus ff now pid st db =
     (case pid of
        None \<Rightarrow> (db, Response 400 (BrErr ''Branch ID is required''))
      | Some i \<Rightarrow>
          if \<not> status_ok st then (db, Response 400 (BrErr ''Valid status (active/inactive) is required''))
          else if fails ff 1 then (db, Response 500 (BrErr ''Error updating branch status''))
          else let n = length (filter (\<lambda>b. br_id b = i) (branches db));
                   db' = db\<lparr>branches := update_where (\<lambda>b. br_id b = i)
                                         (\<lambda>b. b\<lparr>br_status := the st, br_updated := now\<rparr>) (branches db)\<rparr> in
            if n = 0 then (db', Response 404 (BrErr ''Branch not found''))
            else (db', Response 200 (BrAffected (''Branch status updated to '' @ the st @ '' successfully'') n)))"

text \<open>\<open>addBranch\<close>, lines 233--291: the inserted row has the form's
  columns, status \<open>'active'\<close>, and \<open>nid\<close>, the auto-increment id.\<close>

definition addBranch :: "fault \<Rightarrow> ms \<Rightarrow> nat \<Rightarrow> branch_form \<Rightarrow> branch_db \<Rightarrow> branch_result" where
  "addBranch ff now nid f db =
     (if \<not> (truthy (bf_name f) \<and> truthy (bf_location f) \<and> truthy (bf_phone_main f) \<and>
            truthy (bf_email_info f) \<and> truthy (bf_opening_hours f))
      then (db, Response 400 (BrErr ''Name, location, main phone, info email, and opening hours are required''))
      else if fails ff 1 then (db, Response 500 (BrErr ''Error adding new branch''))
      else (db\<lparr>branches := branches db @
              [\<lparr>br_id = nid, br_name = the (bf_name f), br_category = category_or_null (bf_category f),
                br_location = the (bf_location f), br_phone_main = the (bf_phone_main f),
                br_phone_orders = bf_phone_orders f, br_email_info = the (bf_email_info f),
                br_email_orders = bf_email_orders f, br_opening_hours = the (bf_opening_hours f),
                br_map_embed = bf_map_embed f, br_status = ''active'', br_created = now,
                br_updated = now\<rparr>]\<rparr>,
            Response 201 (BrCreated ''Branch added successfully'' nid)))"

text \<open>\<open>deleteBranch\<close>, lines 294--329.\<close>

definition deleteBranch :: "fault \<Rightarrow> nat option \<Rightarrow> branch_db \<Rightarrow> branch_result" where
  "deleteBranch ff pid db =
     (case pid of
        None \<Rightarrow> (db, Response 400 (BrErr ''Branch ID is required''))
      | Some i \<Rightarrow>
          if fails ff 1 then (db, Response 500 (BrErr ''Error deleting branch''))
          else let n = length (filter (\<lambda>b. br_id b = i) (branches db)) in
            if n = 0 then (db, Response 404 (BrErr ''Branch not found''))
            else (db\<lparr>branches := delete_where (\<lambda>b. br_id b = i) (branches db)\<rparr>,
                  Response 200 (BrAffected ''Branch permanently deleted from database'' n)))"

text \<open>\<open>addCategory\<close>, lines 384--416.\<close>

definition addCategory :: "fault \<Rightarrow> ms \<Rightarrow> nat \<Rightarrow> jsstr \<Rightarrow> branch_db \<Rightarrow> branch_result" where
  "addCategory ff now nid nm db =
     (if \<not> truthy nm then (db, Response 400 (BrErr ''Category name is required''))
      else if fails ff 1 then (db, Response 500 (BrErr ''Error adding new category''))
      else (db\<lparr>categories := categories db @
              [\<lparr>bc_id = nid, bc_name = the nm, bc_status = ''active'', bc_created = now, bc_updated = now\<rparr>]\<rparr>,
            Response 201 (BrCreated ''Category added successfully'' nid)))"

text \<open>\<open>updateCategoryStatus\<close>, lines 419--462.\<close>

definition updateCategoryStatus :: "fault \<Rightarrow> ms \<Rightarrow> nat option \<Rightarrow> jsstr \<Rightarrow> branch_db \<Rightarrow> branch_result" where
  "updateCategoryStatus ff now pid st db =
     (case pid of
        None \<Rightarrow> (db, Response 400 (BrErr ''Category ID is required''))
      | Some i \<Rightarrow>
          if \<not> status_ok st then (db, Response 400 (BrErr ''Valid status (active/inactive) is required''))
          else if fails ff 1 then (db, Response 500 (BrErr ''Error updating category status''))
          else let n = length (filter (\<lambda>c. bc_id c = i) (categories db));
                   db' = db\<lparr>categories := update_where (\<lambda>c. bc_id c = i)
                                         (\<lambda>c. c\<lparr>bc_status := the st, bc_updated := now\<rparr>) (categories db)\<rparr> in
            if n = 0 then (db', Response 404 (BrErr ''Category not found''))
            else (db', Response 200 (BrAffected (''Category status updated to '' @ the st @ '' successfully'') n)))"

text \<open>\<open>deleteCategory\<close>, lines 465--515: first the branches of the category
  become uncategorised (query 1), then the category row is deleted (query
  2, issued from the first one's callback).\<close>

definition uncategorise :: "nat \<Rightarrow> branch list \<Rightarrow> branch list" where
  "uncategorise i bs = update_where (\<lambda>b. br_category b = Some i) (\<lambda>b. b\<lparr>br_category := None\<rparr>) bs"

definition deleteCategory :: "fault \<Rightarrow> nat option \<Rightarrow> branch_db \<Rightarrow> branch_result" where
  "deleteCategory ff pid db =
     (case pid of
        None \<Rightarrow> (db, Response 400 (BrErr ''Category ID is required''))
      | Some i \<Rightarrow>
          if fails ff 1 then (db, Response 500 (BrErr ''Error preparing category deletion''))
          else let db1 = db\<lparr>branches := uncategorise i (branches db)\<rparr> in
            if fails ff 2 then (db1, Response 500 (BrErr ''Error deleting category''))
            else let n = length (filter (\<lambda>c. bc_id c = i) (categories db1));
                     db2 = db1\<lparr>categories := delete_where (\<lambda>c. bc_id c = i) (categories db1)\<rparr> in
              if n = 0 then (db2, Response 404 (BrErr ''Category not found''))
              else (db2, Response 200 (BrAffected ''Category deleted successfully, associated branches updated'' n)))"

section \<open>The write operations as steps\<close>

text \<open>The writes of \<open>branchSetting.js\<close> as the operations of one store,
  each with its own fault, clock and inputs; the reads leave the store as
  it is.\<close>

datatype branch_op =
    UpdateBranch fault ms "nat option" branch_form
  | UpdateBranchStatus fault ms "nat option" jsstr
  | AddBranch fault ms nat branch_form
  | DeleteBranch fault "nat option"
  | AddCategory fault ms nat jsstr
  | UpdateCategoryStatus fault ms "nat option" jsstr
  | DeleteCategory fault "nat option"

fun branch_step :: "branch_op \<Rightarrow> branch_db \<Rightarrow> branch_db" where
  "branch_step (UpdateBranch ff now pid f) db = fst (updateBranch ff now pid f db)"
| "branch_step (UpdateBranchStatus ff now pid st) db = fst (updateBranchStatus ff now pid st db)"
| "branch_step (AddBranch ff now nid f) db = fst (addBranch ff now nid f db)"
| "branch_step (DeleteBranch ff pid) db = fst (deleteBranch ff pid db)"
| "branch_step (AddCategory ff now nid nm) db = fst (addCategory ff now nid nm db)"
| "branch_step (UpdateCategoryStatus ff now pid st) db = fst (updateCategoryStatus ff now pid st db)"
| "branch_step (DeleteCategory ff pid) db = fst (deleteCategory ff pid db)"

definition branch_run :: "branch_op list \<Rightarrow> branch_db \<Rightarrow> branch_db" where
  "branch_run ops db = fold branch_step ops db"

text \<open>Every status the store holds is one the handlers write.\<close>

definition statuses_ok :: "branch_db \<Rightarrow> bool" where
  "statuses_ok db \<longleftrightarrow>
     list_all (\<lambda>b. br_status b \<in> set [''active'', ''inactive'']) (branches db) \<and>
     list_all (\<lambda>c. bc_status c \<in> set [''active'', ''inactive'']) (categories db)"

text \<open>Every category a branch names exists.\<close>

definition cat_ref_ok :: "branch_category list \<Rightarrow> branch \<Rightarrow> bool" where
  "cat_ref_ok cs b \<longleftrightarrow> (case br_category b of None \<Rightarrow> True | Some c \<Rightarrow> c \<in> set (map bc_id cs))"

definition refs_ok :: "branch_db \<Rightarrow> bool" where
  "refs_ok db \<longleftrightarrow> list_all (cat_ref_ok (categories db)) (branches db)"

section \<open>Properties\<close>

lemma status_ok_value: "status_ok st \<Longrightarrow> the st \<in> set [''active'', ''inactive'']"
  by (simp add: status_ok_def)

lemma statuses_ok_step: "statuses_ok db \<Longrightarrow> statuses_ok (branch_step op db)"
proof (cases op)
  case (UpdateBranchStatus ff now pid st)
  then show "statuses_ok db \<Longrightarrow> ?thesis"
    by (auto simp: updateBranchStatus_def statuses_ok_def Let_def status_ok_def
             intro!: list_all_update_where split: option.split)
next
  case (UpdateCategoryStatus ff now pid st)
  then show "statuses_ok db \<Longrightarrow> ?thesis"
    by (auto simp: updateCategoryStatus_def statuses_ok_def Let_def status_ok_def
             intro!: list_all_update_where split: option.split)
qed (auto simp: updateBranch_def addBranch_def deleteBranch_def addCategory_def deleteCategory_def
      statuses_ok_def Let_def edit_branch_def uncategorise_def
      intro!: list_all_update_where list_all_delete_where split: option.split)

lemma statuses_ok_run: "statuses_ok db \<Longrightarrow> statuses_ok (branch_run ops db)"
  unfolding branch_run_def by (induction ops arbitrary: db) (simp_all add: statuses_ok_step)

text \<open>C28. From a store whose statuses are all \<open>'active'\<close> or
  \<open>'inactive'\<close>, after any sequence of the write handlers, with any faults
  and inputs, the statistics' active and inactive counts add up to the
  total.\<close>

theorem branch_stats_partition:
  assumes "statuses_ok db"
    and "getBranchStats NoFault (branch_run ops db) = Response 200 (BrStats t a i)"
  shows "a + i = t"
proof -
  have "statuses_ok (branch_run ops db)" using assms(1) by (rule statuses_ok_run)
  then show ?thesis using assms(2)
    by (auto simp: getBranchStats_def statuses_ok_def length_filter_two_values)
qed

lemma cat_refs_uncategorise [row_ops]:
  "list_all (cat_ref_ok cs) bs \<Longrightarrow> list_all (cat_ref_ok cs) (uncategorise i bs)"
  "list_all (cat_ref_ok cs) bs \<Longrightarrow>
     list_all (cat_ref_ok (delete_where (\<lambda>c. bc_id c = i) cs)) (uncategorise i bs)"
  by (induction bs) (auto simp: uncategorise_def delete_where_def cat_ref_ok_def split: option.splits)

text \<open>C29. Deleting a category keeps every branch's category reference
  valid, whichever of its two queries fails: the branches are
  uncategorised before the category row goes.\<close>

theorem deleteCategory_keeps_refs: "refs_ok db \<Longrightarrow> refs_ok (fst (deleteCategory ff pid db))"
  by (simp add: deleteCategory_def refs_ok_def Let_def cat_refs_uncategorise split: option.split)


lemma map_fst_left_join:
  assumes "distinct (map bc_id cs)" shows "map fst (left_join cs b) = [b]"
proof (cases "br_category b")
  case None then show ?thesis by (simp add: left_join_def)
next
  case (Some k)
  have "filter (\<lambda>c. br_category b = Some (bc_id c)) cs = filter (\<lambda>c. bc_id c = k) cs"
    using Some by (metis option.inject)
  moreover have "length (filter (\<lambda>c. bc_id c = k) cs) \<le> 1"
    using assms by (rule length_filter_distinct_key)
  ultimately show ?thesis
    by (auto simp: left_join_def split: list.split)
qed

lemma map_fst_branch_rows:
  "distinct (map bc_id cs) \<Longrightarrow> map fst (branch_rows cs bs) = bs"
  by (induction bs) (simp_all add: branch_rows_def map_fst_left_join)

text \<open>C30. With category ids unique, the website list has each active
  branch exactly once, ordered by category name (uncategorised first) and
  branch name.\<close>

theorem website_lists_active_branches:
  assumes "distinct (map bc_id (categories db))"
    and "getAllBranchesForWebsite coll NoFault db = Response 200 (BrRows rs)"
  shows "mset (map fst rs) = mset (filter (\<lambda>b. br_status b = ''active'') (branches db)) \<and>
         sorted (map (\<lambda>(b, cn). (map_option coll cn, coll (br_name b))) rs)"
proof -
  have h: "image_mset fst (mset (branch_rows (categories db) bs)) = mset bs" for bs
    using map_fst_branch_rows [OF assms(1), of bs] by (metis mset_map)
  show ?thesis
    using assms(2) h [of "filter (\<lambda>b. br_status b = ''active'') (branches db)"]
    by (auto simp: getAllBranchesForWebsite_def mset_sort simp del: mset_filter)
qed

text \<open>\<open>addBranch\<close> stores a category id without checking that the
  category exists, leaving a dangling reference.\<close>

theorem addBranch_unchecked_category:
  assumes "truthy (bf_name f)" "truthy (bf_location f)" "truthy (bf_phone_main f)"
    "truthy (bf_email_info f)" "truthy (bf_opening_hours f)"
    "bf_category f = Some c" "c \<noteq> 0" "c \<notin> set (map bc_id (categories db))"
  shows "status (snd (addBranch NoFault now nid f db)) = 201 \<and> \<not> refs_ok (fst (addBranch NoFault now nid f db))"
  using assms by (simp add: addBranch_def refs_ok_def cat_ref_ok_def category_or_null_def)

lemma updateBranchStatus_inactive:
  "\<not> fails ff 1 \<Longrightarrow>
     \<not> active_branch i (branches (fst (updateBranchStatus ff now (Some i) (Some ''inactive'') db)))"
  by (simp add: updateBranchStatus_def status_ok_def active_branch_def Let_def list_ex_update_where)

end
