(* ===== verification/AdminMgmt.thy ===== *)
theory AdminMgmt
  imports Sessions
begin

text \<open>
  Admin management: the handlers of \<open>src/controller/manage-admin/admin.js\<close>
  (\<open>getadmin\<close>, \<open>getadminbyid\<close>, \<open>addadmin\<close>, \<open>adminstatus\<close>,
  \<open>updateadmin\<close>, \<open>deleteAdmin\<close>) on the same store as the session handlers:
  \<open>deleteAdmin\<close> deletes the account's sessions first. \<open>addadmin\<close>'s
  input checks are executable predicates: the two regular expressions of the
  source are written as functions on strings (characters are bytes; the
  whitespace class is the ASCII one), and a reference definition of the email
  pattern, by its decomposition, is given beside the check.
  \<open>bcrypt.hash\<close> is the parameter \<open>hash\<close>; the \<open>AUTO_INCREMENT\<close> id of
  an inserted row is the input \<open>new_id\<close>.
\<close>

datatype admin_body =
    AdmErr string
  | AdmMsg string
  | AdmRow admin
  | AdmRows "admin list"
  | AdmStatus string admin

type_synonym admin_result = "auth_db \<times> admin_body response"

definition set_admins :: "admin list \<Rightarrow> auth_db \<Rightarrow> auth_db" where
  "set_admins as db = db\<lparr>admins := as\<rparr>"

section \<open>Input checks of addadmin\<close>

text \<open>\<open>[^\s@]\<close>.\<close>

definition email_char :: "char \<Rightarrow> bool" where
  "email_char c \<longleftrightarrow> \<not> is_js_space c \<and> c \<noteq> CHR ''@''"

text \<open>\<open>/^[^\s@]+@[^\s@]+\.[^\s@]+$/.test(email)\<close> (line 43), as the source's
  pattern describes the string: one \<open>@\<close>, no whitespace, a non-empty local
  part, and after the \<open>@\<close> a dot that is neither its first nor its last
  character.\<close>

definition email_ok :: "string \<Rightarrow> bool" where
  "email_ok s \<longleftrightarrow>
     list_all (\<lambda>c. \<not> is_js_space c) s \<and> count_list s (CHR ''@'') = 1 \<and>
     (let a = takeWhile (\<lambda>c. c \<noteq> CHR ''@'') s;
          r = drop (Suc (length a)) s
      in a \<noteq> [] \<and> CHR ''.'' \<in> set (butlast (drop 1 r)))"

text \<open>The same pattern by its decomposition: the reference the check is
  proved equal to.\<close>

definition email_regex :: "string \<Rightarrow> bool" where
  "email_regex s \<longleftrightarrow>
     (\<exists>a b c. s = a @ CHR ''@'' # b @ CHR ''.'' # c \<and> a \<noteq> [] \<and> b \<noteq> [] \<and> c \<noteq> [] \<and>
        list_all email_char a \<and> list_all email_char b \<and> list_all email_char c)"

text \<open>\<open>/^[0-9]{10}$/.test(number)\<close> (line 49).\<close>

definition number_ok :: "string \<Rightarrow> bool" where
  "number_ok s \<longleftrightarrow> length s = 10 \<and> list_all (\<lambda>c. c \<in> set ''0123456789'') s"

text \<open>\<open>status?.toLowerCase() === "blocked" ? "blocked" : "active"\<close>
  (line 80), with ASCII case folding.\<close>

definition ascii_lower :: "char \<Rightarrow> char" where
  "ascii_lower c = (let n = (of_char c :: nat) in if 65 \<le> n \<and> n \<le> 90 then char_of (n + 32) else c)"

definition status_value :: "jsstr \<Rightarrow> string" where
  "status_value st =
     (case st of Some s \<Rightarrow> if map ascii_lower s = ''blocked'' then ''blocked'' else ''active''
               | None \<Rightarrow> ''active'')"

section \<open>Duplicate check of addadmin\<close>

text \<open>\<open>SELECT name, email, number FROM admin WHERE email = ? OR number = ? OR
  name = ?\<close> (line 60).\<close>

definition conflict_rows :: "string \<Rightarrow> string \<Rightarrow> string \<Rightarrow> admin list \<Rightarrow> admin list" where
  "conflict_rows nm e n as = filter (\<lambda>a. adm_email a = e \<or> adm_number a = n \<or> adm_name a = nm) as"

text \<open>\<open>if (cond && !conflicts.includes(x)) conflicts.push(x)\<close>.\<close>

definition push_new :: "bool \<Rightarrow> string \<Rightarrow> string list \<Rightarrow> string list" where
  "push_new b x cs = (if b \<and> x \<notin> set cs then cs @ [x] else cs)"

text \<open>\<open>results.forEach(...)\<close> (lines 67--72).\<close>

fun add_conflicts :: "string \<Rightarrow> string \<Rightarrow> string \<Rightarrow> string list \<Rightarrow> admin list \<Rightarrow> string list" where
  "add_conflicts nm e n cs [] = cs"
| "add_conflicts nm e n cs (r # rs) =
     add_conflicts nm e n
       (push_new (adm_name r = nm) ''Name''
         (push_new (adm_number r = n) ''Number''
           (push_new (adm_email r = e) ''Email'' cs))) rs"

text \<open>\<open>conflicts.join(", ")\<close>.\<close>

fun join_with :: "string \<Rightarrow> string list \<Rightarrow> string" where
  "join_with sep [] = []"
| "join_with sep [x] = x"
| "join_with sep (x # y # xs) = x @ sep @ join_with sep (y # xs)"

text \<open>The data model of the spec: ids, emails, numbers and names are unique;
  \<open>addadmin\<close> also refuses a taken name.\<close>

definition accounts_unique :: "admin list \<Rightarrow> bool" where
  "accounts_unique as \<longleftrightarrow> distinct (map adm_id as) \<and> distinct (map adm_email as) \<and>
     distinct (map adm_number as) \<and> distinct (map adm_name as)"

section \<open>Handlers\<close>

record admin_form =
  f_name :: jsstr
  f_email :: jsstr
  f_number :: jsstr
  f_password :: jsstr
  f_status :: jsstr

text \<open>\<open>addadmin\<close> (lines 33--97): query 1 is the duplicate check, query 2
  the insert.\<close>

definition addadmin :: "(string \<Rightarrow> string) \<Rightarrow> fault \<Rightarrow> nat \<Rightarrow> admin_form \<Rightarrow> auth_db \<Rightarrow> admin_result" where
  "addadmin hash ff new_id f db =
     (case (present (f_name f), present (f_email f), present (f_number f), present (f_password f)) of
        (Some nm, Some e, Some n, Some pw) \<Rightarrow>
          if \<not> email_ok e then (db, Response 400 (AdmErr ''Invalid email format''))
          else if \<not> number_ok n then (db, Response 400 (AdmErr ''Invalid number format. Must be 10 digits''))
          else if length pw < 6 then (db, Response 400 (AdmErr ''Password must be at least 6 characters long''))
          else if fails ff 1 then (db, Response 500 (AdmErr ''Database query failed. Check your SQL syntax.''))
          else
            (let cs = add_conflicts nm e n [] (conflict_rows nm e n (admins db)) in
             if cs \<noteq> [] then (db, Response 400 (AdmErr (join_with '', '' cs @ '' already exists'')))
             else if fails ff 2 then
               (db, Response 500 (AdmErr ''Failed to insert admin. Please check your SQL query.''))
             else
               (set_admins (admins db @
                  [\<lparr>adm_id = new_id, adm_name = nm, adm_email = e, adm_number = n,
                    adm_password = hash pw, adm_status = status_value (f_status f)\<rparr>]) db,
                Response 200 (AdmMsg ''Admin added successfully'')))
      | _ \<Rightarrow> (db, Response 400 (AdmErr ''All fields (name, email, number, password) are required'')))"

text \<open>\<open>getadmin\<close> and \<open>getadminbyid\<close> (lines 8--30).\<close>

definition getadmin :: "fault \<Rightarrow> auth_db \<Rightarrow> admin_body response" where
  "getadmin ff db =
     (if fails ff 1 then Response 500 (AdmErr ''Database query failed'')
      else Response 200 (AdmRows (admins db)))"

definition getadminbyid :: "fault \<Rightarrow> nat \<Rightarrow> auth_db \<Rightarrow> admin_body response" where
  "getadminbyid ff aid db =
     (if fails ff 1 then Response 500 (AdmErr ''Database query failed'')
      else case admin_by_id aid (admins db) of
             None \<Rightarrow> Response 404 (AdmErr ''Admin not found'')
           | Some a \<Rightarrow> Response 200 (AdmRow a))"

text \<open>\<open>UPDATE admin SET status = ? WHERE id = ?\<close>.\<close>

definition set_status_where :: "nat \<Rightarrow> string \<Rightarrow> admin list \<Rightarrow> admin list" where
  "set_status_where aid st = update_where (\<lambda>a. adm_id a = aid) (\<lambda>a. a\<lparr>adm_status := st\<rparr>)"

text \<open>\<open>adminstatus\<close> (lines 101--138): query 1 the lookup, query 2 the
  update; the existence check comes before the validation of the value.\<close>

definition adminstatus :: "fault \<Rightarrow> nat \<Rightarrow> jsstr \<Rightarrow> auth_db \<Rightarrow> admin_result" where
  "adminstatus ff aid st db =
     (if fails ff 1 then (db, Response 500 (AdmErr ''Database error while checking admin''))
      else case admin_by_id aid (admins db) of
        None \<Rightarrow> (db, Response 404 (AdmMsg ''Admin not found''))
      | Some a \<Rightarrow>
          (case st of
             Some s \<Rightarrow>
               if s \<notin> {''active'', ''blocked''} then
                 (db, Response 400 (AdmMsg (''Invalid status value. Allowed: 'active' or 'blocked'' @ [CHR 0x27])))
               else if fails ff 2 then (db, Response 500 (AdmErr ''Error updating admin status''))
               else (set_admins (set_status_where aid s (admins db)) db,
                     Response 200 (AdmStatus ''Admin status updated successfully'' (a\<lparr>adm_status := s\<rparr>)))
           | None \<Rightarrow> (db, Response 400 (AdmMsg (''Invalid status value. Allowed: 'active' or 'blocked'' @ [CHR 0x27])))))"

text \<open>The body of \<open>updateadmin\<close>: the columns a client may send; \<open>None\<close> is
  a key that is not in \<open>req.body\<close>.\<close>

record admin_patch =
  p_id :: "nat option"
  p_name :: "string option"
  p_email :: "string option"
  p_number :: "string option"
  p_password :: "string option"
  p_status :: "string option"

definition patch_admin :: "admin_patch \<Rightarrow> admin \<Rightarrow> admin" where
  "patch_admin p a =
     \<lparr>adm_id = (case p_id p of Some i \<Rightarrow> i | None \<Rightarrow> adm_id a),
      adm_name = (case p_name p of Some v \<Rightarrow> v | None \<Rightarrow> adm_name a),
      adm_email = (case p_email p of Some v \<Rightarrow> v | None \<Rightarrow> adm_email a),
      adm_number = (case p_number p of Some v \<Rightarrow> v | None \<Rightarrow> adm_number a),
      adm_password = (case p_password p of Some v \<Rightarrow> v | None \<Rightarrow> adm_password a),
      adm_status = (case p_status p of Some v \<Rightarrow> v | None \<Rightarrow> adm_status a)\<rparr>"

definition patch_empty :: "admin_patch \<Rightarrow> bool" where
  "patch_empty p \<longleftrightarrow> p_id p = None \<and> p_name p = None \<and> p_email p = None \<and>
     p_number p = None \<and> p_password p = None \<and> p_status p = None"

text \<open>\<open>updateadmin\<close> (lines 145--171): a truthy password is hashed, a falsy
  one removed from the object; \<open>SET ?\<close> with an empty object is an SQL
  syntax error; \<open>affectedRows\<close> counts the matched rows.\<close>

definition updateadmin :: "(string \<Rightarrow> string) \<Rightarrow> fault \<Rightarrow> nat \<Rightarrow> admin_patch \<Rightarrow> auth_db \<Rightarrow> admin_result" where
  "updateadmin hash ff aid p db =
     (let p' = p\<lparr>p_password := (case p_password p of
                                   Some pw \<Rightarrow> if pw = [] then None else Some (hash pw)
                                 | None \<Rightarrow> None)\<rparr>
      in if fails ff 1 \<or> patch_empty p' then (db, Response 500 (AdmErr ''Database error''))
         else if admin_by_id aid (admins db) = None then (db, Response 404 (AdmMsg ''Admin not found''))
         else (set_admins (update_where (\<lambda>a. adm_id a = aid) (patch_admin p') (admins db)) db,
               Response 200 (AdmMsg ''Admin updated successfully'')))"

text \<open>\<open>deleteAdmin\<close> (lines 178--200): query 1 deletes the sessions, query 2
  the account; no check that the account existed.\<close>

definition deleteAdmin :: "fault \<Rightarrow> nat \<Rightarrow> auth_db \<Rightarrow> admin_result" where
  "deleteAdmin ff aid db =
     (if fails ff 1 then (db, Response 500 (AdmErr ''Failed to delete related tokens''))
      else let db1 = db\<lparr>active_tokens := delete_admin_sessions aid (active_tokens db)\<rparr> in
        if fails ff 2 then (db1, Response 500 (AdmErr ''Failed to delete admin''))
        else (set_admins (delete_where (\<lambda>a. adm_id a = aid) (admins db1)) db1,
              Response 200 (AdmMsg ''Admin deleted successfully'')))"

section \<open>Properties\<close>

lemma set_push_new: "set (push_new b x cs) = set cs \<union> (if b then {x} else {})"
  by (auto simp: push_new_def)

lemma distinct_push_new: "distinct cs \<Longrightarrow> distinct (push_new b x cs)"
  by (simp add: push_new_def)

lemma set_add_conflicts:
  "set (add_conflicts nm e n cs rs) = set cs \<union>
     (if \<exists>r \<in> set rs. adm_email r = e then {''Email''} else {}) \<union>
     (if \<exists>r \<in> set rs. adm_number r = n then {''Number''} else {}) \<union>
     (if \<exists>r \<in> set rs. adm_name r = nm then {''Name''} else {})"
  by (induction rs arbitrary: cs) (auto simp: set_push_new split: if_splits)

lemma distinct_add_conflicts: "distinct cs \<Longrightarrow> distinct (add_conflicts nm e n cs rs)"
  by (induction rs arbitrary: cs) (simp_all add: distinct_push_new)

text \<open>C18. The duplicate check of \<open>addadmin\<close> reports each of
  \<open>Email\<close>, \<open>Number\<close>, \<open>Name\<close> at most once, and exactly when some
  stored account has that email, number or name.\<close>

theorem addadmin_conflicts_exact:
  "distinct (add_conflicts nm e n [] (conflict_rows nm e n as)) \<and>
   (''Email'' \<in> set (add_conflicts nm e n [] (conflict_rows nm e n as)) \<longleftrightarrow> e \<in> adm_email ` set as) \<and>
   (''Number'' \<in> set (add_conflicts nm e n [] (conflict_rows nm e n as)) \<longleftrightarrow> n \<in> adm_number ` set as) \<and>
   (''Name'' \<in> set (add_conflicts nm e n [] (conflict_rows nm e n as)) \<longleftrightarrow> nm \<in> adm_name ` set as) \<and>
   set (add_conflicts nm e n [] (conflict_rows nm e n as)) \<subseteq> {''Email'', ''Number'', ''Name''}"
  by (auto simp: distinct_add_conflicts set_add_conflicts conflict_rows_def)

lemma add_conflicts_Nil_iff:
  "add_conflicts nm e n [] (conflict_rows nm e n as) = [] \<longleftrightarrow>
     e \<notin> adm_email ` set as \<and> n \<notin> adm_number ` set as \<and> nm \<notin> adm_name ` set as"
proof -
  have "add_conflicts nm e n [] (conflict_rows nm e n as) = [] \<longleftrightarrow>
        set (add_conflicts nm e n [] (conflict_rows nm e n as)) = {}" by simp
  also have "\<dots> \<longleftrightarrow> e \<notin> adm_email ` set as \<and> n \<notin> adm_number ` set as \<and> nm \<notin> adm_name ` set as"
    by (auto simp: set_add_conflicts conflict_rows_def)
  finally show ?thesis .
qed

lemma addadmin_cases:
  "addadmin hash ff new_id f db = (db', r) \<Longrightarrow>
     db' = db \<or>
     (\<exists>nm e n pw. present (f_name f) = Some nm \<and> present (f_email f) = Some e \<and>
        present (f_number f) = Some n \<and> present (f_password f) = Some pw \<and>
        e \<notin> adm_email ` set (admins db) \<and> n \<notin> adm_number ` set (admins db) \<and>
        nm \<notin> adm_name ` set (admins db) \<and> r = Response 200 (AdmMsg ''Admin added successfully'') \<and>
        db' = set_admins (admins db @ [\<lparr>adm_id = new_id, adm_name = nm, adm_email = e, adm_number = n,
                    adm_password = hash pw, adm_status = status_value (f_status f)\<rparr>]) db)"
  by (auto simp: addadmin_def Let_def add_conflicts_Nil_iff split: option.splits if_splits)

text \<open>C19. \<open>addadmin\<close> keeps the accounts' ids, emails, numbers and names
  pairwise distinct, whatever the request and whichever query fails, given
  a fresh auto-increment id.\<close>

theorem addadmin_keeps_accounts_unique:
  assumes "accounts_unique (admins db)" "new_id \<notin> adm_id ` set (admins db)"
  shows "accounts_unique (admins (fst (addadmin hash ff new_id f db)))"
proof -
  obtain db' r where eq: "addadmin hash ff new_id f db = (db', r)" by (cases "addadmin hash ff new_id f db")
  from addadmin_cases [OF eq] assms show ?thesis
    by (auto simp: eq accounts_unique_def set_admins_def)
qed

text \<open>\<open>adminstatus\<close> with an allowed value on an existing account
  changes that account's status and nothing else: the account's sessions
  stay as they are, so a blocked account keeps its live sessions.\<close>

theorem adminstatus_sets_status_only:
  assumes "admin_by_id aid (admins db) = Some a" "s \<in> {''active'', ''blocked''}"
  shows "adminstatus NoFault aid (Some s) db =
     (db\<lparr>admins := set_status_where aid s (admins db)\<rparr>,
      Response 200 (AdmStatus ''Admin status updated successfully'' (a\<lparr>adm_status := s\<rparr>))) \<and>
     admin_by_id aid (set_status_where aid s (admins db)) = Some (a\<lparr>adm_status := s\<rparr>)"
proof -
  have "admin_by_id aid (set_status_where aid s as) = map_option (\<lambda>a. a\<lparr>adm_status := s\<rparr>) (admin_by_id aid as)" for as
    by (induction as) (auto simp: admin_by_id_def set_status_where_def)
  then show ?thesis
    using assms by (auto simp: adminstatus_def set_admins_def)
qed

text \<open>\<open>adminstatus\<close> on an existing account with a value other than
  \<open>active\<close> or \<open>blocked\<close> answers 400 and changes nothing.\<close>

theorem adminstatus_rejects_other_values:
  assumes "admin_by_id aid (admins db) = Some a" "st \<notin> {Some ''active'', Some ''blocked''}"
  shows "adminstatus ff aid st db =
     (if fails ff 1 then (db, Response 500 (AdmErr ''Database error while checking admin''))
      else (db, Response 400 (AdmMsg (''Invalid status value. Allowed: 'active' or 'blocked'' @ [CHR 0x27]))))"
  using assms by (cases st) (auto simp: adminstatus_def)

lemma distinct_map_two:
  "x \<in> set xs \<Longrightarrow> y \<in> set xs \<Longrightarrow> x \<noteq> y \<Longrightarrow> f x = f y \<Longrightarrow> \<not> distinct (map f xs)"
  by (auto simp: distinct_map inj_on_def)

text \<open>C20. \<open>updateadmin\<close> writes whatever columns the body holds, without the
  checks of \<open>addadmin\<close>: it can give an account the email of another, so
  emails are no longer unique, against the data model of the spec.\<close>

theorem updateadmin_allows_duplicate_email:
  assumes "admin_by_id aid (admins db) = Some a" "b \<in> set (admins db)" "adm_id b \<noteq> aid"
    "p = \<lparr>p_id = None, p_name = None, p_email = Some (adm_email b), p_number = None,
          p_password = None, p_status = None\<rparr>"
  shows "status (snd (updateadmin hash NoFault aid p db)) = 200 \<and>
     \<not> distinct (map adm_email (admins (fst (updateadmin hash NoFault aid p db))))"
proof -
  let ?as' = "update_where (\<lambda>x. adm_id x = aid) (patch_admin p) (admins db)"
  have eq: "updateadmin hash NoFault aid p db = (set_admins ?as' db, Response 200 (AdmMsg ''Admin updated successfully''))"
    using assms by (simp add: updateadmin_def patch_empty_def)
  have a: "a \<in> set (admins db)" "adm_id a = aid" using admin_by_id_Some [OF assms(1)] by auto
  have "patch_admin p a \<in> set ?as'" using a by (intro mem_update_where) simp_all
  moreover have "b \<in> set ?as'" using assms(2,3) by (auto simp: set_update_where intro!: bexI [of _ b])
  moreover have "patch_admin p a \<noteq> b"
  proof
    assume "patch_admin p a = b"
    then have "adm_id (patch_admin p a) = adm_id b" by simp
    with a assms(3,4) show False by (simp add: patch_admin_def)
  qed
  moreover have "adm_email (patch_admin p a) = adm_email b" using assms(4) by (simp add: patch_admin_def)
  ultimately have "\<not> distinct (map adm_email ?as')" by (rule distinct_map_two)
  then show ?thesis by (simp add: eq set_admins_def)
qed

text \<open>C22. \<open>deleteAdmin\<close> deletes the account's sessions, then the account,
  and answers 200; when the second statement fails the sessions are already
  gone and the account stays.\<close>

theorem deleteAdmin_removes_sessions:
  "fst (deleteAdmin NoFault aid db) =
     \<lparr>admins = delete_where (\<lambda>a. adm_id a = aid) (admins db),
      active_tokens = delete_admin_sessions aid (active_tokens db)\<rparr> \<and>
   status (snd (deleteAdmin NoFault aid db)) = 200 \<and>
   fst (deleteAdmin (FailAt 2) aid db) = db\<lparr>active_tokens := delete_admin_sessions aid (active_tokens db)\<rparr> \<and>
   aid \<notin> admin_id ` set (delete_admin_sessions aid (active_tokens db))"
  by (auto simp: deleteAdmin_def set_admins_def delete_admin_sessions_def)

end
