(* ===== verification/Contact.thy ===== *)
theory Contact
  imports Branches AdminMgmt "HOL-Library.Multiset"
begin

text \<open>
  The public contact form of \<open>src/controller/contact/contact.js\<close>: a
  submission is stored only if the sender's address has fewer than three
  submissions in the last ten hours and it names an active branch. The
  \<open>contacts\<close> table is a list of rows, the state every handler threads;
  the branches table is read only. Query \<open>k\<close> of a handler fails when
  \<open>fails ff k\<close>; the fresh \<open>insertId\<close> and the clock are inputs.
\<close>

record contact =
  ct_id :: nat
  ct_name :: string
  ct_email :: string
  ct_phone :: jsstr
  ct_subject :: string
  ct_message :: string
  ct_branch :: nat
  ct_ip :: string
  ct_created :: ms
  ct_seen :: bool

text \<open>\<open>RATE_LIMIT\<close>, lines 5--8.\<close>

definition MAX_SUBMISSIONS :: nat where
  "MAX_SUBMISSIONS = 3"

definition WINDOW_HOURS :: int where
  "WINDOW_HOURS = 10"

definition window_ms :: int where
  "window_ms = WINDOW_HOURS * 60 * 60 * 1000"

text \<open>The request fields \<open>getClientIP\<close> reads, in the order of its
  \<open>||\<close> chain (lines 11--19); \<open>req.connection.socket\<close> absent is
  \<open>None\<close>.\<close>

record ip_src =
  src_ip :: jsstr
  src_conn :: jsstr
  src_sock :: jsstr
  src_conn_sock :: jsstr
  src_xff :: jsstr
  src_xri :: jsstr

fun first_truthy :: "jsstr list \<Rightarrow> string \<Rightarrow> string" where
  "first_truthy [] d = d"
| "first_truthy (v # vs) d = (case present v of Some s \<Rightarrow> s | None \<Rightarrow> first_truthy vs d)"

definition getClientIP :: "ip_src \<Rightarrow> string" where
  "getClientIP r =
     first_truthy [src_ip r, src_conn r, src_sock r, src_conn_sock r,
                   map_option (takeWhile (\<lambda>c. c \<noteq> CHR '','')) (src_xff r), src_xri r]
       ''unknown''"

text \<open>The object \<open>checkRateLimit\<close> passes to its callback; the two
  constants of \<open>RATE_LIMIT\<close> the responses add are fixed and left out.\<close>

record rate_info =
  submissionCount :: nat
  remainingSubmissions :: int
  isLimitExceeded :: bool

text \<open>\<open>COUNT(*) \<dots> WHERE ip_address = ? AND created_at > ?\<close> with
  \<open>windowAgo = now - 10 h\<close>.\<close>

definition recent_count :: "string \<Rightarrow> ms \<Rightarrow> contact list \<Rightarrow> nat" where
  "recent_count ip now cs = length (filter (\<lambda>c. ct_ip c = ip \<and> now - window_ms < ct_created c) cs)"

definition checkRateLimit :: "bool \<Rightarrow> string \<Rightarrow> ms \<Rightarrow> contact list \<Rightarrow> unit + rate_info" where
  "checkRateLimit err ip now cs =
     (if err then Inl ()
      else let n = recent_count ip now cs in
        Inr \<lparr>submissionCount = n, remainingSubmissions = int MAX_SUBMISSIONS - int n,
             isLimitExceeded = MAX_SUBMISSIONS \<le> n\<rparr>)"

datatype contact_body =
    CErr string
  | CLimited string rate_info
  | CCreated nat rate_info
  | CStatus rate_info
  | CList "contact list"
  | COne contact
  | CMsg string

type_synonym contact_result = "contact list \<times> contact_body response"

text \<open>\<open>req.body\<close> of a submission; \<open>branch_id\<close> is a number or absent.\<close>

record contact_req =
  cf_name :: jsstr
  cf_email :: jsstr
  cf_phone :: jsstr
  cf_subject :: jsstr
  cf_message :: jsstr
  cf_branch :: "nat option"

definition branch_given :: "nat option \<Rightarrow> bool" where
  "branch_given b \<longleftrightarrow> (case b of Some n \<Rightarrow> n \<noteq> 0 | None \<Rightarrow> False)"

definition new_contact :: "nat \<Rightarrow> contact_req \<Rightarrow> string \<Rightarrow> ms \<Rightarrow> contact" where
  "new_contact cid rq ip now =
     \<lparr>ct_id = cid, ct_name = the (cf_name rq), ct_email = the (cf_email rq), ct_phone = cf_phone rq,
      ct_subject = the (cf_subject rq), ct_message = the (cf_message rq),
      ct_branch = the (cf_branch rq), ct_ip = ip, ct_created = now, ct_seen = False\<rparr>"

definition limit_message :: string where
  "limit_message = ''You have submitted the contact form too many times. Please try again after 10 hours.''"

text \<open>\<open>submitContact\<close>, lines 48--148: query 1 is the rate count, query 2
  the branch check, query 3 the insert.\<close>

definition submitContact :: "fault \<Rightarrow> ms \<Rightarrow> nat \<Rightarrow> ip_src \<Rightarrow> contact_req \<Rightarrow> branch list \<Rightarrow>
    contact list \<Rightarrow> contact_result" where
  "submitContact ff now cid src rq bs cs =
     (let ip = getClientIP src in
      if \<not> (truthy (cf_name rq) \<and> truthy (cf_email rq) \<and> truthy (cf_subject rq) \<and>
             truthy (cf_message rq) \<and> branch_given (cf_branch rq))
      then (cs, Response 400 (CErr ''All required fields must be provided''))
      else if \<not> email_ok (the (cf_email rq)) then (cs, Response 400 (CErr ''Invalid email format''))
      else case checkRateLimit (fails ff 1) ip now cs of
        Inl _ \<Rightarrow> (cs, Response 500 (CErr ''Error processing request''))
      | Inr ri \<Rightarrow>
          if isLimitExceeded ri then (cs, Response 429 (CLimited limit_message ri))
          else if fails ff 2 then (cs, Response 500 (CErr ''Error checking branch''))
          else if \<not> active_branch (the (cf_branch rq)) bs
          then (cs, Response 400 (CErr ''Invalid or inactive branch ID''))
          else if fails ff 3 then (cs, Response 500 (CErr ''Error submitting contact form''))
          else (cs @ [new_contact cid rq ip now],
                Response 201 (CCreated cid
                  \<lparr>submissionCount = submissionCount ri + 1,
                   remainingSubmissions = remainingSubmissions ri - 1,
                   isLimitExceeded = MAX_SUBMISSIONS \<le> submissionCount ri + 1\<rparr>)))"

text \<open>\<open>getRateLimitStatus\<close>, lines 151--175.\<close>

definition getRateLimitStatus :: "fault \<Rightarrow> ms \<Rightarrow> ip_src \<Rightarrow> contact list \<Rightarrow> contact_body response" where
  "getRateLimitStatus ff now src cs =
     (case checkRateLimit (fails ff 1) (getClientIP src) now cs of
        Inl _ \<Rightarrow> Response 500 (CErr ''Error checking rate limit status'')
      | Inr ri \<Rightarrow> Response 200 (CStatus ri))"

text \<open>\<open>getAllContacts\<close>, lines 177--198: newest first. Rows with equal
  \<open>created_at\<close> come in an order SQL leaves open; the model keeps their
  storage order.\<close>

definition getAllContacts :: "fault \<Rightarrow> contact list \<Rightarrow> contact_body response" where
  "getAllContacts ff cs =
     (if fails ff 1 then Response 500 (CErr ''Error fetching contacts'')
      else Response 200 (CList (sort_key (\<lambda>c. - ct_created c) cs)))"

text \<open>\<open>viewContact\<close>, lines 200--242: mark seen (query 1), then fetch
  (query 2).\<close>

definition viewContact :: "fault \<Rightarrow> nat \<Rightarrow> contact list \<Rightarrow> contact_result" where
  "viewContact ff cid cs =
     (if fails ff 1 then (cs, Response 500 (CErr ''Error marking contact as seen''))
      else let cs' = update_where (\<lambda>c. ct_id c = cid) (\<lambda>c. c\<lparr>ct_seen := True\<rparr>) cs in
        if fails ff 2 then (cs', Response 500 (CErr ''Error fetching contact''))
        else case first_where (\<lambda>c. ct_id c = cid) cs' of
          None \<Rightarrow> (cs', Response 404 (CErr ''Contact not found''))
        | Some c \<Rightarrow> (cs', Response 200 (COne c)))"

text \<open>\<open>deleteContact\<close>, lines 244--268.\<close>

definition deleteContact :: "fault \<Rightarrow> nat \<Rightarrow> contact list \<Rightarrow> contact_result" where
  "deleteContact ff cid cs =
     (if fails ff 1 then (cs, Response 500 (CErr ''Error deleting contact''))
      else if filter (\<lambda>c. ct_id c = cid) cs = [] then (cs, Response 404 (CErr ''Contact not found''))
      else (delete_where (\<lambda>c. ct_id c = cid) cs, Response 200 (CMsg ''Contact deleted successfully'')))"

section \<open>Runs of the contact handlers\<close>

text \<open>The submissions from address \<open>ip\<close> whose creation time lies in the
  ten-hour window ending at \<open>s\<close>.\<close>

definition win_count :: "string \<Rightarrow> ms \<Rightarrow> contact list \<Rightarrow> nat" where
  "win_count ip s cs =
     length (filter (\<lambda>c. ct_ip c = ip \<and> s - window_ms < ct_created c \<and> ct_created c \<le> s) cs)"

text \<open>The tables a sequence of handler calls reaches from an empty
  \<open>contacts\<close> table, each call with its own clock reading, fault and
  input, in any order.\<close>

inductive contact_run :: "branch list \<Rightarrow> contact list \<Rightarrow> bool" for bs where
  start: "contact_run bs []"
| submit: "contact_run bs cs \<Longrightarrow> contact_run bs (fst (submitContact ff now cid src rq bs cs))"
| view: "contact_run bs cs \<Longrightarrow> contact_run bs (fst (viewContact ff cid cs))"
| delete: "contact_run bs cs \<Longrightarrow> contact_run bs (fst (deleteContact ff cid cs))"

section \<open>Properties\<close>

lemma length_filter_mono_imp:
  "(\<And>x. P x \<Longrightarrow> Q x) \<Longrightarrow> length (filter P xs) \<le> length (filter Q xs)"
  by (induction xs) auto

lemma submitContact_store:
  "fst (submitContact ff now cid src rq bs cs) = cs \<or>
   (recent_count (getClientIP src) now cs < MAX_SUBMISSIONS \<and>
    fst (submitContact ff now cid src rq bs cs) = cs @ [new_contact cid rq (getClientIP src) now])"
  by (auto simp: submitContact_def checkRateLimit_def Let_def split: sum.split)

lemma submitContact_inactive_branch:
  "cf_branch rq = Some i \<Longrightarrow> \<not> active_branch i bs \<Longrightarrow>
     status (snd (submitContact ff now cid src rq bs cs)) \<noteq> 201 \<and> fst (submitContact ff now cid src rq bs cs) = cs"
  by (auto simp: submitContact_def checkRateLimit_def Let_def split: sum.split)

lemma win_count_le_recent:
  "now \<le> s \<Longrightarrow> win_count ip s cs \<le> recent_count ip now cs"
  unfolding win_count_def recent_count_def by (rule length_filter_mono_imp) auto

lemma win_count_append_new:
  "win_count ip s (cs @ [new_contact cid rq ip' now]) =
     win_count ip s cs + (if ip' = ip \<and> s - window_ms < now \<and> now \<le> s then 1 else 0)"
  by (simp add: win_count_def new_contact_def)

text \<open>The step of the window argument: a new row at time \<open>now\<close> lies in
  the window ending at \<open>s\<close> only if \<open>now \<le> s\<close>, and then every row of
  that window is newer than \<open>now - 10 h\<close>, so it was counted by the
  submission's own rate check.\<close>

lemma win_count_submit:
  assumes "win_count ip s cs \<le> MAX_SUBMISSIONS"
  shows "win_count ip s (fst (submitContact ff now cid src rq bs cs)) \<le> MAX_SUBMISSIONS"
  using submitContact_store [of ff now cid src rq bs cs]
proof
  assume "fst (submitContact ff now cid src rq bs cs) = cs"
  then show ?thesis using assms by simp
next
  assume a: "recent_count (getClientIP src) now cs < MAX_SUBMISSIONS \<and>
    fst (submitContact ff now cid src rq bs cs) = cs @ [new_contact cid rq (getClientIP src) now]"
  show ?thesis
  proof (cases "getClientIP src = ip \<and> s - window_ms < now \<and> now \<le> s")
    case True
    with a have "recent_count ip now cs < MAX_SUBMISSIONS" by simp
    moreover from True have "win_count ip s cs \<le> recent_count ip now cs" by (simp add: win_count_le_recent)
    ultimately show ?thesis using a True by (simp add: win_count_append_new)
  next
    case False
    with a assms show ?thesis by (auto simp: win_count_append_new)
  qed
qed

lemma win_count_view [simp]: "win_count ip s (fst (viewContact ff cid cs)) = win_count ip s cs"
  by (simp add: viewContact_def win_count_def update_where_def Let_def comp_def split: option.split)

lemma win_count_delete: "win_count ip s (fst (deleteContact ff cid cs)) \<le> win_count ip s cs"
  by (auto simp: deleteContact_def win_count_def delete_where_def intro!: length_filter_mono_imp)

text \<open>C23. In every table the contact handlers reach, no address has more
  than three submissions in any ten-hour window, whatever the order of the
  clock readings of the calls.\<close>

theorem contact_rate_limit_window:
  "contact_run bs cs \<Longrightarrow> win_count ip s cs \<le> MAX_SUBMISSIONS"
proof (induction rule: contact_run.induct)
  case start show ?case by (simp add: win_count_def)
next
  case (submit cs ff now cid src rq) from submit.IH show ?case by (rule win_count_submit)
next
  case (view cs ff cid) then show ?case by simp
next
  case (delete cs ff cid) then show ?case using win_count_delete le_trans by blast
qed

text \<open>C24. With no store error, a submission is created exactly when its
  required fields are present, its email matches the pattern, its address
  has fewer than three submissions in the last ten hours and its branch is
  active; the row is appended and the reply's counters count it.\<close>

theorem submitContact_created_iff:
  "submitContact NoFault now cid src rq bs cs = (cs', Response 201 b) \<longleftrightarrow>
     truthy (cf_name rq) \<and> truthy (cf_email rq) \<and> truthy (cf_subject rq) \<and> truthy (cf_message rq) \<and>
     branch_given (cf_branch rq) \<and> email_ok (the (cf_email rq)) \<and>
     recent_count (getClientIP src) now cs < MAX_SUBMISSIONS \<and> active_branch (the (cf_branch rq)) bs \<and>
     cs' = cs @ [new_contact cid rq (getClientIP src) now] \<and>
     b = CCreated cid \<lparr>submissionCount = recent_count (getClientIP src) now cs + 1,
           remainingSubmissions = int MAX_SUBMISSIONS - int (recent_count (getClientIP src) now cs + 1),
           isLimitExceeded = (MAX_SUBMISSIONS \<le> recent_count (getClientIP src) now cs + 1)\<rparr>"
  by (auto simp: submitContact_def checkRateLimit_def Let_def split: sum.split)

text \<open>Every reply of a submission other than 201 (a missing field, a bad
  email, the rate limit, an inactive branch, a store error) leaves the table
  as it was.\<close>

theorem submitContact_store_unchanged:
  "status (snd (submitContact ff now cid src rq bs cs)) \<noteq> 201 \<Longrightarrow>
     fst (submitContact ff now cid src rq bs cs) = cs"
  by (auto simp: submitContact_def checkRateLimit_def Let_def split: sum.split)

text \<open>Viewing a contact replies 200 with the first row of that id,
  already marked seen, exactly when such a row exists.\<close>

theorem viewContact_ok_iff:
  "snd (viewContact NoFault cid cs) = Response 200 (COne c) \<longleftrightarrow>
     (\<exists>c0. first_where (\<lambda>c. ct_id c = cid) cs = Some c0 \<and> c = c0\<lparr>ct_seen := True\<rparr>)"
  by (auto simp: viewContact_def first_where_update_where Let_def split: option.splits)

text \<open>The contact list is the table's rows, newest first.\<close>

theorem getAllContacts_newest_first:
  "getAllContacts NoFault cs = Response 200 (CList l) \<Longrightarrow>
     sorted_wrt (\<lambda>a b. ct_created b \<le> ct_created a) l \<and> mset l = mset cs"
proof -
  have "sorted (map (\<lambda>c. - ct_created c) (sort_key (\<lambda>c. - ct_created c) cs))"
    by (rule sorted_sort_key)
  then show "getAllContacts NoFault cs = Response 200 (CList l) \<Longrightarrow> ?thesis"
    by (auto simp: getAllContacts_def sorted_map mset_sort)
qed

text \<open>Deleting a contact removes exactly the rows of that id, and
  replies 404 exactly when there was none.\<close>

theorem deleteContact_removes:
  "deleteContact NoFault cid cs = (cs', r) \<Longrightarrow>
     set cs' = {c \<in> set cs. ct_id c \<noteq> cid} \<and> (status r = 404 \<longleftrightarrow> cid \<notin> ct_id ` set cs)"
  by (auto simp: deleteContact_def delete_where_def filter_empty_conv split: if_splits)

end
