(* ===== verification/Catalog.thy ===== *)
theory Catalog
  imports Prelude
begin

text \<open>
  The catalog: the \<open>category\<close> and \<open>items\<close> tables of
  \<open>src/controller/category/category.js\<close> and \<open>item.js\<close> (the admin
  handlers), and the \<open>uploads\<close> directory their image columns name.
  A request with a file first passes \<open>upload.single\<close>
  (\<open>src/middleware/fileHandler.js\<close>), which stores the file under
  \<open>Date.now() + originalname\<close> before the handler runs; a handler deletes
  a replaced or removed image with \<open>safeUnlink\<close>, fire-and-forget, and the
  model applies the deletion at once. Multipart bodies carry strings: a
  present field is truthy, and a numeric field is modelled by the number it
  denotes (\<open>None\<close> when the field is absent). Columns the handlers may
  write from an absent field are \<open>option\<close>s (\<open>None\<close> is \<open>NULL\<close>).
\<close>

record category_row =
  cat_id :: nat
  cat_title :: string
  cat_description :: string
  cat_status :: "int option"
  cat_image :: string

record item_row =
  it_id :: nat
  it_category :: "nat option"
  it_title :: jsstr
  it_image :: string
  it_status :: "int option"

record catalog =
  cats :: "category_row list"
  items :: "item_row list"
  uploads :: "string set"

datatype cat_body =
    KText string
  | KCats "category_row list"
  | KCat category_row
  | KItems "item_row list"
  | KItem item_row
  | KPage "(item_row \<times> string option) list" nat
  | KPagePlain "item_row list" nat
  | KPageErr string

type_synonym cat_result = "catalog \<times> cat_body response"

text \<open>\<open>res.sendStatus(200)\<close>.\<close>

definition OK :: "cat_body response" where
  "OK = Response 200 (KText ''OK'')"

section \<open>Uploaded files\<close>

text \<open>\<open>filename: Date.now() + file.originalname\<close> (\<open>fileHandler.js\<close>,
  line 15).\<close>

definition upload_name :: "ms \<Rightarrow> string \<Rightarrow> string" where
  "upload_name now orig = dec_string now @ orig"

text \<open>\<open>upload.single(field)\<close>: the stored file, if the request has one.\<close>

definition upload_single :: "string option \<Rightarrow> catalog \<Rightarrow> catalog" where
  "upload_single f db = (case f of None \<Rightarrow> db | Some n \<Rightarrow> db\<lparr>uploads := insert n (uploads db)\<rparr>)"

text \<open>\<open>if (image) safeUnlink(path)\<close>: a missing file (\<open>ENOENT\<close>) is
  ignored.\<close>

definition unlink_image :: "string \<Rightarrow> catalog \<Rightarrow> catalog" where
  "unlink_image f db = (if f = [] then db else db\<lparr>uploads := uploads db - {f}\<rparr>)"

section \<open>Categories (\<open>category.js\<close>)\<close>

text \<open>\<open>getAllCategories\<close>, lines 18--24: no \<open>ORDER BY\<close>; the model
  returns the storage order.\<close>

definition getAllCategories_cat :: "fault \<Rightarrow> catalog \<Rightarrow> cat_body response" where
  "getAllCategories_cat ff db =
     (if fails ff 1 then Response 500 (KText ''Error fetching categories'') else Response 200 (KCats (cats db)))"

text \<open>\<open>getCategoryById\<close>, lines 27--35.\<close>

definition getCategoryById :: "fault \<Rightarrow> nat \<Rightarrow> catalog \<Rightarrow> cat_body response" where
  "getCategoryById ff i db =
     (if fails ff 1 then Response 500 (KText ''Error fetching category'')
      else case first_where (\<lambda>c. cat_id c = i) (cats db) of
        None \<Rightarrow> Response 404 (KText ''Category not found'')
      | Some c \<Rightarrow> Response 200 (KCat c))"

record category_form =
  kf_title :: jsstr
  kf_description :: jsstr
  kf_status :: "int option"

text \<open>\<open>addCategory\<close>, lines 38--64: \<open>nid\<close> is the auto-increment id,
  \<open>img\<close> the name of the uploaded file.\<close>

definition addCategory_cat :: "fault \<Rightarrow> nat \<Rightarrow> category_form \<Rightarrow> string option \<Rightarrow> catalog \<Rightarrow> cat_result" where
  "addCategory_cat ff nid f img db =
     (if \<not> truthy (kf_title f) \<or> img = None \<or> kf_status f = None
      then (db, Response 400 (KText ''Missing title or image''))
      else if fails ff 1 then (db, Response 500 (KText ''Error adding category''))
      else (db\<lparr>cats := cats db @ [\<lparr>cat_id = nid, cat_title = the (kf_title f),
                 cat_description = or_default (kf_description f) [], cat_status = kf_status f,
                 cat_image = the img\<rparr>]\<rparr>, OK))"

text \<open>\<open>editCategory\<close>, lines 67--132: with a new image, query 1 reads the
  old image, query 2 updates, and the old file is deleted when it differs
  from the new one; without one, query 1 is the update.\<close>

definition edit_category_row :: "category_form \<Rightarrow> category_row \<Rightarrow> category_row" where
  "edit_category_row f c =
     c\<lparr>cat_title := the (kf_title f), cat_description := or_default (kf_description f) [],
       cat_status := kf_status f\<rparr>"

definition editCategory :: "fault \<Rightarrow> nat \<Rightarrow> category_form \<Rightarrow> string option \<Rightarrow> catalog \<Rightarrow> cat_result" where
  "editCategory ff i f img db =
     (if \<not> truthy (kf_title f) \<or> kf_status f = None
      then (db, Response 400 (KText ''Category title and status are required''))
      else case img of
        Some new \<Rightarrow>
          if fails ff 1 then (db, Response 500 (KText ''Error fetching old image''))
          else (case first_where (\<lambda>c. cat_id c = i) (cats db) of
            None \<Rightarrow> (db, Response 404 (KText ''Category not found''))
          | Some c \<Rightarrow>
              if fails ff 2 then (db, Response 500 (KText ''Error updating category''))
              else let db' = db\<lparr>cats := update_where (\<lambda>c. cat_id c = i)
                                   (\<lambda>c. (edit_category_row f c)\<lparr>cat_image := new\<rparr>) (cats db)\<rparr> in
                (if cat_image c \<noteq> new then unlink_image (cat_image c) db' else db', OK))
      | None \<Rightarrow>
          if fails ff 1 then (db, Response 500 (KText ''Error updating category''))
          else (db\<lparr>cats := update_where (\<lambda>c. cat_id c = i) (edit_category_row f) (cats db)\<rparr>, OK))"

text \<open>\<open>updateCategoryStatus\<close>, lines 135--143: no check of the value.\<close>

definition updateCategoryStatus_cat :: "fault \<Rightarrow> nat \<Rightarrow> int option \<Rightarrow> catalog \<Rightarrow> cat_result" where
  "updateCategoryStatus_cat ff i st db =
     (if fails ff 1 then (db, Response 500 (KText ''Error updating category status''))
      else (db\<lparr>cats := update_where (\<lambda>c. cat_id c = i) (\<lambda>c. c\<lparr>cat_status := st\<rparr>) (cats db)\<rparr>, OK))"

text \<open>\<open>deleteCategory\<close>, lines 146--204, in its two phases: queries 1 and 2
  only read (the item count, then the image), query 3 deletes. Nothing
  holds the tables between them, so another request may run in between;
  the handler itself runs the phases back to back.\<close>

definition deleteCategory_check :: "fault \<Rightarrow> nat \<Rightarrow> catalog \<Rightarrow> cat_body response + string" where
  "deleteCategory_check ff i db =
     (if fails ff 1 then Inl (Response 500 (KText ''Error checking category items''))
      else if 0 < length (filter (\<lambda>t. it_category t = Some i) (items db))
      then Inl (Response 400 (KText ''Delete all items before deleting category''))
      else if fails ff 2 then Inl (Response 500 (KText ''Error fetching category image''))
      else case first_where (\<lambda>c. cat_id c = i) (cats db) of
        None \<Rightarrow> Inl (Response 404 (KText ''Category not found''))
      | Some c \<Rightarrow> Inr (cat_image c))"

definition deleteCategory_commit :: "fault \<Rightarrow> nat \<Rightarrow> string \<Rightarrow> catalog \<Rightarrow> cat_result" where
  "deleteCategory_commit ff i img db =
     (if fails ff 3 then (db, Response 500 (KText ''Error deleting category''))
      else (unlink_image img (db\<lparr>cats := delete_where (\<lambda>c. cat_id c = i) (cats db)\<rparr>), OK))"

definition deleteCategory_cat :: "fault \<Rightarrow> nat \<Rightarrow> catalog \<Rightarrow> cat_result" where
  "deleteCategory_cat ff i db =
     (case deleteCategory_check ff i db of
        Inl r \<Rightarrow> (db, r)
      | Inr img \<Rightarrow> deleteCategory_commit ff i img db)"

section \<open>Items (\<open>item.js\<close>, admin handlers)\<close>

text \<open>\<open>ORDER BY id DESC\<close>.\<close>

definition by_id_desc :: "item_row list \<Rightarrow> item_row list" where
  "by_id_desc ts = sort_key (\<lambda>t. - int (it_id t)) ts"

definition active_item :: "item_row \<Rightarrow> bool" where
  "active_item t \<longleftrightarrow> it_status t = Some 1"

text \<open>\<open>getAllItems\<close>, lines 14--32: \<open>req.query.category_id\<close>, read as
  the number it denotes (\<open>None\<close> when absent or empty).\<close>

definition getAllItems :: "fault \<Rightarrow> nat option \<Rightarrow> catalog \<Rightarrow> cat_body response" where
  "getAllItems ff qc db =
     (if fails ff 1 then Response 500 (KText ''Error fetching items'')
      else Response 200 (KItems (by_id_desc (filter (\<lambda>t.
             (case qc of None \<Rightarrow> True | Some c \<Rightarrow> it_category t = Some c) \<and> active_item t) (items db)))))"

text \<open>\<open>getItemsByCategory\<close>, lines 36--43.\<close>

definition getItemsByCategory :: "fault \<Rightarrow> nat \<Rightarrow> catalog \<Rightarrow> cat_body response" where
  "getItemsByCategory ff c db =
     (if fails ff 1 then Response 500 (KText ''Error fetching items'')
      else Response 200 (KItems (by_id_desc (filter (\<lambda>t. it_category t = Some c \<and> active_item t) (items db)))))"

record item_form =
  if_title :: jsstr
  if_status :: "int option"
  if_category :: "nat option"

text \<open>\<open>addItem\<close>, lines 47--63: \<open>status || 1\<close>.\<close>

definition addItem :: "fault \<Rightarrow> nat \<Rightarrow> item_form \<Rightarrow> string option \<Rightarrow> catalog \<Rightarrow> cat_result" where
  "addItem ff nid f img db =
     (if \<not> truthy (if_title f) \<or> if_category f = None \<or> img = None
      then (db, Response 400 (KText ''Required fields missing''))
      else if fails ff 1 then (db, Response 500 (KText ''Error adding item''))
      else (db\<lparr>items := items db @ [\<lparr>it_id = nid, it_category = if_category f, it_title = if_title f,
                 it_image = the img,
                 it_status = Some (case if_status f of None \<Rightarrow> 1 | Some s \<Rightarrow> s)\<rparr>]\<rparr>, OK))"

text \<open>\<open>editItem\<close>, lines 67--103: no check of the body; absent fields are
  written as \<open>NULL\<close>. With a new image the old one is read first
  (\<open>result[0]?.image\<close>) and deleted after the update.\<close>

definition edit_item_row :: "item_form \<Rightarrow> item_row \<Rightarrow> item_row" where
  "edit_item_row f t = t\<lparr>it_category := if_category f, it_title := if_title f, it_status := if_status f\<rparr>"

definition editItem :: "fault \<Rightarrow> nat \<Rightarrow> item_form \<Rightarrow> string option \<Rightarrow> catalog \<Rightarrow> cat_result" where
  "editItem ff i f img db =
     (case img of
        Some new \<Rightarrow>
          if fails ff 1 then (db, Response 500 (KText ''Error fetching item image''))
          else let old = map_option it_image (first_where (\<lambda>t. it_id t = i) (items db)) in
            if fails ff 2 then (db, Response 500 (KText ''Error updating item''))
            else let db' = db\<lparr>items := update_where (\<lambda>t. it_id t = i)
                                  (\<lambda>t. (edit_item_row f t)\<lparr>it_image := new\<rparr>) (items db)\<rparr> in
              ((case old of None \<Rightarrow> db' | Some oi \<Rightarrow> unlink_image oi db'), OK)
      | None \<Rightarrow>
          if fails ff 1 then (db, Response 500 (KText ''Error updating item''))
          else (db\<lparr>items := update_where (\<lambda>t. it_id t = i) (edit_item_row f) (items db)\<rparr>, OK))"

text \<open>\<open>getItemById\<close>, lines 108--116.\<close>

definition getItemById :: "fault \<Rightarrow> nat \<Rightarrow> catalog \<Rightarrow> cat_body response" where
  "getItemById ff i db =
     (if fails ff 1 then Response 500 (KText ''Error fetching item'')
      else case first_where (\<lambda>t. it_id t = i \<and> active_item t) (items db) of
        None \<Rightarrow> Response 404 (KText ''Item not found'')
      | Some t \<Rightarrow> Response 200 (KItem t))"

text \<open>\<open>deleteItem\<close>, lines 120--144.\<close>

definition deleteItem :: "fault \<Rightarrow> nat \<Rightarrow> catalog \<Rightarrow> cat_result" where
  "deleteItem ff i db =
     (if fails ff 1 then (db, Response 500 (KText ''Error fetching item image''))
      else case first_where (\<lambda>t. it_id t = i) (items db) of
        None \<Rightarrow> (db, Response 404 (KText ''Item not found''))
      | Some t \<Rightarrow>
          if fails ff 2 then (db, Response 500 (KText ''Error deleting item''))
          else (unlink_image (it_image t) (db\<lparr>items := delete_where (\<lambda>t. it_id t = i) (items db)\<rparr>), OK))"

text \<open>\<open>updateItemStatus\<close>, lines 330--352: \<open>None\<close> is an undefined
  status.\<close>

definition updateItemStatus :: "fault \<Rightarrow> nat \<Rightarrow> int option \<Rightarrow> catalog \<Rightarrow> cat_result" where
  "updateItemStatus ff i st db =
     (case st of
        None \<Rightarrow> (db, Response 400 (KText ''Status is required''))
      | Some s \<Rightarrow>
          if fails ff 1 then (db, Response 500 (KText ''Error updating item status''))
          else if filter (\<lambda>t. it_id t = i) (items db) = [] then (db, Response 404 (KText ''Item not found''))
          else (db\<lparr>items := update_where (\<lambda>t. it_id t = i) (\<lambda>t. t\<lparr>it_status := Some s\<rparr>) (items db)\<rparr>, OK))"

section \<open>Runs of the catalog handlers\<close>

text \<open>The write routes of \<open>src/routes/category/category.js\<close> and
  \<open>item.js\<close>, each with its upload step where the route has one.\<close>

datatype catalog_op =
    AddCategoryOp fault nat category_form "string option"
  | EditCategoryOp fault nat category_form "string option"
  | CategoryStatusOp fault nat "int option"
  | DeleteCategoryOp fault nat
  | AddItemOp fault nat item_form "string option"
  | EditItemOp fault nat item_form "string option"
  | DeleteItemOp fault nat
  | ItemStatusOp fault nat "int option"

fun catalog_step :: "catalog_op \<Rightarrow> catalog \<Rightarrow> catalog" where
  "catalog_step (AddCategoryOp ff nid f img) db = fst (addCategory_cat ff nid f img (upload_single img db))"
| "catalog_step (EditCategoryOp ff i f img) db = fst (editCategory ff i f img (upload_single img db))"
| "catalog_step (CategoryStatusOp ff i st) db = fst (updateCategoryStatus_cat ff i st db)"
| "catalog_step (DeleteCategoryOp ff i) db = fst (deleteCategory_cat ff i db)"
| "catalog_step (AddItemOp ff nid f img) db = fst (addItem ff nid f img (upload_single img db))"
| "catalog_step (EditItemOp ff i f img) db = fst (editItem ff i f img (upload_single img db))"
| "catalog_step (DeleteItemOp ff i) db = fst (deleteItem ff i db)"
| "catalog_step (ItemStatusOp ff i st) db = fst (updateItemStatus ff i st db)"

text \<open>The image names the rows hold.\<close>

definition stored_images :: "catalog \<Rightarrow> string list" where
  "stored_images db = map cat_image (cats db) @ map it_image (items db)"

text \<open>The inputs a request gets from outside: a fresh auto-increment id and a
  fresh upload name.\<close>

fun op_fresh :: "catalog_op \<Rightarrow> catalog \<Rightarrow> bool" where
  "op_fresh (AddCategoryOp ff nid f img) db \<longleftrightarrow>
     nid \<notin> set (map cat_id (cats db)) \<and> (case img of None \<Rightarrow> True | Some n \<Rightarrow> n \<notin> uploads db)"
| "op_fresh (EditCategoryOp ff i f img) db \<longleftrightarrow> (case img of None \<Rightarrow> True | Some n \<Rightarrow> n \<notin> uploads db)"
| "op_fresh (AddItemOp ff nid f img) db \<longleftrightarrow>
     nid \<notin> set (map it_id (items db)) \<and> (case img of None \<Rightarrow> True | Some n \<Rightarrow> n \<notin> uploads db)"
| "op_fresh (EditItemOp ff i f img) db \<longleftrightarrow> (case img of None \<Rightarrow> True | Some n \<Rightarrow> n \<notin> uploads db)"
| "op_fresh _ db \<longleftrightarrow> True"

text \<open>No two rows share an image or an id, and every image a row names is a
  stored file.\<close>

definition catalog_ok :: "catalog \<Rightarrow> bool" where
  "catalog_ok db \<longleftrightarrow> distinct (stored_images db) \<and> set (stored_images db) \<subseteq> uploads db \<and>
     distinct (map cat_id (cats db)) \<and> distinct (map it_id (items db))"

text \<open>The catalogs reachable from empty tables by requests with fresh inputs.\<close>

inductive catalog_reach :: "catalog \<Rightarrow> bool" where
  init: "catalog_reach \<lparr>cats = [], items = [], uploads = U\<rparr>"
| step: "catalog_reach db \<Longrightarrow> op_fresh op db \<Longrightarrow> catalog_reach (catalog_step op db)"

section \<open>Properties\<close>

lemma catalog_ok_upload:
  "catalog_ok db \<Longrightarrow> catalog_ok (upload_single img db)"
  by (auto simp: catalog_ok_def stored_images_def upload_single_def split: option.split)

lemma catalog_ok_same_rows:
  "catalog_ok db \<Longrightarrow> map cat_image (cats db') = map cat_image (cats db) \<Longrightarrow>
   map it_image (items db') = map it_image (items db) \<Longrightarrow>
   map cat_id (cats db') = map cat_id (cats db) \<Longrightarrow> map it_id (items db') = map it_id (items db) \<Longrightarrow>
   uploads db \<subseteq> uploads db' \<Longrightarrow> catalog_ok db'"
  by (auto simp: catalog_ok_def stored_images_def)

lemma ok_addCategory:
  assumes "catalog_ok db" "op_fresh (AddCategoryOp ff nid f img) db"
  shows "catalog_ok (catalog_step (AddCategoryOp ff nid f img) db)"
  using assms by (auto simp: catalog_ok_def stored_images_def addCategory_cat_def upload_single_def
      split: option.splits)

lemma ok_addItem:
  assumes "catalog_ok db" "op_fresh (AddItemOp ff nid f img) db"
  shows "catalog_ok (catalog_step (AddItemOp ff nid f img) db)"
  using assms by (auto simp: catalog_ok_def stored_images_def addItem_def upload_single_def
      split: option.splits)

lemma ok_categoryStatus:
  "catalog_ok db \<Longrightarrow> catalog_ok (catalog_step (CategoryStatusOp ff i st) db)"
  by (rule catalog_ok_same_rows [of db]) (auto simp: updateCategoryStatus_cat_def map_update_where)

lemma ok_itemStatus:
  "catalog_ok db \<Longrightarrow> catalog_ok (catalog_step (ItemStatusOp ff i st) db)"
  by (rule catalog_ok_same_rows [of db]) (auto simp: updateItemStatus_def map_update_where split: option.split)


lemma ok_remove_cat:
  "catalog_ok db \<Longrightarrow> cats db = as @ c # bs \<Longrightarrow>
     catalog_ok (unlink_image (cat_image c) (db\<lparr>cats := as @ bs\<rparr>))"
  by (auto simp: catalog_ok_def stored_images_def unlink_image_def image_iff)

lemma ok_remove_item:
  "catalog_ok db \<Longrightarrow> items db = as @ t # bs \<Longrightarrow>
     catalog_ok (unlink_image (it_image t) (db\<lparr>items := as @ bs\<rparr>))"
  by (auto simp: catalog_ok_def stored_images_def unlink_image_def image_iff)

lemma ok_replace_cat:
  "catalog_ok db \<Longrightarrow> cats db = as @ c # bs \<Longrightarrow> new \<notin> uploads db \<Longrightarrow>
     cat_id c' = cat_id c \<Longrightarrow> cat_image c' = new \<Longrightarrow>
     catalog_ok (unlink_image (cat_image c) (db\<lparr>uploads := insert new (uploads db), cats := as @ c' # bs\<rparr>))"
  by (auto simp: catalog_ok_def stored_images_def unlink_image_def image_iff)

lemma ok_replace_item:
  "catalog_ok db \<Longrightarrow> items db = as @ t # bs \<Longrightarrow> new \<notin> uploads db \<Longrightarrow>
     it_id t' = it_id t \<Longrightarrow> it_image t' = new \<Longrightarrow>
     catalog_ok (unlink_image (it_image t) (db\<lparr>uploads := insert new (uploads db), items := as @ t' # bs\<rparr>))"
  by (auto simp: catalog_ok_def stored_images_def unlink_image_def image_iff)


lemma ok_deleteCategory:
  assumes ok: "catalog_ok db"
  shows "catalog_ok (catalog_step (DeleteCategoryOp ff i) db)"
proof (cases "deleteCategory_check ff i db")
  case (Inl r) then show ?thesis using ok by (simp add: deleteCategory_cat_def)
next
  case (Inr img)
  then obtain c where c: "first_where (\<lambda>c. cat_id c = i) (cats db) = Some c" "img = cat_image c"
    by (auto simp: deleteCategory_check_def split: if_splits option.splits)
  obtain as bs where s: "cats db = as @ c # bs" "cat_id c = i" "i \<notin> cat_id ` set as" "i \<notin> cat_id ` set bs"
    using unique_key_split [of cat_id, OF _ c(1)] ok by (auto simp: catalog_ok_def)
  show ?thesis
  proof (cases "fails ff 3")
    case True with Inr ok show ?thesis by (simp add: deleteCategory_cat_def deleteCategory_commit_def)
  next
    case False
    then have "catalog_step (DeleteCategoryOp ff i) db = unlink_image (cat_image c) (db\<lparr>cats := as @ bs\<rparr>)"
      using Inr c s by (simp add: deleteCategory_cat_def deleteCategory_commit_def delete_where_split delete_where_absent)
    with ok s(1) show ?thesis by (simp add: ok_remove_cat)
  qed
qed

lemma ok_deleteItem:
  assumes ok: "catalog_ok db"
  shows "catalog_ok (catalog_step (DeleteItemOp ff i) db)"
proof (cases "fails ff 1 \<or> fails ff 2 \<or> first_where (\<lambda>t. it_id t = i) (items db) = None")
  case True with ok show ?thesis by (auto simp: deleteItem_def split: option.split)
next
  case False
  then obtain t where t: "first_where (\<lambda>t. it_id t = i) (items db) = Some t" by auto
  obtain as bs where s: "items db = as @ t # bs" "it_id t = i" "i \<notin> it_id ` set as" "i \<notin> it_id ` set bs"
    using unique_key_split [of it_id, OF _ t] ok by (auto simp: catalog_ok_def)
  have "catalog_step (DeleteItemOp ff i) db = unlink_image (it_image t) (db\<lparr>items := as @ bs\<rparr>)"
    using False t s by (simp add: deleteItem_def delete_where_split delete_where_absent)
  with ok s(1) show ?thesis by (simp add: ok_remove_item)
qed


lemma upload_single_rows [simp]:
  "cats (upload_single img db) = cats db" "items (upload_single img db) = items db"
  by (simp_all add: upload_single_def split: option.split)

lemma ok_editCategory_unchanged:
  "img = None \<Longrightarrow> (\<not> truthy (kf_title f) \<or> kf_status f = None \<or> fails ff 1) \<Longrightarrow> catalog_ok db \<Longrightarrow>
   catalog_ok (catalog_step (EditCategoryOp ff i f img) db)"
  by (elim disjE) (simp_all add: editCategory_def upload_single_def)

lemma ok_editCategory:
  assumes ok: "catalog_ok db" and fr: "op_fresh (EditCategoryOp ff i f img) db"
  shows "catalog_ok (catalog_step (EditCategoryOp ff i f img) db)"
proof (cases img)
  case None
  show ?thesis
  proof (cases "\<not> truthy (kf_title f) \<or> kf_status f = None \<or> fails ff 1")
    case True show ?thesis by (rule ok_editCategory_unchanged [OF None True ok])
  next
    case False
    have m: "map cat_image (update_where (\<lambda>c. cat_id c = i) (edit_category_row f) (cats db)) = map cat_image (cats db)"
      "map cat_id (update_where (\<lambda>c. cat_id c = i) (edit_category_row f) (cats db)) = map cat_id (cats db)"
      by (simp_all add: map_update_where edit_category_row_def)
    show ?thesis
      by (rule catalog_ok_same_rows [OF ok]) (insert False None m, simp_all add: editCategory_def upload_single_def)
  qed
next
  case (Some new)
  have up: "catalog_ok (upload_single img db)" using ok by (rule catalog_ok_upload)
  show ?thesis
  proof (cases "\<not> truthy (kf_title f) \<or> kf_status f = None \<or> fails ff 1 \<or> fails ff 2 \<or>
                first_where (\<lambda>c. cat_id c = i) (cats db) = None")
    case True with up Some show ?thesis by (auto simp: editCategory_def split: option.split)
  next
    case False
    then obtain c where c: "first_where (\<lambda>c. cat_id c = i) (cats db) = Some c" by auto
    from False obtain sv where st: "kf_status f = Some sv" by auto
    obtain as bs where s: "cats db = as @ c # bs" "cat_id c = i" "i \<notin> cat_id ` set as" "i \<notin> cat_id ` set bs"
      using unique_key_split [of cat_id, OF _ c] ok by (auto simp: catalog_ok_def)
    have new: "new \<notin> uploads db" using fr Some by simp
    moreover have "cat_image c \<in> uploads db"
      using ok s(1) by (auto simp: catalog_ok_def stored_images_def)
    ultimately have ne: "cat_image c \<noteq> new" by auto
    have "catalog_step (EditCategoryOp ff i f img) db =
        unlink_image (cat_image c) (db\<lparr>uploads := insert new (uploads db),
                                       cats := as @ (edit_category_row f c)\<lparr>cat_image := new\<rparr> # bs\<rparr>)"
      using False Some c s ne st
      by (simp add: editCategory_def upload_single_def update_where_absent_set Let_def)
    also have "catalog_ok \<dots>"
      using ok s(1) new by (rule ok_replace_cat) (simp_all add: edit_category_row_def)
    finally show ?thesis .
  qed
qed

lemma ok_editItem:
  assumes ok: "catalog_ok db" and fr: "op_fresh (EditItemOp ff i f img) db"
  shows "catalog_ok (catalog_step (EditItemOp ff i f img) db)"
proof (cases img)
  case None
  have m: "map it_image (update_where (\<lambda>t. it_id t = i) (edit_item_row f) (items db)) = map it_image (items db)"
    "map it_id (update_where (\<lambda>t. it_id t = i) (edit_item_row f) (items db)) = map it_id (items db)"
    by (simp_all add: map_update_where edit_item_row_def)
  show ?thesis
    by (rule catalog_ok_same_rows [OF ok]) (insert None m, simp_all add: editItem_def upload_single_def)
next
  case (Some new)
  have up: "catalog_ok (upload_single img db)" using ok by (rule catalog_ok_upload)
  show ?thesis
  proof (cases "fails ff 1 \<or> fails ff 2")
    case True with up Some show ?thesis by (auto simp: editItem_def)
  next
    case nf: False
    show ?thesis
    proof (cases "first_where (\<lambda>t. it_id t = i) (items db)")
      case None
      with nf Some up show ?thesis
        by (simp add: editItem_def update_where_absent Let_def upload_single_def)
    next
      case (Some t)
      obtain as bs where s: "items db = as @ t # bs" "it_id t = i" "i \<notin> it_id ` set as" "i \<notin> it_id ` set bs"
        using unique_key_split [of it_id, OF _ Some] ok by (auto simp: catalog_ok_def)
      have new: "new \<notin> uploads db" using fr \<open>img = Some new\<close> by simp
      have "catalog_step (EditItemOp ff i f img) db =
          unlink_image (it_image t) (db\<lparr>uploads := insert new (uploads db),
                                         items := as @ (edit_item_row f t)\<lparr>it_image := new\<rparr> # bs\<rparr>)"
        using nf Some \<open>img = Some new\<close> s
        by (simp add: editItem_def upload_single_def update_where_absent_set Let_def)
      also have "catalog_ok \<dots>"
        using ok s(1) new by (rule ok_replace_item) (simp_all add: edit_item_row_def)
      finally show ?thesis .
    qed
  qed
qed


lemma catalog_ok_step:
  "catalog_ok db \<Longrightarrow> op_fresh op db \<Longrightarrow> catalog_ok (catalog_step op db)"
  by (cases op) (auto simp del: catalog_step.simps op_fresh.simps
      intro: ok_addCategory ok_editCategory ok_categoryStatus ok_deleteCategory
             ok_addItem ok_editItem ok_deleteItem ok_itemStatus)

lemma catalog_reach_ok: "catalog_reach db \<Longrightarrow> catalog_ok db"
proof (induction rule: catalog_reach.induct)
  case (init U) show ?case by (simp add: catalog_ok_def stored_images_def)
next
  case (step db op) then show ?case by (simp add: catalog_ok_step)
qed

text \<open>C33. In every catalog the handlers reach with fresh ids and upload names,
  every image a category or an item names is a file in \<open>uploads\<close>: no
  handler deletes a file a row still names, and none stores a row without
  its file.\<close>

theorem catalog_images_present:
  "catalog_reach db \<Longrightarrow> set (stored_images db) \<subseteq> uploads db"
  using catalog_reach_ok by (simp add: catalog_ok_def)

text \<open>Run alone, \<open>deleteCategory\<close> never deletes a category an item names.\<close>

lemma deleteCategory_guard:
  "list_ex (\<lambda>t. it_category t = Some i) (items db) \<Longrightarrow> fst (deleteCategory_cat ff i db) = db"
  by (auto simp: deleteCategory_cat_def deleteCategory_check_def list_ex_iff filter_empty_conv)

text \<open>C34. \<open>deleteCategory\<close> checks that no item names the category, then
  deletes it in a later query; an \<open>addItem\<close> for that category served
  in between leaves an item naming a deleted category.\<close>

theorem deleteCategory_race_orphans_item:
  assumes "deleteCategory_check NoFault i db = Inr img" "truthy (if_title f)" "if_category f = Some i"
  shows "status (snd (addItem NoFault nid f (Some im) (upload_single (Some im) db))) = 200 \<and>
     list_ex (\<lambda>t. it_category t = Some i)
       (items (fst (deleteCategory_commit NoFault i img (catalog_step (AddItemOp NoFault nid f (Some im)) db)))) \<and>
     \<not> list_ex (\<lambda>c. cat_id c = i)
       (cats (fst (deleteCategory_commit NoFault i img (catalog_step (AddItemOp NoFault nid f (Some im)) db))))"
  using assms by (auto simp: addItem_def deleteCategory_commit_def unlink_image_def OK_def list_ex_iff delete_where_def)

text \<open>Upload names are not unique: the time and the original name are
  concatenated without a separator, so two uploads at different times can
  get one name, and the second overwrites the first's file.\<close>

lemma upload_name_collision: "upload_name 1 ''23a.png'' = upload_name 12 ''3a.png''"
  by code_simp

end
