(* ===== verification/ItemSearch.thy ===== *)
theory ItemSearch
  imports Catalog "HOL-Library.Sublist"
begin

text \<open>
  The client listings of \<open>src/controller/category/item.js\<close>:
  \<open>getAllItemsClient\<close> and \<open>getItemsByCategoryClient\<close>, with their
  reading of the query string (\<open>parseInt(v, 10) || d\<close>), the search term
  (\<open>search.trim()\<close> inside \<open>%...%\<close> of an SQL \<open>LIKE\<close>), and the page
  (\<open>LIMIT offset, count\<close>). Express's query parser gives a string, an
  array of strings (a repeated key) or an object (a bracketed key); the
  category filter is read, as in \<open>Catalog\<close>, as the number it denotes.
  \<open>LIKE\<close> compares characters under the column's collation, a key
  function \<open>cc\<close> on characters.
\<close>

section \<open>\<open>parseInt\<close>\<close>

definition is_digit :: "char \<Rightarrow> bool" where
  "is_digit c \<longleftrightarrow> 48 \<le> (of_char c :: nat) \<and> (of_char c :: nat) \<le> 57"

definition digit_val :: "char \<Rightarrow> nat" where
  "digit_val c = of_char c - 48"

definition digits_value :: "string \<Rightarrow> nat" where
  "digits_value ds = foldl (\<lambda>n c. 10 * n + digit_val c) 0 ds"

text \<open>\<open>parseInt(s, 10)\<close>: leading white space skipped, an optional sign,
  then the longest run of decimal digits; \<open>None\<close> is \<open>NaN\<close> (no digit).\<close>

definition js_parseInt :: "string \<Rightarrow> int option" where
  "js_parseInt s =
     (let t = dropWhile is_js_space s;
          neg = (t \<noteq> [] \<and> hd t = CHR ''-'');
          r = (if t \<noteq> [] \<and> (hd t = CHR ''-'' \<or> hd t = CHR ''+'') then tl t else t);
          ds = takeWhile is_digit r
      in if ds = [] then None else Some ((if neg then -1 else 1) * int (digits_value ds)))"

text \<open>\<open>parseInt(s)\<close> with no radix: after the white space and the sign, a
  \<open>0x\<close> or \<open>0X\<close> prefix makes the radix 16 (\<open>NaN\<close> without a hex digit
  after it); otherwise it is \<open>parseInt(s, 10)\<close>.\<close>

definition is_hex_digit :: "char \<Rightarrow> bool" where
  "is_hex_digit c \<longleftrightarrow> is_digit c \<or> of_char c \<in> {97..102 :: nat} \<or> of_char c \<in> {65..70 :: nat}"

definition hex_digit_val :: "char \<Rightarrow> nat" where
  "hex_digit_val c =
     (if is_digit c then digit_val c else if 97 \<le> (of_char c :: nat) then of_char c - 87 else of_char c - 55)"

definition hex_value :: "string \<Rightarrow> nat" where
  "hex_value ds = foldl (\<lambda>n c. 16 * n + hex_digit_val c) 0 ds"

definition js_parseInt_auto :: "string \<Rightarrow> int option" where
  "js_parseInt_auto s =
     (let t = dropWhile is_js_space s;
          neg = (t \<noteq> [] \<and> hd t = CHR ''-'');
          r = (if t \<noteq> [] \<and> (hd t = CHR ''-'' \<or> hd t = CHR ''+'') then tl t else t)
      in case r of
           c # x # u \<Rightarrow>
             if c = CHR ''0'' \<and> (x = CHR ''x'' \<or> x = CHR ''X'') then
               (let ds = takeWhile is_hex_digit u
                in if ds = [] then None else Some ((if neg then -1 else 1) * int (hex_value ds)))
             else js_parseInt s
         | _ \<Rightarrow> js_parseInt s)"

text \<open>A value of \<open>req.query\<close>.\<close>

datatype qval = QStr string | QArr "string list" | QObj

text \<open>\<open>String(v)\<close>, as \<open>parseInt\<close> converts its argument.\<close>

definition qstring :: "qval \<Rightarrow> string" where
  "qstring v = (case v of QStr s \<Rightarrow> s | QArr xs \<Rightarrow> join_comma xs
                  | QObj \<Rightarrow> ''[object Object]'')"

text \<open>\<open>parseInt(v, 10) || d\<close> for a parameter with default \<open>d\<close>
  (\<open>page = 1\<close>, \<open>limit = 15\<close>): \<open>NaN\<close> and \<open>0\<close> are falsy.\<close>

definition query_int :: "qval option \<Rightarrow> int \<Rightarrow> int" where
  "query_int v d =
     (case v of None \<Rightarrow> d
      | Some q \<Rightarrow> (case js_parseInt (qstring q) of None \<Rightarrow> d | Some n \<Rightarrow> if n = 0 then d else n))"

text \<open>\<open>parseInt(v) || d\<close>, with no radix.\<close>

definition query_int_auto :: "qval option \<Rightarrow> int \<Rightarrow> int" where
  "query_int_auto v d =
     (case v of None \<Rightarrow> d
      | Some q \<Rightarrow> (case js_parseInt_auto (qstring q) of None \<Rightarrow> d | Some n \<Rightarrow> if n = 0 then d else n))"

section \<open>The search term\<close>

definition js_trim :: "string \<Rightarrow> string" where
  "js_trim s = rev (dropWhile is_js_space (rev (dropWhile is_js_space s)))"

text \<open>\<open>if (!search || search.trim() === "")\<close> with \<open>search = ""\<close> by
  default; on an array or an object, \<open>search.trim\<close> is not a function and
  the handler's \<open>catch\<close> answers.\<close>

datatype search_mode = NoSearch | SearchFor string | SearchThrows

definition search_mode :: "qval option \<Rightarrow> search_mode" where
  "search_mode v =
     (case v of
        None \<Rightarrow> NoSearch
      | Some (QStr s) \<Rightarrow> if s = [] \<or> js_trim s = [] then NoSearch else SearchFor (js_trim s)
      | Some _ \<Rightarrow> SearchThrows)"

text \<open>SQL \<open>LIKE\<close> with MySQL's escape character \<open>\\<close>: \<open>%\<close> matches any
  string, \<open>_\<close> one character, \<open>\\c\<close> the character \<open>c\<close>; other
  characters match under the collation \<open>cc\<close>. Both arguments shrink, so the
  recursion terminates by the lexicographic order on their sizes.\<close>

fun like :: "(char \<Rightarrow> char) \<Rightarrow> string \<Rightarrow> string \<Rightarrow> bool" where
  "like cc [] s \<longleftrightarrow> s = []"
| "like cc (c # p) [] \<longleftrightarrow> c = CHR ''%'' \<and> like cc p []"
| "like cc (c # p) (x # s) \<longleftrightarrow>
     (if c = CHR ''%'' then like cc p (x # s) \<or> like cc (c # p) s
      else if c = CHR ''_'' then like cc p s
      else if c = CHR 0x5C \<and> p \<noteq> [] then cc x = cc (hd p) \<and> like cc (tl p) s
      else cc x = cc c \<and> like cc p s)"

text \<open>\<open>`%${search.trim()}%`\<close>.\<close>

definition search_pattern :: "string \<Rightarrow> string" where
  "search_pattern t = CHR ''%'' # t @ ''%''"

text \<open>\<open>col LIKE ?\<close> on a nullable column: \<open>NULL LIKE p\<close> is not true.\<close>

definition like_col :: "(char \<Rightarrow> char) \<Rightarrow> string \<Rightarrow> string option \<Rightarrow> bool" where
  "like_col cc p v = (case v of None \<Rightarrow> False | Some x \<Rightarrow> like cc p x)"

text \<open>A search term the pattern quotes literally.\<close>

definition wildcard_free :: "string \<Rightarrow> bool" where
  "wildcard_free t \<longleftrightarrow> list_all (\<lambda>c. c \<notin> set [CHR ''%'', CHR ''_'', CHR 0x5C]) t"

section \<open>Listing and page\<close>

text \<open>\<open>FROM items LEFT JOIN category ON items.category_id = category.id\<close>,
  with \<open>category.title as category_title\<close>.\<close>

definition item_join :: "category_row list \<Rightarrow> item_row \<Rightarrow> (item_row \<times> string option) list" where
  "item_join cs t =
     (case filter (\<lambda>c. it_category t = Some (cat_id c)) cs of
        [] \<Rightarrow> [(t, None)]
      | ms \<Rightarrow> map (\<lambda>c. (t, Some (cat_title c))) ms)"

record item_query =
  q_category :: "nat option"
  q_page :: "qval option"
  q_limit :: "qval option"
  q_search :: "qval option"

text \<open>The \<open>WHERE\<close> clauses of \<open>getAllItemsClient\<close>: status 1, the
  category when one is given, and with a search term, the term in the item
  title or the category title.\<close>

definition client_match ::
  "(char \<Rightarrow> char) \<Rightarrow> search_mode \<Rightarrow> nat option \<Rightarrow> item_row \<times> string option \<Rightarrow> bool" where
  "client_match cc m qc r =
     (active_item (fst r) \<and> (case qc of None \<Rightarrow> True | Some c \<Rightarrow> it_category (fst r) = Some c) \<and>
      (case m of SearchFor t \<Rightarrow> like_col cc (search_pattern t) (it_title (fst r)) \<or>
                                 like_col cc (search_pattern t) (snd r)
               | _ \<Rightarrow> True))"

text \<open>The rows both queries of a listing select, \<open>ORDER BY items.id DESC\<close>.\<close>

definition client_rows :: "(char \<Rightarrow> char) \<Rightarrow> item_query \<Rightarrow> catalog \<Rightarrow> (item_row \<times> string option) list" where
  "client_rows cc q db =
     sort_key (\<lambda>r. - int (it_id (fst r)))
       (filter (client_match cc (search_mode (q_search q)) (q_category q))
          (concat (map (item_join (cats db)) (items db))))"

text \<open>\<open>LIMIT offset, count\<close>: a negative number there is an SQL syntax
  error.\<close>

definition limit_rows :: "int \<Rightarrow> int \<Rightarrow> 'r list \<Rightarrow> 'r list option" where
  "limit_rows off n rs = (if off < 0 \<or> n < 0 then None else Some (take (nat n) (drop (nat off) rs)))"

text \<open>\<open>getAllItemsClient\<close>, lines 147--239: query 1 is the count, query 2
  the page; \<open>countResult[0]?.total || 0\<close> is the number of rows.\<close>

definition getAllItemsClient :: "(char \<Rightarrow> char) \<Rightarrow> fault \<Rightarrow> item_query \<Rightarrow> catalog \<Rightarrow> cat_body response" where
  "getAllItemsClient cc ff q db =
     (let pageNum = query_int (q_page q) 1;
          limitNum = query_int (q_limit q) 15;
          offset = (pageNum - 1) * limitNum;
          rows = client_rows cc q db
      in if search_mode (q_search q) = SearchThrows then Response 500 (KPageErr ''Server error'')
         else if fails ff 1 then Response 500 (KPageErr ''Error fetching count'')
         else case limit_rows offset limitNum rows of
           None \<Rightarrow> Response 500 (KPageErr ''Error fetching items'')
         | Some pg \<Rightarrow> if fails ff 2 then Response 500 (KPageErr ''Error fetching items'')
                      else Response 200 (KPage pg (length rows)))"

text \<open>\<open>getItemsByCategoryClient\<close>, lines 243--326. Without a search term it
  reads \<open>items\<close> alone (\<open>SELECT *\<close>, no category title). With one, both
  queries join a table \<open>categories\<close>, which no code of the repository
  creates or writes (the catalog's table is \<open>category\<close>): MySQL refuses
  the count query (\<open>ER_NO_SUCH_TABLE\<close>).\<close>

definition getItemsByCategoryClient ::
  "fault \<Rightarrow> nat \<Rightarrow> item_query \<Rightarrow> catalog \<Rightarrow> cat_body response" where
  "getItemsByCategoryClient ff cid q db =
     (let pageNum = query_int (q_page q) 1;
          limitNum = query_int (q_limit q) 15;
          offset = (pageNum - 1) * limitNum;
          rows = by_id_desc (filter (\<lambda>t. it_category t = Some cid \<and> active_item t) (items db))
      in case search_mode (q_search q) of
           SearchThrows \<Rightarrow> Response 500 (KPageErr ''Server error'')
         | SearchFor _ \<Rightarrow> Response 500 (KPageErr ''Error fetching count'')
         | NoSearch \<Rightarrow>
             if fails ff 1 then Response 500 (KPageErr ''Error fetching count'')
             else case limit_rows offset limitNum rows of
               None \<Rightarrow> Response 500 (KPageErr ''Error fetching items'')
             | Some pg \<Rightarrow> if fails ff 2 then Response 500 (KPageErr ''Error fetching items'')
                          else Response 200 (KPagePlain pg (length rows)))"

section \<open>Properties\<close>

subsection \<open>\<open>parseInt\<close> and \<open>String\<close>\<close>

lemma digit_char_props:
  "d < 10 \<Longrightarrow> is_digit (digit_char d) \<and> digit_val (digit_char d) = d \<and> \<not> is_js_space (digit_char d)"
  by (auto simp: digit_char_def is_digit_def digit_val_def is_js_space_def)

lemma nat_digits_digits: "list_all is_digit (nat_digits n)"
  by (induction n rule: nat_digits.induct) (subst nat_digits.simps, simp add: digit_char_props)

lemma nat_digits_ne: "nat_digits n \<noteq> []"
  by (subst nat_digits.simps) simp

lemma nat_digits_hd: "is_digit (hd (nat_digits n))"
  using nat_digits_digits [of n] nat_digits_ne [of n] by (auto simp: list_all_iff)

lemma digit_not_special: "is_digit c \<Longrightarrow> \<not> is_js_space c \<and> c \<noteq> CHR ''-'' \<and> c \<noteq> CHR ''+''"
  by (auto simp: is_digit_def is_js_space_def)

lemma digits_value_snoc: "digits_value (xs @ [c]) = 10 * digits_value xs + digit_val c"
  by (simp add: digits_value_def)

lemma digits_value_nat_digits: "digits_value (nat_digits n) = n"
proof (induction n rule: nat_digits.induct)
  case (1 n)
  show ?case
  proof (cases "n < 10")
    case True then show ?thesis by (subst nat_digits.simps) (simp add: digits_value_def digit_char_props)
  next
    case False
    then have "digits_value (nat_digits n) = 10 * (n div 10) + n mod 10"
      using 1 by (subst nat_digits.simps) (simp add: digits_value_snoc digit_char_props)
    then show ?thesis by simp
  qed
qed

lemma takeWhile_all: "list_all P xs \<Longrightarrow> takeWhile P xs = xs"
  by (induction xs) auto

lemma takeWhile_nat_digits: "takeWhile is_digit (nat_digits m) = nat_digits m"
  by (rule takeWhile_all) (rule nat_digits_digits)

lemma parseInt_nat_digits: "js_parseInt (nat_digits m) = Some (int m)"
proof -
  have "dropWhile is_js_space (nat_digits m) = nat_digits m"
    using digit_not_special [OF nat_digits_hd [of m]] nat_digits_ne [of m] by (cases "nat_digits m") auto
  then show ?thesis
    using nat_digits_ne [of m] digit_not_special [OF nat_digits_hd [of m]]
    by (simp add: js_parseInt_def takeWhile_nat_digits digits_value_nat_digits Let_def)
qed

lemma parseInt_auto_decimal:
  assumes "s \<noteq> []" "\<not> is_js_space (hd s)" "hd s \<noteq> CHR ''-''" "hd s \<noteq> CHR ''+''"
    and "\<And>x u. s = CHR ''0'' # x # u \<Longrightarrow> x \<noteq> CHR ''x'' \<and> x \<noteq> CHR ''X''"
  shows "js_parseInt_auto s = js_parseInt s"
proof -
  have "dropWhile is_js_space s = s" using assms(1,2) by (cases s) simp_all
  then show ?thesis using assms by (auto simp: js_parseInt_auto_def Let_def split: list.split)
qed

lemma parseInt_auto_nat_digits: "js_parseInt_auto (nat_digits m) = Some (int m)"
proof -
  have "x \<noteq> CHR ''x'' \<and> x \<noteq> CHR ''X''" if "nat_digits m = CHR ''0'' # x # u" for x u
    using nat_digits_digits [of m] that by (auto simp: is_digit_def)
  then show ?thesis
    using parseInt_auto_decimal [OF nat_digits_ne] digit_not_special [OF nat_digits_hd [of m]]
    by (simp add: parseInt_nat_digits)
qed

text \<open>\<open>parseInt\<close> reads back every integer \<open>String\<close> prints (the
  digits \<open>fileHandler.js\<close> prefixes to upload names, the page numbers a
  client sends): printing and parsing are inverse.\<close>

theorem parseInt_dec_string: "js_parseInt (dec_string n) = Some n"
proof (cases "n < 0")
  case True
  then show ?thesis
    using nat_digits_ne [of "nat (- n)"]
    by (simp add: js_parseInt_def dec_string_def is_js_space_def takeWhile_nat_digits digits_value_nat_digits Let_def)
next
  case False
  then show ?thesis
    by (simp add: dec_string_def parseInt_nat_digits)
qed

subsection \<open>\<open>LIKE\<close>\<close>

lemma like_percent_any: "like cc ''%'' s"
  by (induction s) simp_all

lemma ex_le_Suc: "(\<exists>k\<le>Suc n. P k) \<longleftrightarrow> P 0 \<or> (\<exists>k\<le>n. P (Suc k))"
proof
  assume "\<exists>k\<le>Suc n. P k"
  then obtain k where "k \<le> Suc n" "P k" by blast
  then show "P 0 \<or> (\<exists>k\<le>n. P (Suc k))" by (cases k) auto
qed auto

lemma like_percent_Cons: "like cc (CHR ''%'' # p) s \<longleftrightarrow> (\<exists>k\<le>length s. like cc p (drop k s))"
  by (induction s) (simp_all add: ex_le_Suc)

lemma like_literal_prefix:
  "wildcard_free t \<Longrightarrow>
     like cc (t @ p) s \<longleftrightarrow>
       length t \<le> length s \<and> map cc t = map cc (take (length t) s) \<and> like cc p (drop (length t) s)"
proof (induction t arbitrary: s)
  case Nil then show ?case by simp
next
  case (Cons c t)
  then have c: "c \<noteq> CHR ''%''" "c \<noteq> CHR ''_''" "c \<noteq> CHR 0x5C" and w: "wildcard_free t"
    by (simp_all add: wildcard_free_def)
  show ?case
  proof (cases s)
    case Nil then show ?thesis using c by simp
  next
    case (Cons x s')
    then show ?thesis using c Cons.IH [OF w, of s'] by auto
  qed
qed

lemma sublist_take_drop:
  "sublist xs ys \<longleftrightarrow> (\<exists>k. k + length xs \<le> length ys \<and> take (length xs) (drop k ys) = xs)"
proof
  assume "sublist xs ys"
  then obtain ps ss where "ys = ps @ xs @ ss" by (auto simp: sublist_def)
  then show "\<exists>k. k + length xs \<le> length ys \<and> take (length xs) (drop k ys) = xs"
    by (intro exI [of _ "length ps"]) simp
next
  assume "\<exists>k. k + length xs \<le> length ys \<and> take (length xs) (drop k ys) = xs"
  then obtain k where k: "k + length xs \<le> length ys" "take (length xs) (drop k ys) = xs" by blast
  have "ys = take k ys @ take (length xs) (drop k ys) @ drop (length xs) (drop k ys)"
    by (simp only: append_take_drop_id)
  with k(2) show "sublist xs ys" unfolding sublist_def by metis
qed

text \<open>C36. For a search term with none of \<open>%\<close>, \<open>_\<close>, \<open>\\\<close>, the
  \<open>LIKE\<close> pattern the handlers build matches exactly the strings that
  contain the term, compared under the collation.\<close>

theorem like_search_contains:
  assumes "wildcard_free t"
  shows "like cc (search_pattern t) s \<longleftrightarrow> sublist (map cc t) (map cc s)"
proof -
  have "like cc (search_pattern t) s \<longleftrightarrow> (\<exists>k\<le>length s. like cc (t @ ''%'') (drop k s))"
    by (simp add: search_pattern_def like_percent_Cons)
  also have "\<dots> \<longleftrightarrow>
        (\<exists>k\<le>length s. length t \<le> length (drop k s) \<and> map cc t = map cc (take (length t) (drop k s)))"
    using like_literal_prefix [OF assms] like_percent_any by simp
  also have "\<dots> \<longleftrightarrow> (\<exists>k. k + length t \<le> length s \<and> take (length t) (drop k (map cc s)) = map cc t)"
  proof
    assume "\<exists>k\<le>length s. length t \<le> length (drop k s) \<and> map cc t = map cc (take (length t) (drop k s))"
    then obtain k where "k \<le> length s" "length t \<le> length (drop k s)"
      "map cc t = map cc (take (length t) (drop k s))" by blast
    then show "\<exists>k. k + length t \<le> length s \<and> take (length t) (drop k (map cc s)) = map cc t"
      by (intro exI [of _ k]) (simp add: take_map drop_map)
  next
    assume "\<exists>k. k + length t \<le> length s \<and> take (length t) (drop k (map cc s)) = map cc t"
    then obtain k where "k + length t \<le> length s" "take (length t) (drop k (map cc s)) = map cc t" by blast
    then show "\<exists>k\<le>length s. length t \<le> length (drop k s) \<and> map cc t = map cc (take (length t) (drop k s))"
      by (intro exI [of _ k]) (simp add: take_map drop_map)
  qed
  also have "\<dots> \<longleftrightarrow> sublist (map cc t) (map cc s)"
    by (simp add: sublist_take_drop)
  finally show ?thesis .
qed

text \<open>The characters the handlers do not escape keep their meaning: the search
  term \<open>_\<close> matches every non-empty title.\<close>

lemma like_underscore_nonempty: "like cc (search_pattern ''_'') s \<longleftrightarrow> s \<noteq> []"
proof -
  have u: "like cc (CHR ''_'' # ''%'') r \<longleftrightarrow> r \<noteq> []" for r
    by (cases r) (simp_all add: like_percent_any)
  have "like cc (search_pattern ''_'') s \<longleftrightarrow> (\<exists>k\<le>length s. drop k s \<noteq> [])"
    by (simp add: search_pattern_def like_percent_Cons u)
  also have "\<dots> \<longleftrightarrow> s \<noteq> []"
    by (cases s) auto
  finally show ?thesis .
qed

lemma byCategory_search_fails:
  "search_mode (q_search q) = SearchFor t \<Longrightarrow>
     getItemsByCategoryClient ff cid q db = Response 500 (KPageErr ''Error fetching count'')"
  by (simp add: getItemsByCategoryClient_def)

subsection \<open>Pages\<close>

lemma query_int_nonzero: "d \<noteq> 0 \<Longrightarrow> query_int v d \<noteq> 0"
  by (auto simp: query_int_def split: option.split)

lemma offset_ok_iff:
  "p \<noteq> 0 \<Longrightarrow> l \<noteq> 0 \<Longrightarrow> (\<not> ((p - 1) * l < 0 \<or> l < 0)) \<longleftrightarrow> 0 < p \<and> 0 < (l::int)"
  by (auto simp: not_less zero_le_mult_iff)

text \<open>C37. With no store error, \<open>getAllItemsClient\<close> answers 200 exactly
  when the search parameter is a string and the page and limit read as
  positive numbers (after the defaults); the page is then the slice
  \<open>LIMIT (page - 1) * limit, limit\<close> of the whole listing and the total
  counts the whole listing.\<close>

theorem getAllItemsClient_page:
  "getAllItemsClient cc NoFault q db = Response 200 (KPage pg cnt) \<longleftrightarrow>
     search_mode (q_search q) \<noteq> SearchThrows \<and> 0 < query_int (q_page q) 1 \<and> 0 < query_int (q_limit q) 15 \<and>
     cnt = length (client_rows cc q db) \<and>
     pg = take (nat (query_int (q_limit q) 15))
            (drop (nat ((query_int (q_page q) 1 - 1) * query_int (q_limit q) 15)) (client_rows cc q db))"
  using offset_ok_iff [OF query_int_nonzero [of 1 "q_page q"] query_int_nonzero [of 15 "q_limit q"]]
  by (auto simp: getAllItemsClient_def limit_rows_def Let_def)

text \<open>Consecutive pages of one listing with one limit are consecutive slices:
  pages \<open>1..k\<close> together are its first \<open>k * limit\<close> rows, each once.\<close>

lemma pages_partition:
  "concat (map (\<lambda>p. take l (drop (p * l) rs)) [0..<k]) = take (k * l) rs"
  by (induction k) (simp_all add: take_add [symmetric] algebra_simps)

end
