(* ===== verification/Offers.thy ===== *)
theory Offers
  imports Catalog
begin

text \<open>
  Offers of \<open>src/controller/offer/offer.js\<close>: the \<open>offers\<close> table and
  \<open>offer_categories\<close>, the discount an offer gives on a catalog category
  (whose titles the listings read from \<open>Catalog\<close>'s \<open>category\<close> table).
  Dates are day numbers; \<open>CURDATE()\<close> is the input \<open>today\<close>. The body is
  JSON: absent fields are \<open>None\<close>, and a discount's type and value are kept
  as the text MySQL prints for them.

  \<open>connection\<close> is the pool \<open>mysql.createPool\<close> returns
  (\<open>src/connection/connection.js\<close>). A pool has \<open>query\<close> and
  \<open>getConnection\<close> but no \<open>beginTransaction\<close>: \<open>addOffer\<close> and
  \<open>deleteOffer\<close> call \<open>connection.beginTransaction\<close>, which throws a
  \<open>TypeError\<close> that Express answers with 500 before any query runs.
  \<open>editOffer\<close> takes a connection of its own with \<open>getConnection\<close> and
  runs its three statements in a transaction on it: a rollback restores the
  tables as they were at \<open>beginTransaction\<close>.
\<close>

record offer_row =
  of_id :: nat
  of_title :: string
  of_description :: jsstr
  of_start :: int
  of_end :: int
  of_status :: string
  of_created :: ms

record offer_cat =
  oc_offer :: nat
  oc_category :: nat
  oc_type :: jsstr
  oc_value :: jsstr

record offer_db =
  offers :: "offer_row list"
  offer_cats :: "offer_cat list"

datatype offer_body =
    OMsg string
  | OList "(offer_row \<times> string option) list"
  | OOne offer_row "(category_row \<times> jsstr \<times> jsstr) list"
  | OCreated string nat
  | ODiscounts "(offer_row \<times> jsstr \<times> jsstr) list"

type_synonym offer_result = "offer_db \<times> offer_body response"

section \<open>Listings\<close>

text \<open>\<open>CONCAT(c.title, ' (', oc.discount_value, ' ', oc.discount_type, ')')\<close>:
  \<open>NULL\<close> when any part is.\<close>

definition discount_text :: "string option \<Rightarrow> offer_cat \<Rightarrow> string option" where
  "discount_text ct oc =
     (case (ct, oc_value oc, oc_type oc) of
        (Some t, Some v, Some ty) \<Rightarrow> Some (t @ '' ('' @ v @ '' '' @ ty @ '')'')
      | _ \<Rightarrow> None)"

text \<open>\<open>GROUP_CONCAT\<close>: the non-\<open>NULL\<close> values joined by commas, \<open>NULL\<close>
  when there is none, cut to \<open>group_concat_max_len\<close> (1024 by default).\<close>

definition group_concat_max_len :: nat where
  "group_concat_max_len = 1024"

definition group_concat :: "string option list \<Rightarrow> string option" where
  "group_concat vs =
     (case [v. Some v \<leftarrow> vs] of [] \<Rightarrow> None | xs \<Rightarrow> Some (take group_concat_max_len (join_comma xs)))"

text \<open>The rows of \<open>offers o LEFT JOIN offer_categories oc LEFT JOIN
  category c\<close> for one offer: one per discount and matching category, one
  with \<open>NULL\<close> title for a discount whose category is gone, one all
  \<open>NULL\<close> row for an offer without discounts.\<close>

definition offer_discounts :: "category_row list \<Rightarrow> offer_cat list \<Rightarrow> offer_row \<Rightarrow> string option list" where
  "offer_discounts cs ocs ofr =
     (case filter (\<lambda>oc. oc_offer oc = of_id ofr) ocs of
        [] \<Rightarrow> [None]
      | ms \<Rightarrow> concat (map (\<lambda>oc. case filter (\<lambda>c. cat_id c = oc_category oc) cs of
                                    [] \<Rightarrow> [discount_text None oc]
                                  | cm \<Rightarrow> map (\<lambda>c. discount_text (Some (cat_title c)) oc) cm) ms))"

text \<open>\<open>GROUP BY o.id ... ORDER BY o.created_at DESC\<close>; the order inside a
  group is left open by SQL, the model keeps storage order.\<close>

definition offer_listing :: "category_row list \<Rightarrow> offer_db \<Rightarrow> offer_row list \<Rightarrow> (offer_row \<times> string option) list" where
  "offer_listing cs db os =
     map (\<lambda>ofr. (ofr, group_concat (offer_discounts cs (offer_cats db) ofr))) (sort_key (\<lambda>ofr. - of_created ofr) os)"

text \<open>\<open>getAllOffers\<close>, lines 6--30.\<close>

definition getAllOffers :: "fault \<Rightarrow> category_row list \<Rightarrow> offer_db \<Rightarrow> offer_body response" where
  "getAllOffers ff cs db =
     (if fails ff 1 then Response 500 (OMsg ''Error fetching offers'')
      else Response 200 (OList (offer_listing cs db (offers db))))"

text \<open>\<open>getActiveOffers\<close>, lines 33--58.\<close>

definition getActiveOffers :: "fault \<Rightarrow> category_row list \<Rightarrow> offer_db \<Rightarrow> offer_body response" where
  "getActiveOffers ff cs db =
     (if fails ff 1 then Response 500 (OMsg ''Error fetching active offers'')
      else Response 200 (OList (offer_listing cs db (filter (\<lambda>ofr. of_status ofr = ''active'') (offers db)))))"

text \<open>\<open>getOfferById\<close>, lines 61--90: \<open>category c JOIN offer_categories oc\<close>.\<close>

definition getOfferById :: "fault \<Rightarrow> nat \<Rightarrow> category_row list \<Rightarrow> offer_db \<Rightarrow> offer_body response" where
  "getOfferById ff i cs db =
     (if fails ff 1 then Response 500 (OMsg ''Error fetching offer'')
      else case first_where (\<lambda>ofr. of_id ofr = i) (offers db) of
        None \<Rightarrow> Response 404 (OMsg ''Offer not found'')
      | Some ofr \<Rightarrow>
          if fails ff 2 then Response 500 (OMsg ''Error fetching offer categories'')
          else Response 200 (OOne ofr (concat (map (\<lambda>c.
                 map (\<lambda>oc. (c, oc_type oc, oc_value oc))
                   (filter (\<lambda>oc. cat_id c = oc_category oc \<and> oc_offer oc = i) (offer_cats db))) cs))))"

text \<open>\<open>getOffersByCategoryId\<close>, lines 257--277.\<close>

definition getOffersByCategoryId :: "fault \<Rightarrow> int \<Rightarrow> nat \<Rightarrow> offer_db \<Rightarrow> offer_body response" where
  "getOffersByCategoryId ff today c db =
     (if fails ff 1 then Response 500 (OMsg ''Error fetching offers'')
      else Response 200 (ODiscounts (concat (map (\<lambda>ofr.
             map (\<lambda>oc. (ofr, oc_type oc, oc_value oc))
               (filter (\<lambda>oc. of_id ofr = oc_offer oc \<and> oc_category oc = c) (offer_cats db)))
             (filter (\<lambda>ofr. of_status ofr = ''active'' \<and> of_start ofr \<le> today \<and> today \<le> of_end ofr) (offers db))))))"

section \<open>Writes\<close>

text \<open>A discount of the body's \<open>categories\<close> array.\<close>

record discount_in =
  d_category :: nat
  d_type :: jsstr
  d_value :: jsstr

record offer_form =
  o_title :: jsstr
  o_description :: jsstr
  o_start :: "int option"
  o_end :: "int option"
  o_status :: jsstr
  o_categories :: "discount_in list option"

text \<open>\<open>!title || !start_date || !end_date || !categories?.length\<close>.\<close>

definition offer_form_ok :: "offer_form \<Rightarrow> bool" where
  "offer_form_ok f \<longleftrightarrow>
     truthy (o_title f) \<and> o_start f \<noteq> None \<and> o_end f \<noteq> None \<and>
     (case o_categories f of None \<Rightarrow> False | Some ds \<Rightarrow> ds \<noteq> [])"

text \<open>The error Express answers with when a handler throws.\<close>

definition pool_has_no_transactions :: "offer_body response" where
  "pool_has_no_transactions = Response 500 (OMsg ''TypeError: connection.beginTransaction is not a function'')"

text \<open>\<open>addOffer\<close>, lines 93--133: after the check, line 100 throws.\<close>

definition addOffer :: "offer_form \<Rightarrow> offer_db \<Rightarrow> offer_result" where
  "addOffer f db =
     (if \<not> offer_form_ok f then (db, Response 400 (OMsg ''All required fields must be filled''))
      else (db, pool_has_no_transactions))"

text \<open>\<open>deleteOffer\<close>, lines 229--254: line 232 throws.\<close>

definition deleteOffer :: "nat \<Rightarrow> offer_db \<Rightarrow> offer_result" where
  "deleteOffer i db = (db, pool_has_no_transactions)"

text \<open>\<open>status = 'active'\<close> by default in the destructuring.\<close>

definition status_or_active :: "jsstr \<Rightarrow> string" where
  "status_or_active st = (case st of None \<Rightarrow> ''active'' | Some s \<Rightarrow> s)"

definition discount_rows :: "nat \<Rightarrow> discount_in list \<Rightarrow> offer_cat list" where
  "discount_rows i ds = map (\<lambda>d. \<lparr>oc_offer = i, oc_category = d_category d, oc_type = d_type d, oc_value = d_value d\<rparr>) ds"

text \<open>\<open>editOffer\<close>, lines 136--201, on the connection \<open>getConnection\<close>
  gives (step 1), with \<open>beginTransaction\<close> (step 2), the \<open>UPDATE\<close>
  (step 3), the \<open>DELETE\<close> of the old discounts (step 4), the \<open>INSERT\<close> of
  the new ones (step 5) and \<open>commit\<close> (step 6). The statements run on a
  copy the transaction holds; a failure rolls back to the tables as they
  were, a commit publishes the copy.\<close>

definition editOffer :: "fault \<Rightarrow> nat \<Rightarrow> offer_form \<Rightarrow> offer_db \<Rightarrow> offer_result" where
  "editOffer ff i f db =
     (if \<not> offer_form_ok f then (db, Response 400 (OMsg ''All required fields must be filled''))
      else if fails ff 1 then (db, Response 500 (OMsg ''Database connection error''))
      else if fails ff 2 then (db, Response 500 (OMsg ''Transaction error''))
      else if fails ff 3 then (db, Response 500 (OMsg ''Error updating offer''))
      else
        let t1 = db\<lparr>offers := update_where (\<lambda>ofr. of_id ofr = i)
                   (\<lambda>ofr. ofr\<lparr>of_title := the (o_title f), of_description := o_description f,
                          of_start := the (o_start f), of_end := the (o_end f),
                          of_status := status_or_active (o_status f)\<rparr>) (offers db)\<rparr> in
        if fails ff 4 then (db, Response 500 (OMsg ''Error clearing old categories''))
        else
          let t2 = t1\<lparr>offer_cats := delete_where (\<lambda>oc. oc_offer oc = i) (offer_cats t1)\<rparr> in
          if fails ff 5 then (db, Response 500 (OMsg ''Error adding new categories''))
          else
            let t3 = t2\<lparr>offer_cats := offer_cats t2 @ discount_rows i (the (o_categories f))\<rparr> in
            if fails ff 6 then (db, Response 500 (OMsg ''Transaction commit error''))
            else (t3, Response 200 (OMsg ''Offer updated successfully'')))"

text \<open>\<open>updateOfferStatus\<close>, lines 205--226.\<close>

definition updateOfferStatus :: "fault \<Rightarrow> nat \<Rightarrow> jsstr \<Rightarrow> offer_db \<Rightarrow> offer_result" where
  "updateOfferStatus ff i st db =
     (if \<not> (truthy st \<and> the st \<in> set [''active'', ''inactive''])
      then (db, Response 400 (OMsg (''Invalid status. Must be '' @ [CHR 0x27] @ ''active'' @ [CHR 0x27] @ '' or '' @
                          [CHR 0x27] @ ''inactive'' @ [CHR 0x27])))
      else if fails ff 1 then (db, Response 500 (OMsg ''Error updating offer status''))
      else if filter (\<lambda>ofr. of_id ofr = i) (offers db) = [] then (db, Response 404 (OMsg ''Offer not found''))
      else (db\<lparr>offers := update_where (\<lambda>ofr. of_id ofr = i) (\<lambda>ofr. ofr\<lparr>of_status := the st\<rparr>) (offers db)\<rparr>,
            Response 200 (OMsg (if the st = ''active'' then ''Offer activated successfully''
                                else ''Offer deactivated successfully''))))"

section \<open>Runs\<close>

text \<open>The writes of the offer router (\<open>src/routes/offer/offer.js\<close>), as
  requests a client may send in any order.\<close>

datatype offer_op =
    AddOfferOp offer_form
  | EditOfferOp fault nat offer_form
  | OfferStatusOp fault nat jsstr
  | DeleteOfferOp nat

fun offer_step :: "offer_op \<Rightarrow> offer_db \<Rightarrow> offer_db" where
  "offer_step (AddOfferOp f) db = fst (addOffer f db)"
| "offer_step (EditOfferOp ff i f) db = fst (editOffer ff i f db)"
| "offer_step (OfferStatusOp ff i st) db = fst (updateOfferStatus ff i st db)"
| "offer_step (DeleteOfferOp i) db = fst (deleteOffer i db)"

fun offer_run :: "offer_op list \<Rightarrow> offer_db \<Rightarrow> offer_db" where
  "offer_run [] db = db"
| "offer_run (op # ops) db = offer_run ops (offer_step op db)"

section \<open>Properties\<close>

lemma discount_rows_filter:
  "filter (\<lambda>oc. oc_offer oc = j) (discount_rows i ds) = (if j = i then discount_rows i ds else [])"
  by (induction ds) (auto simp: discount_rows_def)

lemma editOffer_cases:
  obtains (unchanged) "fst (editOffer ff i f db) = db" "status (snd (editOffer ff i f db)) \<noteq> 200"
  | (committed) ds where "offer_form_ok f" "o_categories f = Some ds" "ff \<notin> FailAt ` {1..6}"
      "editOffer ff i f db =
         (\<lparr>offers = update_where (\<lambda>ofr. of_id ofr = i)
                 (\<lambda>ofr. ofr\<lparr>of_title := the (o_title f), of_description := o_description f,
                        of_start := the (o_start f), of_end := the (o_end f),
                        of_status := status_or_active (o_status f)\<rparr>) (offers db),
           offer_cats = delete_where (\<lambda>oc. oc_offer oc = i) (offer_cats db) @ discount_rows i ds\<rparr>,
          Response 200 (OMsg ''Offer updated successfully''))"
proof (cases "offer_form_ok f \<and> ff \<notin> FailAt ` {1..6}")
  case True
  then obtain ds where "o_categories f = Some ds"
    by (cases "o_categories f") (auto simp: offer_form_ok_def)
  with True show ?thesis
    by (intro committed [of ds]) (auto simp: editOffer_def Let_def fails_def)
next
  case False
  then show ?thesis
    by (intro unchanged) (auto simp: editOffer_def Let_def fails_def)
qed

lemma offer_step_ids: "map of_id (offers (offer_step op db)) = map of_id (offers db)"
proof (cases op)
  case (EditOfferOp ff i f)
  then show ?thesis
    by (cases ff i f db rule: editOffer_cases) (simp_all add: map_update_where)
qed (simp_all add: addOffer_def deleteOffer_def updateOfferStatus_def map_update_where)

text \<open>C38. \<open>editOffer\<close> is all or nothing: whenever it does not answer 200,
  the offers and their discounts are exactly as they were, whichever of its
  six steps failed.\<close>

theorem editOffer_rollback:
  "status (snd (editOffer ff i f db)) \<noteq> 200 \<Longrightarrow> fst (editOffer ff i f db) = db"
  by (auto simp: editOffer_def Let_def)

text \<open>C39. When \<open>editOffer\<close> commits, the discounts of the edited offer
  are exactly those of the request, in its order, and the discounts of every
  other offer are untouched.\<close>

theorem editOffer_replaces_discounts:
  assumes "editOffer ff i f db = (db', Response 200 m)" and "o_categories f = Some ds"
  shows "filter (\<lambda>oc. oc_offer oc = i) (offer_cats db') = discount_rows i ds \<and>
         (\<forall>j. j \<noteq> i \<longrightarrow> filter (\<lambda>oc. oc_offer oc = j) (offer_cats db') = filter (\<lambda>oc. oc_offer oc = j) (offer_cats db))"
  using assms
  by (cases ff i f db rule: editOffer_cases)
     (auto simp: delete_where_def discount_rows_filter filter_filter intro: filter_cong)

text \<open>C40. No sequence of requests to the offer endpoints creates or
  deletes an offer: \<open>addOffer\<close> and \<open>deleteOffer\<close> call
  \<open>beginTransaction\<close> on the pool and throw, and the other writes only
  update rows in place. The offer ids, in storage order, never change.\<close>

theorem offer_run_ids:
  "map of_id (offers (offer_run ops db)) = map of_id (offers db)"
  by (induction ops arbitrary: db) (simp_all add: offer_step_ids)

text \<open>Deleting a category (\<open>Catalog.deleteCategory_cat\<close>) leaves the
  offer's discounts on it in \<open>offer_categories\<close>; the listings then show
  \<open>NULL\<close> for an offer whose discounts all name deleted categories, as
  for an offer with none.\<close>

lemma group_concat_None: "list_all (\<lambda>v. v = None) vs \<Longrightarrow> group_concat vs = None"
  by (induction vs) (auto simp: group_concat_def)

lemma offer_listing_missing_categories:
  assumes "\<forall>oc \<in> set (offer_cats db). oc_offer oc = of_id ofr \<longrightarrow> oc_category oc \<notin> cat_id ` set cs"
  shows "offer_listing cs db [ofr] = [(ofr, None)]"
proof -
  define ms where "ms = filter (\<lambda>oc. oc_offer oc = of_id ofr) (offer_cats db)"
  have m: "\<And>oc. oc \<in> set ms \<Longrightarrow> filter (\<lambda>c. cat_id c = oc_category oc) cs = []"
    using assms by (force simp: ms_def filter_empty_conv)
  have "list_all (\<lambda>v. v = None) (concat (map (\<lambda>oc. case filter (\<lambda>c. cat_id c = oc_category oc) cs of
            [] \<Rightarrow> [discount_text None oc] | cm \<Rightarrow> map (\<lambda>c. discount_text (Some (cat_title c)) oc) cm) ms))"
    using m by (auto simp: list_all_iff discount_text_def)
  then have "list_all (\<lambda>v. v = None) (offer_discounts cs (offer_cats db) ofr)"
    by (cases ms) (simp_all add: offer_discounts_def ms_def [symmetric])
  then show ?thesis
    by (simp add: offer_listing_def group_concat_None)
qed

text \<open>\<open>editOffer\<close> writes any status it is given (\<open>updateOfferStatus\<close>
  accepts only \<open>active\<close> and \<open>inactive\<close>), and answers 200 for an offer
  that does not exist, inserting discounts that belong to no offer.\<close>

lemma editOffer_unchecked:
  "editOffer NoFault 7
     \<lparr>o_title = Some ''Diwali'', o_description = None, o_start = Some 1, o_end = Some 2,
      o_status = Some ''Active'', o_categories = Some [\<lparr>d_category = 1, d_type = Some ''percent'', d_value = Some ''10''\<rparr>]\<rparr>
     \<lparr>offers = [], offer_cats = []\<rparr> =
   (\<lparr>offers = [], offer_cats = [\<lparr>oc_offer = 7, oc_category = 1, oc_type = Some ''percent'', oc_value = Some ''10''\<rparr>]\<rparr>,
    Response 200 (OMsg ''Offer updated successfully''))"
  by (simp add: editOffer_def offer_form_ok_def discount_rows_def)

end
