(* ===== verification/Gallery.thy ===== *)
theory Gallery
  imports ItemSearch
begin

text \<open>
  The gallery of \<open>src/controller/gallary/gallary.js\<close> and its router
  \<open>src/routes/gallary/gallary.js\<close>: the \<open>gallery\<close> table and the image
  files of the uploads directory its rows name. As in \<open>Catalog\<close>,
  \<open>upload.single("img")\<close> stores the request's file before the handler
  runs (the stored name is an input, \<open>Catalog.upload_name\<close> in the code),
  and \<open>safeUnlink\<close> removes a file, ignoring \<open>ENOENT\<close>. The client
  listing reads \<open>page\<close> and \<open>limit\<close> with \<open>parseInt\<close> without a radix
  (\<open>ItemSearch.query_int_auto\<close>: a \<open>0x\<close> prefix reads hexadecimal).
\<close>

record gallery_row =
  g_id :: nat
  g_title :: jsstr
  g_img :: string

record gallery_db =
  gallery :: "gallery_row list"
  g_files :: "string set"

text \<open>Replies: \<open>res.send(text)\<close>, \<open>res.sendStatus(200)\<close> (body
  \<open>OK\<close>), the rows, \<open>res.json(result[0])\<close> (no row: an empty body), the
  client page, and \<open>{error: ...}\<close>.\<close>

datatype gallery_body =
    GText string
  | GRows "gallery_row list"
  | GRow "gallery_row option"
  | GPage "gallery_row list" nat int int
  | GError string

type_synonym gallery_result = "gallery_db \<times> gallery_body response"

definition GOK :: "gallery_body response" where
  "GOK = Response 200 (GText ''OK'')"

text \<open>\<open>ORDER BY id DESC\<close>.\<close>

definition by_gid_desc :: "gallery_row list \<Rightarrow> gallery_row list" where
  "by_gid_desc rs = sort_key (\<lambda>r. - int (g_id r)) rs"

text \<open>\<open>upload.single("img")\<close> on the gallery routes.\<close>

definition gallery_upload :: "string option \<Rightarrow> gallery_db \<Rightarrow> gallery_db" where
  "gallery_upload f db = (case f of None \<Rightarrow> db | Some n \<Rightarrow> db\<lparr>g_files := insert n (g_files db)\<rparr>)"

text \<open>\<open>safeUnlink\<close>, lines 6--12, behind \<open>if (image)\<close>.\<close>

definition safeUnlink :: "string \<Rightarrow> gallery_db \<Rightarrow> gallery_db" where
  "safeUnlink f db = (if f = [] then db else db\<lparr>g_files := g_files db - {f}\<rparr>)"

section \<open>Handlers\<close>

text \<open>\<open>getAllGallery\<close>, lines 14--22.\<close>

definition getAllGallery :: "fault \<Rightarrow> gallery_db \<Rightarrow> gallery_body response" where
  "getAllGallery ff db =
     (if fails ff 1 then Response 500 (GText ''Error fetching gallery items'')
      else Response 200 (GRows (by_gid_desc (gallery db))))"

text \<open>\<open>Math.ceil(totalItems / limit)\<close> for a positive limit.\<close>

definition ceil_div :: "nat \<Rightarrow> int \<Rightarrow> int" where
  "ceil_div n l = (int n + l - 1) div l"

text \<open>\<open>getAllGalleryClient\<close>, lines 24--49: query 1 is the page (a
  negative \<open>LIMIT\<close> or \<open>OFFSET\<close> is an SQL error), query 2 the count.\<close>

definition getAllGalleryClient :: "fault \<Rightarrow> qval option \<Rightarrow> qval option \<Rightarrow> gallery_db \<Rightarrow> gallery_body response" where
  "getAllGalleryClient ff qp ql db =
     (let page = query_int_auto qp 1;
          limit = query_int_auto ql 11;
          offset = (page - 1) * limit
      in case limit_rows offset limit (by_gid_desc (gallery db)) of
           None \<Rightarrow> Response 500 (GError ''Error fetching gallery items'')
         | Some rs \<Rightarrow>
             if fails ff 1 then Response 500 (GError ''Error fetching gallery items'')
             else if fails ff 2 then Response 500 (GError ''Error fetching total count'')
             else Response 200 (GPage rs (length (gallery db)) page (ceil_div (length (gallery db)) limit)))"

text \<open>\<open>getGalleryById\<close>, lines 51--60.\<close>

definition getGalleryById :: "fault \<Rightarrow> nat \<Rightarrow> gallery_db \<Rightarrow> gallery_body response" where
  "getGalleryById ff i db =
     (if fails ff 1 then Response 500 (GText ''Error fetching gallery item'')
      else Response 200 (GRow (first_where (\<lambda>r. g_id r = i) (gallery db))))"

text \<open>\<open>addGallery\<close>, lines 62--81, after the upload; \<open>nid\<close> is the
  auto-increment id.\<close>

definition addGallery :: "fault \<Rightarrow> nat \<Rightarrow> jsstr \<Rightarrow> string option \<Rightarrow> gallery_db \<Rightarrow> gallery_result" where
  "addGallery ff nid title img db =
     (if \<not> truthy title \<or> img = None then (db, Response 400 (GText ''Missing title or image''))
      else if fails ff 1 then (db, Response 500 (GText ''Error adding gallery item''))
      else (db\<lparr>gallery := gallery db @ [\<lparr>g_id = nid, g_title = title, g_img = the img\<rparr>]\<rparr>, GOK))"

text \<open>\<open>editGallery\<close>, lines 84--124: with a new image, query 1 reads the
  old one (\<open>result[0]?.img\<close>), query 2 writes title and image, and the
  old file is removed after a successful update; without one, query 1
  writes the title. A missing title is written as \<open>NULL\<close>.\<close>

definition editGallery :: "fault \<Rightarrow> nat \<Rightarrow> jsstr \<Rightarrow> string option \<Rightarrow> gallery_db \<Rightarrow> gallery_result" where
  "editGallery ff i title img db =
     (case img of
        Some n \<Rightarrow>
          if fails ff 1 then (db, Response 500 (GText ''Error fetching gallery item''))
          else
            let old = first_where (\<lambda>r. g_id r = i) (gallery db) in
            if fails ff 2 then (db, Response 500 (GText ''Error updating gallery item''))
            else
              let db1 = db\<lparr>gallery := update_where (\<lambda>r. g_id r = i)
                                        (\<lambda>r. r\<lparr>g_title := title, g_img := n\<rparr>) (gallery db)\<rparr> in
              (case old of None \<Rightarrow> db1 | Some r \<Rightarrow> safeUnlink (g_img r) db1, GOK)
      | None \<Rightarrow>
          if fails ff 1 then (db, Response 500 (GText ''Error updating gallery item''))
          else (db\<lparr>gallery := update_where (\<lambda>r. g_id r = i) (\<lambda>r. r\<lparr>g_title := title\<rparr>) (gallery db)\<rparr>, GOK))"

text \<open>\<open>deleteGallery\<close>, lines 127--155.\<close>

definition deleteGallery :: "fault \<Rightarrow> nat \<Rightarrow> gallery_db \<Rightarrow> gallery_result" where
  "deleteGallery ff i db =
     (if fails ff 1 then (db, Response 500 (GText ''Error fetching gallery item''))
      else case first_where (\<lambda>r. g_id r = i) (gallery db) of
        None \<Rightarrow> (db, Response 404 (GText ''Gallery item not found''))
      | Some r \<Rightarrow>
          if fails ff 2 then (db, Response 500 (GText ''Error deleting gallery item''))
          else (safeUnlink (g_img r) (db\<lparr>gallery := delete_where (\<lambda>r. g_id r = i) (gallery db)\<rparr>), GOK))"

section \<open>Runs\<close>

text \<open>The write routes of the gallery router, each after its upload.\<close>

datatype gallery_op =
    AddGalleryOp fault nat jsstr "string option"
  | EditGalleryOp fault nat jsstr "string option"
  | DeleteGalleryOp fault nat

fun gallery_step :: "gallery_op \<Rightarrow> gallery_db \<Rightarrow> gallery_db" where
  "gallery_step (AddGalleryOp ff nid t img) db = fst (addGallery ff nid t img (gallery_upload img db))"
| "gallery_step (EditGalleryOp ff i t img) db = fst (editGallery ff i t img (gallery_upload img db))"
| "gallery_step (DeleteGalleryOp ff i) db = fst (deleteGallery ff i db)"

text \<open>A fresh auto-increment id and a fresh upload name.\<close>

fun gallery_fresh :: "gallery_op \<Rightarrow> gallery_db \<Rightarrow> bool" where
  "gallery_fresh (AddGalleryOp ff nid t img) db \<longleftrightarrow>
     nid \<notin> set (map g_id (gallery db)) \<and> (case img of None \<Rightarrow> True | Some n \<Rightarrow> n \<notin> g_files db)"
| "gallery_fresh (EditGalleryOp ff i t img) db \<longleftrightarrow> (case img of None \<Rightarrow> True | Some n \<Rightarrow> n \<notin> g_files db)"
| "gallery_fresh (DeleteGalleryOp ff i) db \<longleftrightarrow> True"

text \<open>No two rows share an id or an image, and every image is a stored file.\<close>

definition gallery_ok :: "gallery_db \<Rightarrow> bool" where
  "gallery_ok db \<longleftrightarrow> distinct (map g_img (gallery db)) \<and> set (map g_img (gallery db)) \<subseteq> g_files db \<and>
     distinct (map g_id (gallery db))"

inductive gallery_reach :: "gallery_db \<Rightarrow> bool" where
  init: "gallery_reach \<lparr>gallery = [], g_files = F\<rparr>"
| step: "gallery_reach db \<Longrightarrow> gallery_fresh op db \<Longrightarrow> gallery_reach (gallery_step op db)"

text \<open>The \<open>galleryItems\<close> a client reads from a reply: those of a
  200 page, none from any other reply.\<close>

definition page_items :: "gallery_body response \<Rightarrow> gallery_row list" where
  "page_items r = (case r of Response c (GPage rs n p k) \<Rightarrow> if c = 200 then rs else [] | _ \<Rightarrow> [])"

section \<open>Abstract specification\<close>

text \<open>What the gallery promises its clients, as a map from ids to title and
  image (the shape of \<open>Map_Specs\<close>): a successful add binds a fresh id,
  an edit rebinds an existing id (keeping the image when none was sent), a
  delete unbinds it, and a failed request changes nothing.\<close>

type_synonym gallery_map = "nat \<Rightarrow> (jsstr \<times> string) option"

text \<open>\<open>SELECT * FROM gallery WHERE id = ?\<close>, first row, as the map.\<close>

definition gallery_lookup :: "gallery_db \<Rightarrow> gallery_map" where
  "gallery_lookup db i = map_option (\<lambda>r. (g_title r, g_img r)) (first_where (\<lambda>r. g_id r = i) (gallery db))"

fun gallery_spec :: "gallery_op \<Rightarrow> gallery_map \<Rightarrow> gallery_map" where
  "gallery_spec (AddGalleryOp ff nid t img) m =
     (case img of Some n \<Rightarrow> if truthy t \<and> \<not> fails ff 1 then m(nid \<mapsto> (t, n)) else m | None \<Rightarrow> m)"
| "gallery_spec (EditGalleryOp ff i t img) m =
     (if fails ff 1 \<or> (img \<noteq> None \<and> fails ff 2) then m
      else case m i of None \<Rightarrow> m
                     | Some (_, im) \<Rightarrow> m(i \<mapsto> (t, case img of None \<Rightarrow> im | Some n \<Rightarrow> n)))"
| "gallery_spec (DeleteGalleryOp ff i) m =
     (if fails ff 1 \<or> fails ff 2 then m else m(i := None))"

section \<open>Properties\<close>

lemma gallery_ok_upload: "gallery_ok db \<Longrightarrow> gallery_ok (gallery_upload img db)"
  by (auto simp: gallery_ok_def gallery_upload_def split: option.split)

lemma gallery_upload_rows [simp]: "gallery (gallery_upload img db) = gallery db"
  by (simp add: gallery_upload_def split: option.split)

lemma gallery_ok_titles:
  "gallery_ok db \<Longrightarrow> gallery_ok (db\<lparr>gallery := update_where P (\<lambda>r. r\<lparr>g_title := t\<rparr>) (gallery db)\<rparr>)"
  by (simp add: gallery_ok_def map_update_where)

lemma gallery_ok_replace:
  "gallery_ok db \<Longrightarrow> gallery db = as @ r # bs \<Longrightarrow> n \<notin> g_files db \<Longrightarrow>
     gallery_ok (safeUnlink (g_img r)
       (db\<lparr>g_files := insert n (g_files db), gallery := as @ r\<lparr>g_title := t, g_img := n\<rparr> # bs\<rparr>))"
  by (auto simp: gallery_ok_def safeUnlink_def image_iff)

lemma gallery_ok_remove:
  "gallery_ok db \<Longrightarrow> gallery db = as @ r # bs \<Longrightarrow> gallery_ok (safeUnlink (g_img r) (db\<lparr>gallery := as @ bs\<rparr>))"
  by (auto simp: gallery_ok_def safeUnlink_def image_iff)

lemma gallery_row_split:
  assumes "gallery_ok db" "first_where (\<lambda>r. g_id r = i) (gallery db) = Some r"
  obtains as bs where "gallery db = as @ r # bs" "g_id r = i" "i \<notin> g_id ` set as" "i \<notin> g_id ` set bs"
  using unique_key_split [of g_id, OF _ assms(2)] assms(1) by (auto simp: gallery_ok_def)

lemma gallery_ok_add:
  assumes ok: "gallery_ok db" and fr: "gallery_fresh (AddGalleryOp ff nid t img) db"
  shows "gallery_ok (gallery_step (AddGalleryOp ff nid t img) db)"
proof (cases "\<not> truthy t \<or> img = None \<or> fails ff 1")
  case True
  with gallery_ok_upload [OF ok] show ?thesis by (auto simp: addGallery_def)
next
  case False
  then obtain n where "img = Some n" by auto
  with False ok fr show ?thesis
    by (auto simp: addGallery_def gallery_ok_def gallery_upload_def)
qed

lemma gallery_ok_edit:
  assumes ok: "gallery_ok db" and fr: "gallery_fresh (EditGalleryOp ff i t img) db"
  shows "gallery_ok (gallery_step (EditGalleryOp ff i t img) db)"
proof (cases img)
  case None
  with ok show ?thesis by (simp add: editGallery_def gallery_upload_def gallery_ok_titles)
next
  case (Some n)
  have up: "gallery_ok (gallery_upload img db)" using ok by (rule gallery_ok_upload)
  show ?thesis
  proof (cases "fails ff 1 \<or> fails ff 2 \<or> first_where (\<lambda>r. g_id r = i) (gallery db) = None")
    case True
    with up Some show ?thesis
      by (auto simp: editGallery_def Let_def update_where_absent gallery_upload_def)
  next
    case False
    then obtain r where r: "first_where (\<lambda>r. g_id r = i) (gallery db) = Some r" by auto
    obtain as bs where s: "gallery db = as @ r # bs" "g_id r = i" "i \<notin> g_id ` set as" "i \<notin> g_id ` set bs"
      using gallery_row_split [OF ok r] by blast
    have "gallery_step (EditGalleryOp ff i t img) db =
        safeUnlink (g_img r) (db\<lparr>g_files := insert n (g_files db), gallery := as @ r\<lparr>g_title := t, g_img := n\<rparr> # bs\<rparr>)"
      using False Some r s by (simp add: editGallery_def Let_def gallery_upload_def update_where_split update_where_absent_set)
    then show ?thesis
      using gallery_ok_replace [OF ok s(1)] fr Some by simp
  qed
qed

lemma gallery_ok_delete:
  assumes ok: "gallery_ok db"
  shows "gallery_ok (gallery_step (DeleteGalleryOp ff i) db)"
proof (cases "fails ff 1 \<or> fails ff 2 \<or> first_where (\<lambda>r. g_id r = i) (gallery db) = None")
  case True with ok show ?thesis by (auto simp: deleteGallery_def split: option.split)
next
  case False
  then obtain r where r: "first_where (\<lambda>r. g_id r = i) (gallery db) = Some r" by auto
  obtain as bs where s: "gallery db = as @ r # bs" "g_id r = i" "i \<notin> g_id ` set as" "i \<notin> g_id ` set bs"
    using gallery_row_split [OF ok r] by blast
  have "gallery_step (DeleteGalleryOp ff i) db = safeUnlink (g_img r) (db\<lparr>gallery := as @ bs\<rparr>)"
    using False r s by (simp add: deleteGallery_def delete_where_split delete_where_absent)
  with gallery_ok_remove [OF ok s(1)] show ?thesis by simp
qed

lemma gallery_ok_step: "gallery_ok db \<Longrightarrow> gallery_fresh op db \<Longrightarrow> gallery_ok (gallery_step op db)"
  by (cases op) (simp_all only: gallery_ok_add gallery_ok_edit gallery_ok_delete)

lemma gallery_reach_ok: "gallery_reach db \<Longrightarrow> gallery_ok db"
  by (induction rule: gallery_reach.induct) (simp add: gallery_ok_def, simp add: gallery_ok_step)


lemma query_int_dec_string: "0 < p \<Longrightarrow> query_int_auto (Some (QStr (dec_string (int p)))) d = int p"
  by (simp add: query_int_auto_def qstring_def dec_string_def parseInt_auto_nat_digits)

lemma ceil_div_cover:
  assumes "0 < l" shows "0 \<le> ceil_div n l" and "int n \<le> ceil_div n l * l"
proof -
  have "(int n + l - 1) div l * l + (int n + l - 1) mod l = int n + l - 1"
    by (rule div_mult_mod_eq)
  moreover have "(int n + l - 1) mod l < l" using assms by simp
  ultimately show "int n \<le> ceil_div n l * l" unfolding ceil_div_def by linarith
  show "0 \<le> ceil_div n l" using assms by (simp add: ceil_div_def pos_imp_zdiv_nonneg_iff)
qed

lemma gallery_client_page:
  assumes "0 < l" "query_int_auto ql 11 = l" "0 < p"
  shows "getAllGalleryClient NoFault (Some (QStr (dec_string (int p)))) ql db =
    Response 200 (GPage (take (nat l) (drop ((p - 1) * nat l) (by_gid_desc (gallery db))))
                        (length (gallery db)) (int p) (ceil_div (length (gallery db)) l))"
proof -
  have "nat ((int p - 1) * l) = (p - 1) * nat l"
    using assms(1,3) by (simp add: nat_mult_distrib of_nat_diff [symmetric])
  moreover have "\<not> (int p - 1) * l < 0"
    using assms(1,3) by (simp add: not_less zero_le_mult_iff)
  ultimately show ?thesis
    using assms by (simp add: getAllGalleryClient_def query_int_dec_string limit_rows_def Let_def)
qed


lemma gallery_safeUnlink_rows [simp]: "gallery (safeUnlink f db) = gallery db"
  by (simp add: safeUnlink_def)

text \<open>C27. The gallery handlers refine the map specification: from any
  table, with a fresh id for an add, the rows \<open>SELECT ... WHERE id = ?\<close>
  finds after a request are exactly the map the specification gives for
  that request, under every fault.\<close>

theorem gallery_refines_spec:
  assumes "gallery_fresh op db"
  shows "gallery_lookup (gallery_step op db) = gallery_spec op (gallery_lookup db)"
proof (cases op)
  case (AddGalleryOp ff nid t img)
  with assms have "first_where (\<lambda>r. g_id r = nid) (gallery db) = None"
    by (auto simp: first_where_None)
  with AddGalleryOp show ?thesis
    by (auto simp: addGallery_def gallery_lookup_def fun_eq_iff first_where_append split: option.split)
next
  case (EditGalleryOp ff i t img)
  then show ?thesis
    by (auto simp: editGallery_def gallery_lookup_def fun_eq_iff Let_def first_where_update_key
             split: option.split)
next
  case (DeleteGalleryOp ff i)
  then show ?thesis
    by (auto simp: deleteGallery_def gallery_lookup_def fun_eq_iff first_where_delete_key
             split: option.split)
qed

text \<open>C26. A client that asks for pages \<open>1\<close> to \<open>totalPages\<close> of
  \<open>getAllGalleryClient\<close> (the page number sent as \<open>String(p)\<close>, any
  \<open>limit\<close> that reads as a positive number) reads every gallery row
  exactly once, newest first: \<open>Math.ceil(totalItems / limit)\<close> pages of
  \<open>LIMIT limit OFFSET (page - 1) * limit\<close> cover the table.\<close>

theorem gallery_pages_cover:
  assumes "0 < query_int_auto ql 11"
  shows "concat (map (\<lambda>p. page_items (getAllGalleryClient NoFault (Some (QStr (dec_string (int p)))) ql db))
            [1..<Suc (nat (ceil_div (length (gallery db)) (query_int_auto ql 11)))]) = by_gid_desc (gallery db)"
proof -
  define l where "l = query_int_auto ql 11"
  define k where "k = nat (ceil_div (length (gallery db)) l)"
  define rs where "rs = by_gid_desc (gallery db)"
  have l: "0 < l" using assms by (simp add: l_def)
  have "map (\<lambda>p. page_items (getAllGalleryClient NoFault (Some (QStr (dec_string (int p)))) ql db)) [1..<Suc k] =
        map (\<lambda>q. take (nat l) (drop (q * nat l) rs)) [0..<k]"
  proof -
    have pg: "page_items (getAllGalleryClient NoFault (Some (QStr (dec_string (int (Suc q))))) ql db) =
        take (nat l) (drop (q * nat l) rs)" for q
      using gallery_client_page [OF l l_def [symmetric], of "Suc q"] by (simp add: page_items_def rs_def)
    show ?thesis
      unfolding One_nat_def map_Suc_upt [symmetric] map_map comp_def pg ..
  qed
  then have "concat (map (\<lambda>p. page_items (getAllGalleryClient NoFault (Some (QStr (dec_string (int p)))) ql db)) [1..<Suc k]) =
        take (k * nat l) rs"
    by (simp add: pages_partition)
  moreover have "length rs \<le> k * nat l"
  proof -
    have "int (length (gallery db)) \<le> ceil_div (length (gallery db)) l * l"
      using l by (rule ceil_div_cover)
    then show ?thesis
      using ceil_div_cover(1) [OF l, of "length (gallery db)"] l
      by (simp add: k_def rs_def by_gid_desc_def length_sort nat_mult_distrib [symmetric] le_nat_iff)
  qed
  ultimately show ?thesis
    by (simp add: k_def l_def [symmetric] rs_def)
qed


text \<open>\<open>editGallery\<close> with a new image for an id that has no row answers
  200: the update matches nothing and the uploaded file stays in the
  directory with no row naming it.\<close>

lemma editGallery_missing_orphan:
  "editGallery NoFault 5 (Some ''Cake'') (Some ''17a.png'')
     (gallery_upload (Some ''17a.png'') \<lparr>gallery = [], g_files = {}\<rparr>) =
   (\<lparr>gallery = [], g_files = {''17a.png''}\<rparr>, GOK)"
  by (simp add: editGallery_def gallery_upload_def)

end
