(* ===== verification/SiteContent.thy ===== *)
theory SiteContent
  imports Catalog "HOL-Library.Option_ord"
begin

text \<open>
  The single-row site tables and the popular products list:
  \<open>src/controller/banner/banner.js\<close> (the \<open>banner\<close> row with id 1),
  \<open>src/controller/settings/generalSetting.js\<close> (the \<open>general_settings\<close>
  row with id 1, its logo and favicon files) and
  \<open>src/controller/popularProducts/popularProducts.js\<close> (the
  \<open>popular_products\<close> table, joined with \<open>Catalog\<close>'s \<open>items\<close>). As in
  \<open>Catalog\<close>, multer stores the uploaded files before a handler runs (the
  stored names are inputs) and \<open>safeUnlink\<close> removes a file, ignoring
  \<open>ENOENT\<close>. Numbers of a JSON body are \<open>int option\<close>, \<open>None\<close> for
  \<open>undefined\<close> and \<open>null\<close>. The columns \<open>created_at\<close> and
  \<open>updated_at\<close> belong to the schema, which is not in the repository, and
  are not modelled.
\<close>

record banner_row =
  bn_id :: nat
  bn_heading :: jsstr
  bn_subheading :: jsstr
  bn_img :: jsstr

record settings_row =
  gs_id :: nat
  gs_site_name :: jsstr
  gs_website_status :: jsstr
  gs_facebook_link :: jsstr
  gs_instagram_link :: jsstr
  gs_pinterest_link :: jsstr
  gs_youtube_link :: jsstr
  gs_whatsapp_number :: jsstr
  gs_email :: jsstr
  gs_address :: jsstr
  gs_logo :: jsstr
  gs_favicon :: jsstr

record popular_row =
  pp_id :: nat
  pp_item :: "nat option"
  pp_priority :: "int option"
  pp_status :: "int option"

record site =
  banner :: "banner_row list"
  settings :: "settings_row list"
  popular :: "popular_row list"
  s_files :: "string set"

text \<open>Replies: text (\<open>res.send\<close>, \<open>res.sendStatus(200)\<close> as \<open>OK\<close>),
  \<open>{message}\<close>, \<open>{error}\<close>, the banner under the frontend's field names,
  the settings row (\<open>{}\<close> when there is none), the joined popular
  products, the id of an added one, and \<open>{error: err.message}\<close> with the
  driver's message.\<close>

datatype site_body =
    SText string
  | SMsg string
  | SErr string
  | SBanner nat jsstr jsstr jsstr
  | SSettings "settings_row option"
  | SPopular "(popular_row \<times> jsstr \<times> string) list"
  | SAdded nat string
  | SDbError

type_synonym site_result = "site \<times> site_body response"

text \<open>\<open>safeUnlink\<close> of \<open>generalSetting.js\<close>, lines 6--12.\<close>

definition site_unlink :: "string \<Rightarrow> site \<Rightarrow> site" where
  "site_unlink f s = (if f = [] then s else s\<lparr>s_files := s_files s - {f}\<rparr>)"

text \<open>A multer upload of the request, if it has the file.\<close>

definition site_upload :: "string option \<Rightarrow> site \<Rightarrow> site" where
  "site_upload f s = (case f of None \<Rightarrow> s | Some n \<Rightarrow> s\<lparr>s_files := insert n (s_files s)\<rparr>)"

section \<open>Banner (\<open>banner.js\<close>)\<close>

text \<open>\<open>getBanner\<close>, lines 3--27.\<close>

definition getBanner :: "fault \<Rightarrow> site \<Rightarrow> site_body response" where
  "getBanner ff s =
     (if fails ff 1 then Response 500 (SErr ''Error fetching banner'')
      else case first_where (\<lambda>b. bn_id b = 1) (banner s) of
        None \<Rightarrow> Response 404 (SErr ''Banner not found'')
      | Some b \<Rightarrow> Response 200 (SBanner (bn_id b) (bn_heading b) (bn_subheading b) (bn_img b)))"

text \<open>\<open>updateBanner\<close>, lines 29--55, after \<open>upload.single("background_image")\<close>:
  the image column is written only when a file came with the request; the
  old file is never removed.\<close>

definition updateBanner :: "fault \<Rightarrow> jsstr \<Rightarrow> jsstr \<Rightarrow> string option \<Rightarrow> site \<Rightarrow> site_result" where
  "updateBanner ff title description img s =
     (if fails ff 1 then (s, Response 500 (SErr ''Error updating banner''))
      else (s\<lparr>banner := update_where (\<lambda>b. bn_id b = 1)
               (\<lambda>b. case img of None \<Rightarrow> b\<lparr>bn_heading := title, bn_subheading := description\<rparr>
                             | Some n \<Rightarrow> b\<lparr>bn_heading := title, bn_subheading := description, bn_img := Some n\<rparr>)
               (banner s)\<rparr>,
            Response 200 (SMsg ''Banner updated successfully'')))"

section \<open>General settings (\<open>generalSetting.js\<close>)\<close>

text \<open>\<open>getGeneralSettings\<close>, lines 15--23.\<close>

definition getGeneralSettings :: "fault \<Rightarrow> site \<Rightarrow> site_body response" where
  "getGeneralSettings ff s =
     (if fails ff 1 then Response 500 (SText ''Error fetching settings'')
      else Response 200 (SSettings (first_where (\<lambda>g. gs_id g = 1) (settings s))))"

text \<open>The nine text fields of the body, in the order of the \<open>SET\<close> list.\<close>

record settings_form =
  sf_site_name :: jsstr
  sf_website_status :: jsstr
  sf_facebook_link :: jsstr
  sf_instagram_link :: jsstr
  sf_pinterest_link :: jsstr
  sf_youtube_link :: jsstr
  sf_whatsapp_number :: jsstr
  sf_email :: jsstr
  sf_address :: jsstr

text \<open>The \<open>UPDATE\<close> of lines 50--83: the nine fields, and \<open>logo\<close> and
  \<open>favicon\<close> only when a file came for them.\<close>

definition set_settings :: "settings_form \<Rightarrow> string option \<Rightarrow> string option \<Rightarrow> settings_row \<Rightarrow> settings_row" where
  "set_settings f logo favicon g =
     g\<lparr>gs_site_name := sf_site_name f, gs_website_status := sf_website_status f,
       gs_facebook_link := sf_facebook_link f, gs_instagram_link := sf_instagram_link f,
       gs_pinterest_link := sf_pinterest_link f, gs_youtube_link := sf_youtube_link f,
       gs_whatsapp_number := sf_whatsapp_number f, gs_email := sf_email f, gs_address := sf_address f,
       gs_logo := (case logo of None \<Rightarrow> gs_logo g | Some n \<Rightarrow> Some n),
       gs_favicon := (case favicon of None \<Rightarrow> gs_favicon g | Some n \<Rightarrow> Some n)\<rparr>"

text \<open>\<open>if (file && oldSettings.file) safeUnlink(...)\<close>.\<close>

definition unlink_replaced :: "string option \<Rightarrow> jsstr \<Rightarrow> site \<Rightarrow> site" where
  "unlink_replaced new old s =
     (case (new, present old) of (Some _, Some od) \<Rightarrow> site_unlink od s | _ \<Rightarrow> s)"

text \<open>\<open>updateGeneralSettings\<close>, lines 26--109, after \<open>upload.fields\<close>:
  query 1 reads the old file names, query 2 updates; \<open>affectedRows\<close> is
  the number of rows with id 1.\<close>

definition updateGeneralSettings ::
  "fault \<Rightarrow> settings_form \<Rightarrow> string option \<Rightarrow> string option \<Rightarrow> site \<Rightarrow> site_result" where
  "updateGeneralSettings ff f logo favicon s =
     (if fails ff 1 then (s, Response 500 (SText ''Error fetching old settings''))
      else
        let old = first_where (\<lambda>g. gs_id g = 1) (settings s) in
        if fails ff 2 then (s, Response 500 (SText ''Error updating settings''))
        else case old of
          None \<Rightarrow> (s, Response 404 (SText ''Settings record not found''))
        | Some g \<Rightarrow>
            let s1 = s\<lparr>settings := update_where (\<lambda>g. gs_id g = 1) (set_settings f logo favicon) (settings s)\<rparr>
            in (unlink_replaced favicon (gs_favicon g) (unlink_replaced logo (gs_logo g) s1),
                Response 200 (SText ''OK'')))"

section \<open>Popular products (\<open>popularProducts.js\<close>)\<close>

text \<open>\<open>popular_products pp JOIN items i ON pp.item_id = i.id ORDER BY
  pp.priority ASC\<close> (\<open>NULL\<close> first; ties in storage order), with the
  item's title and image.\<close>

definition popular_join :: "item_row list \<Rightarrow> popular_row list \<Rightarrow> (popular_row \<times> jsstr \<times> string) list" where
  "popular_join its pps =
     concat (map (\<lambda>p. map (\<lambda>t. (p, it_title t, it_image t))
                          (filter (\<lambda>t. pp_item p = Some (it_id t)) its))
                 (sort_key pp_priority pps))"

text \<open>\<open>getPopularProducts\<close>, lines 3--15.\<close>

definition getPopularProducts :: "fault \<Rightarrow> catalog \<Rightarrow> site \<Rightarrow> site_body response" where
  "getPopularProducts ff c s =
     (if fails ff 1 then Response 500 SDbError
      else Response 200 (SPopular (popular_join (items c) (popular s))))"

text \<open>\<open>getActivePopularProducts\<close>, lines 19--32: \<open>WHERE i.status = 1\<close>,
  the item's status, not the popular product's.\<close>

definition getActivePopularProducts :: "fault \<Rightarrow> catalog \<Rightarrow> site \<Rightarrow> site_body response" where
  "getActivePopularProducts ff c s =
     (if fails ff 1 then Response 500 SDbError
      else Response 200 (SPopular (popular_join (filter (\<lambda>t. it_status t = Some 1) (items c)) (popular s))))"

text \<open>\<open>n || d\<close> on a number of the body.\<close>

definition num_or :: "int option \<Rightarrow> int \<Rightarrow> int" where
  "num_or x d = (case x of None \<Rightarrow> d | Some n \<Rightarrow> if n = 0 then d else n)"

text \<open>\<open>addPopularProduct\<close>, lines 34--46; \<open>nid\<close> is the auto-increment id.\<close>

definition addPopularProduct :: "fault \<Rightarrow> nat \<Rightarrow> nat option \<Rightarrow> int option \<Rightarrow> int option \<Rightarrow> site \<Rightarrow> site_result" where
  "addPopularProduct ff nid item priority st s =
     (if fails ff 1 then (s, Response 500 SDbError)
      else (s\<lparr>popular := popular s @ [\<lparr>pp_id = nid, pp_item = item,
                pp_priority = Some (num_or priority 0), pp_status = Some (num_or st 1)\<rparr>]\<rparr>,
            Response 200 (SAdded nid ''Popular product added'')))"

text \<open>\<open>updatePopularProduct\<close>, lines 48--61: no check that the row exists.\<close>

definition updatePopularProduct :: "fault \<Rightarrow> nat \<Rightarrow> int option \<Rightarrow> int option \<Rightarrow> site \<Rightarrow> site_result" where
  "updatePopularProduct ff i priority st s =
     (if fails ff 1 then (s, Response 500 SDbError)
      else (s\<lparr>popular := update_where (\<lambda>p. pp_id p = i) (\<lambda>p. p\<lparr>pp_priority := priority, pp_status := st\<rparr>) (popular s)\<rparr>,
            Response 200 (SMsg ''Popular product updated'')))"

text \<open>\<open>deletePopularProduct\<close>, lines 63--75.\<close>

definition deletePopularProduct :: "fault \<Rightarrow> nat \<Rightarrow> site \<Rightarrow> site_result" where
  "deletePopularProduct ff i s =
     (if fails ff 1 then (s, Response 500 SDbError)
      else (s\<lparr>popular := delete_where (\<lambda>p. pp_id p = i) (popular s)\<rparr>,
            Response 200 (SMsg ''Popular product deleted'')))"

section \<open>Properties\<close>

lemma popular_join_mem:
  "(p, tt, im) \<in> set (popular_join its pps) \<longleftrightarrow>
     p \<in> set pps \<and> (\<exists>t \<in> set its. pp_item p = Some (it_id t) \<and> tt = it_title t \<and> im = it_image t)"
  by (auto simp: popular_join_def)

text \<open>The active list filters on the item's status only: a popular product
  whose own status is 0 (deactivated with \<open>updatePopularProduct\<close>) is still
  listed while its item is active.\<close>

lemma active_popular_ignores_own_status:
  assumes "p \<in> set (popular s)" "t \<in> set (items c)" "pp_item p = Some (it_id t)" "it_status t = Some 1"
  shows "getActivePopularProducts NoFault c s =
           Response 200 (SPopular (popular_join (filter (\<lambda>t. it_status t = Some 1) (items c)) (popular s))) \<and>
         (p, it_title t, it_image t) \<in> set (popular_join (filter (\<lambda>t. it_status t = Some 1) (items c)) (popular s))"
  using assms by (auto simp: getActivePopularProducts_def popular_join_mem)

text \<open>\<open>status || 1\<close>: a popular product added with status 0 is stored with
  status 1, so an inactive one cannot be added.\<close>

lemma addPopularProduct_status_zero:
  "popular (fst (addPopularProduct NoFault nid item pr (Some 0) s)) =
     popular s @ [\<lparr>pp_id = nid, pp_item = item, pp_priority = Some (num_or pr 0), pp_status = Some 1\<rparr>]"
  by (simp add: addPopularProduct_def num_or_def)

text \<open>\<open>updateBanner\<close> with a new image never removes the old one: the
  old file stays in the directory and no banner row names it any more.\<close>

lemma updateBanner_keeps_old_file:
  assumes "banner s = [b]" "bn_id b = 1" "bn_img b = Some od" "od \<in> s_files s" "n \<noteq> od"
  shows "fst (updateBanner NoFault t d (Some n) (site_upload (Some n) s)) =
           s\<lparr>banner := [b\<lparr>bn_heading := t, bn_subheading := d, bn_img := Some n\<rparr>], s_files := insert n (s_files s)\<rparr> \<and>
         od \<in> s_files (fst (updateBanner NoFault t d (Some n) (site_upload (Some n) s))) \<and>
         Some od \<notin> bn_img ` set (banner (fst (updateBanner NoFault t d (Some n) (site_upload (Some n) s))))"
  using assms by (simp add: updateBanner_def site_upload_def)

text \<open>A new logo replaces the old one: the row names the new file and the
  old file is removed, the favicon untouched.\<close>

lemma updateGeneralSettings_logo:
  assumes "settings s = [g]" "gs_id g = 1" "gs_logo g = Some od" "od \<noteq> []"
  shows "updateGeneralSettings NoFault f (Some n) None s =
           (s\<lparr>settings := [set_settings f (Some n) None g], s_files := s_files s - {od}\<rparr>, Response 200 (SText ''OK''))"
  using assms by (simp add: updateGeneralSettings_def unlink_replaced_def site_unlink_def)

end
