(* ===== verification/Routing.thy ===== *)
theory Routing
  imports Middleware AdminMgmt
begin

text \<open>
  The Express application of \<open>src/index.js\<close> and the route files under
  \<open>src/routes/\<close>: which layer of the application answers a request, or
  which handler it reaches. The application is the list of its layers in
  the order \<open>index.js\<close> installs them: \<open>cors()\<close>, the three body parsers,
  the static server of \<open>/uploads\<close>, the eleven routers and the root route.
  Each router first runs \<open>router.use(authenticateAPIKey)\<close>, for every
  request that enters it, and then tries its routes in order; a router
  whose routes do not match passes the request on with \<open>next()\<close>.

  Express matches paths case-insensitively, allows one trailing slash, and
  a \<open>:param\<close> segment matches any non-empty segment; a \<open>get\<close> route also
  answers \<open>HEAD\<close>. A request is its method, its path, its \<open>x-api-key\<close>
  header and whether its body parses. Multer's errors (a file under an
  unexpected field name) and the handlers' own behaviour are not part of
  this theory: a request that reaches a handler is \<open>Handler h\<close>, with
  \<open>h\<close> the name the route file gives it.
\<close>

datatype http_method = GET | POST | PUT | PATCH | DELETE | OPTIONS | HEAD

record app_req =
  rq_method :: http_method
  rq_path :: string
  rq_api_key :: jsstr
  rq_body_ok :: bool

text \<open>What answers: the CORS preflight (204), the body parser (400 on a
  malformed body), the static server, a router's API-key gate, a handler,
  the root route, or Express's final 404.\<close>

datatype outcome =
    Preflight
  | BodyError
  | StaticFile string
  | Refused "auth_body response"
  | Handler string
  | RootReply
  | NotFound

section \<open>Paths\<close>

fun split_on :: "char \<Rightarrow> string \<Rightarrow> string list" where
  "split_on c [] = [[]]"
| "split_on c (x # xs) =
     (if x = c then [] # split_on c xs
      else (case split_on c xs of w # ws \<Rightarrow> (x # w) # ws | [] \<Rightarrow> [[x]]))"

text \<open>The segments of a path: no leading empty segment, at most one
  trailing slash ignored (\<open>strict: false\<close>).\<close>

definition path_segs :: "string \<Rightarrow> string list" where
  "path_segs s =
     (let ss = (case split_on CHR ''/'' s of [] # r \<Rightarrow> r | ss \<Rightarrow> ss)
      in if ss \<noteq> [] \<and> last ss = [] then butlast ss else ss)"

text \<open>A segment of a route pattern matches a segment of the request.\<close>

definition seg_match :: "string \<Rightarrow> string \<Rightarrow> bool" where
  "seg_match p s \<longleftrightarrow>
     (if p \<noteq> [] \<and> hd p = CHR '':'' then s \<noteq> [] else map ascii_lower p = map ascii_lower s)"

definition path_match :: "string \<Rightarrow> string list \<Rightarrow> bool" where
  "path_match pat segs \<longleftrightarrow> list_all2 seg_match (path_segs pat) segs"

text \<open>\<open>app.use(prefix, ...)\<close>: the rest of the path when the prefix
  matches whole segments.\<close>

definition strip_prefix :: "string \<Rightarrow> string list \<Rightarrow> string list option" where
  "strip_prefix p segs =
     (let ps = path_segs p
      in if length ps \<le> length segs \<and> map (map ascii_lower) ps = map (map ascii_lower) (take (length ps) segs)
         then Some (drop (length ps) segs) else None)"

definition method_match :: "http_method \<Rightarrow> http_method \<Rightarrow> bool" where
  "method_match r m \<longleftrightarrow> r = m \<or> (r = GET \<and> m = HEAD)"

section \<open>Routers\<close>

text \<open>A router of \<open>src/routes/\<close>: whether it runs \<open>authenticateAPIKey\<close> for
  every request, and its routes (method, pattern, handler) in order.\<close>

record router =
  rt_gate :: bool
  rt_routes :: "(http_method \<times> string \<times> string) list"

fun route_in :: "http_method \<Rightarrow> string list \<Rightarrow> (http_method \<times> string \<times> string) list \<Rightarrow> string option" where
  "route_in m segs [] = None"
| "route_in m segs ((r, p, h) # rs) =
     (if method_match r m \<and> path_match p segs then Some h else route_in m segs rs)"

text \<open>A router on the rest of the path: \<open>None\<close> is \<open>next()\<close>.\<close>

definition run_router :: "string option \<Rightarrow> app_req \<Rightarrow> string list \<Rightarrow> router \<Rightarrow> outcome option" where
  "run_router cfg rq rest rt =
     (case (if rt_gate rt then authenticateAPIKey cfg (rq_api_key rq) else Inr ()) of
        Inl r \<Rightarrow> Some (Refused r)
      | Inr _ \<Rightarrow> map_option Handler (route_in (rq_method rq) rest (rt_routes rt)))"

text \<open>\<open>src/routes/settings/generalSetting.js\<close>.\<close>

definition GeneralSettingsRoute :: router where
  "GeneralSettingsRoute = \<lparr>rt_gate = True, rt_routes =
     [(GET, ''/general-settings'', ''GeneralSettings.getGeneralSettings''),
      (PUT, ''/general-settings'', ''GeneralSettings.updateGeneralSettings'')]\<rparr>"

text \<open>\<open>src/routes/category/category.js\<close>.\<close>

definition CategoryRoute :: router where
  "CategoryRoute = \<lparr>rt_gate = True, rt_routes =
     [(GET, ''/category'', ''Category.getAllCategories''),
      (GET, ''/category/:id'', ''Category.getCategoryById''),
      (POST, ''/category'', ''Category.addCategory''),
      (PUT, ''/category/:id'', ''Category.editCategory''),
      (PATCH, ''/category/:id/status'', ''Category.updateCategoryStatus''),
      (DELETE, ''/category/:id'', ''Category.deleteCategory'')]\<rparr>"

text \<open>\<open>src/routes/category/item.js\<close>.\<close>

definition ItemRoute :: router where
  "ItemRoute = \<lparr>rt_gate = True, rt_routes =
     [(GET, ''/item'', ''Item.getAllItems''),
      (GET, ''/item/category/:categoryId'', ''Item.getItemsByCategory''),
      (GET, ''/item/:id'', ''Item.getItemById''),
      (POST, ''/item'', ''Item.addItem''),
      (PUT, ''/item/:id'', ''Item.editItem''),
      (DELETE, ''/item/:id'', ''Item.deleteItem''),
      (PATCH, ''/item/:id/status'', ''Item.updateItemStatus''),
      (GET, ''/itemClient'', ''Item.getAllItemsClient''),
      (GET, ''/item/categoryClient/:categoryId'', ''Item.getItemsByCategoryClient'')]\<rparr>"

text \<open>\<open>src/routes/offer/offer.js\<close>.\<close>

definition offerRoutes :: router where
  "offerRoutes = \<lparr>rt_gate = True, rt_routes =
     [(GET, ''/offers'', ''Offer.getAllOffers''),
      (GET, ''/offers/active'', ''Offer.getActiveOffers''),
      (GET, ''/offers/category/:categoryId'', ''Offer.getOffersByCategoryId''),
      (GET, ''/offers/:id'', ''Offer.getOfferById''),
      (POST, ''/offers'', ''Offer.addOffer''),
      (PUT, ''/offers/:id'', ''Offer.editOffer''),
      (PUT, ''/offers/:id/status'', ''Offer.updateOfferStatus''),
      (DELETE, ''/offers/:id'', ''Offer.deleteOffer'')]\<rparr>"

text \<open>\<open>src/routes/gallary/gallary.js\<close>.\<close>

definition GalleryRoute :: router where
  "GalleryRoute = \<lparr>rt_gate = True, rt_routes =
     [(GET, ''/gallery'', ''Gallery.getAllGallery''),
      (GET, ''/galleryClient'', ''Gallery.getAllGalleryClient''),
      (GET, ''/gallery/:id'', ''Gallery.getGalleryById''),
      (POST, ''/gallery'', ''Gallery.addGallery''),
      (PUT, ''/gallery/:id'', ''Gallery.editGallery''),
      (DELETE, ''/gallery/:id'', ''Gallery.deleteGallery'')]\<rparr>"

text \<open>\<open>src/routes/banner/banner.js\<close>.\<close>

definition bannerRoutes :: router where
  "bannerRoutes = \<lparr>rt_gate = True, rt_routes =
     [(GET, ''/banner'', ''Banner.getBanner''),
      (PUT, ''/banner'', ''Banner.updateBanner'')]\<rparr>"

text \<open>\<open>src/routes/settings/branchSetting.js\<close>.\<close>

definition BranchRoute :: router where
  "BranchRoute = \<lparr>rt_gate = True, rt_routes =
     [(GET, ''/branches/dashboard'', ''getAllBranchesForDashboard''),
      (GET, ''/branches/website'', ''getAllBranchesForWebsite''),
      (GET, ''/branches/stats'', ''getBranchStats''),
      (GET, ''/branch/:id'', ''getBranchById''),
      (PUT, ''/branch/:id'', ''updateBranch''),
      (PUT, ''/branch/:id/status'', ''updateBranchStatus''),
      (DELETE, ''/branch/:id'', ''deleteBranch''),
      (POST, ''/branch'', ''addBranch''),
      (GET, ''/category-branch'', ''getAllCategories''),
      (POST, ''/category-branch'', ''addCategory''),
      (PUT, ''/category-branch/:id/status'', ''updateCategoryStatus''),
      (DELETE, ''/category-branch/:id'', ''deleteCategory'')]\<rparr>"

text \<open>\<open>src/routes/contact/contact.js\<close>.\<close>

definition contactRoute :: router where
  "contactRoute = \<lparr>rt_gate = True, rt_routes =
     [(POST, ''/contact/submit'', ''submitContact''),
      (GET, ''/contacts'', ''getAllContacts''),
      (GET, ''/contact/:id'', ''viewContact''),
      (DELETE, ''/contact/:id'', ''deleteContact''),
      (GET, ''/contact/rate-limit/:email'', ''getRateLimitStatus'')]\<rparr>"

text \<open>\<open>src/routes/login/login.js\<close>; the protected routes run
  \<open>verifyToken\<close> first, which \<open>Middleware.route_protected\<close> models.\<close>

definition authRoutes :: router where
  "authRoutes = \<lparr>rt_gate = True, rt_routes =
     [(POST, ''/login'', ''login.login''),
      (POST, ''/refresh-token'', ''verifyToken, login.refreshToken''),
      (POST, ''/update-activity'', ''verifyToken, login.updateActivity''),
      (POST, ''/logout'', ''verifyToken, login.logout''),
      (GET, ''/getagencybyid/:id'', ''verifyToken, login.getAgencyById'')]\<rparr>"

text \<open>\<open>src/routes/popularProducts/popularProducts.js\<close>.\<close>

definition PopularProducts :: router where
  "PopularProducts = \<lparr>rt_gate = True, rt_routes =
     [(GET, ''/'', ''getPopularProducts''),
      (GET, ''/active'', ''getActivePopularProducts''),
      (POST, ''/'', ''addPopularProduct''),
      (PUT, ''/:id'', ''updatePopularProduct''),
      (DELETE, ''/:id'', ''deletePopularProduct'')]\<rparr>"

text \<open>\<open>src/routes/manage-admin/admin.js\<close>.\<close>

definition manage_admin :: router where
  "manage_admin = \<lparr>rt_gate = True, rt_routes =
     [(GET, ''/getadmin'', ''admin.getadmin''),
      (GET, ''/getadminbyid/:id'', ''admin.getadminbyid''),
      (POST, ''/addadmin'', ''admin.addadmin''),
      (PUT, ''/updateadmin/:id'', ''admin.updateadmin''),
      (PUT, ''/updateadminstatus/:id'', ''admin.adminstatus''),
      (DELETE, ''/deleteadmin/:id'', ''admin.deleteAdmin'')]\<rparr>"

section \<open>The application\<close>

datatype layer =
    Cors
  | BodyParser
  | Static string
  | Mount string router
  | AppGet string

text \<open>\<open>src/index.js\<close>, lines 28--53, in order.\<close>

definition app_layers :: "layer list" where
  "app_layers =
     [Cors, BodyParser, BodyParser, BodyParser,
      Static ''/uploads'',
      Mount ''/'' GeneralSettingsRoute, Mount ''/'' CategoryRoute, Mount ''/'' ItemRoute,
      Mount ''/'' offerRoutes, Mount ''/'' GalleryRoute, Mount ''/'' bannerRoutes,
      Mount ''/api'' BranchRoute, Mount ''/api'' contactRoute, Mount ''/admin'' authRoutes,
      Mount ''/api/popular-products'' PopularProducts, Mount ''/'' manage_admin,
      AppGet ''/'']"

text \<open>A request through the layers; \<open>files\<close> are the names in
  \<open>uploads/\<close>. \<open>cors()\<close> ends every \<open>OPTIONS\<close> request (no
  \<open>preflightContinue\<close>); a body parser passes a malformed body to the
  error handler; \<open>express.static\<close> serves an existing file to \<open>GET\<close> and
  \<open>HEAD\<close> and passes everything else on.\<close>

fun run_layers :: "string option \<Rightarrow> string set \<Rightarrow> app_req \<Rightarrow> layer list \<Rightarrow> outcome" where
  "run_layers cfg files rq [] = NotFound"
| "run_layers cfg files rq (Cors # ls) =
     (if rq_method rq = OPTIONS then Preflight else run_layers cfg files rq ls)"
| "run_layers cfg files rq (BodyParser # ls) =
     (if \<not> rq_body_ok rq then BodyError else run_layers cfg files rq ls)"
| "run_layers cfg files rq (Static p # ls) =
     (case strip_prefix p (path_segs (rq_path rq)) of
        Some [f] \<Rightarrow> if method_match GET (rq_method rq) \<and> f \<in> files then StaticFile f
                    else run_layers cfg files rq ls
      | _ \<Rightarrow> run_layers cfg files rq ls)"
| "run_layers cfg files rq (Mount p rt # ls) =
     (case strip_prefix p (path_segs (rq_path rq)) of
        None \<Rightarrow> run_layers cfg files rq ls
      | Some rest \<Rightarrow> (case run_router cfg rq rest rt of
                        Some out \<Rightarrow> out
                      | None \<Rightarrow> run_layers cfg files rq ls))"
| "run_layers cfg files rq (AppGet p # ls) =
     (if method_match GET (rq_method rq) \<and> path_match p (path_segs (rq_path rq)) then RootReply
      else run_layers cfg files rq ls)"

definition app :: "string option \<Rightarrow> string set \<Rightarrow> app_req \<Rightarrow> outcome" where
  "app cfg files rq = run_layers cfg files rq app_layers"


text \<open>The route a request to a mounted router is written for: the mount
  prefix followed by the pattern with \<open>1\<close> for each parameter.\<close>

definition sample_path :: "string \<Rightarrow> string \<Rightarrow> string" where
  "sample_path p pat =
     concat (map (\<lambda>s. CHR ''/'' # s) (path_segs p)) @
     concat (map (\<lambda>s. CHR ''/'' # (if s \<noteq> [] \<and> hd s = CHR '':'' then ''1'' else s)) (path_segs pat))"

definition mounts :: "(string \<times> router) list" where
  "mounts = [(p, rt). Mount p rt \<leftarrow> app_layers]"

section \<open>Properties\<close>

lemma run_router_gate:
  "rt_gate rt \<Longrightarrow> authenticateAPIKey cfg k = Inl r \<Longrightarrow> rq_api_key rq = k \<Longrightarrow>
     run_router cfg rq rest rt = Some (Refused r)"
  by (simp add: run_router_def)

lemma strip_prefix_root [simp]: "strip_prefix ''/'' segs = Some segs"
  by (simp add: strip_prefix_def path_segs_def)

text \<open>C15. Without an accepted \<open>x-api-key\<close>, the application answers
  every request other than a CORS preflight or a malformed body with the
  refusal of the first router's gate, or with a file of \<open>uploads/\<close>: the
  root route \<open>GET /\<close> and \<open>/admin/login\<close> are refused as well, since every
  router mounted at \<open>/\<close> runs \<open>authenticateAPIKey\<close> on every request that
  passes through it.\<close>

theorem app_refuses_without_key:
  assumes "authenticateAPIKey cfg (rq_api_key rq) = Inl r" "rq_method rq \<noteq> OPTIONS" "rq_body_ok rq"
  shows "app cfg files rq = Refused r \<or> (\<exists>f \<in> files. app cfg files rq = StaticFile f)"
proof -
  have g: "run_router cfg rq (path_segs (rq_path rq)) GeneralSettingsRoute = Some (Refused r)"
    using assms(1) by (simp add: run_router_gate GeneralSettingsRoute_def)
  show ?thesis
    using assms(2,3) g
    by (auto simp: app_def app_layers_def split: option.split list.split)
qed

end
