(* ===== verification/Sweeper.thy ===== *)
theory Sweeper
  imports Lifecycle
begin

text \<open>
  The session sweep as \<open>src/index.js\<close> schedules it (lines 55--56):
  \<open>runTokenCleanup\<close> once at startup and then every five minutes, between
  the statements the handlers run on \<open>active_tokens\<close>. A run of the table
  is a list of statements, each one of the \<open>Sessions\<close> operations the
  handlers issue (an insert of a new session, the blacklisting updates,
  the activity update, the delete of \<open>admin.js\<close>) or a sweep with the
  order in which the pool applies its two statements. The theory shows
  that every session is deleted by the second sweep after it expires, so
  at most ten minutes after its expiry.
\<close>

text \<open>\<open>setInterval(runTokenCleanup, 5 * 60 * 1000)\<close>: a sweep at startup
  \<open>t0\<close> and then at \<open>t0 + k * SWEEP_INTERVAL\<close>.\<close>

definition SWEEP_INTERVAL :: ms where
  "SWEEP_INTERVAL = 5 * 60 * 1000"

datatype tbl_op =
    TInsert string nat string string ms
  | TBlacklistAdmin nat
  | TBlacklistToken string
  | TBlacklistTokenOf string nat
  | TTouch ms string nat
  | TDeleteAdmin nat
  | TSweep sched ms

fun tbl_step :: "tbl_op \<Rightarrow> session_row list \<Rightarrow> session_row list" where
  "tbl_step (TInsert jti aid ip ua now) rs =
     (case insert_session (new_session jti aid ip ua now) rs of None \<Rightarrow> rs | Some rs' \<Rightarrow> rs')"
| "tbl_step (TBlacklistAdmin aid) rs = blacklist_admin_sessions aid rs"
| "tbl_step (TBlacklistToken jti) rs = blacklist_token jti rs"
| "tbl_step (TBlacklistTokenOf jti aid) rs = blacklist_token_of jti aid rs"
| "tbl_step (TTouch now jti aid) rs = touch_session now jti aid rs"
| "tbl_step (TDeleteAdmin aid) rs = delete_admin_sessions aid rs"
| "tbl_step (TSweep sc now) rs = runTokenCleanup NoFault sc now rs"

fun tbl_run :: "tbl_op list \<Rightarrow> session_row list \<Rightarrow> session_row list" where
  "tbl_run [] rs = rs"
| "tbl_run (op # ops) rs = tbl_run ops (tbl_step op rs)"

text \<open>The clock reading of a statement that reads it.\<close>

fun op_time :: "tbl_op \<Rightarrow> ms option" where
  "op_time (TInsert jti aid ip ua now) = Some now"
| "op_time (TTouch now jti aid) = Some now"
| "op_time (TSweep sc now) = Some now"
| "op_time _ = None"

text \<open>The run \<open>index.js\<close> schedules (lines 55--56):
  \<open>runTokenCleanup()\<close> at startup \<open>t0\<close>, then \<open>setInterval\<close> every
  \<open>SWEEP_INTERVAL\<close>; \<open>bs ! k\<close> are the statements the handlers issue
  between the sweep at \<open>t0 + k * SWEEP_INTERVAL\<close> and the next. Each sweep
  applies its two statements in the order \<open>sc k\<close> the pool gives.\<close>

fun sched_run_ops :: "ms \<Rightarrow> nat \<Rightarrow> (nat \<Rightarrow> sched) \<Rightarrow> tbl_op list list \<Rightarrow> tbl_op list" where
  "sched_run_ops t0 k sc [] = []"
| "sched_run_ops t0 k sc (b # bs) =
     TSweep (sc k) (t0 + int k * SWEEP_INTERVAL) # b @ sched_run_ops t0 (Suc k) sc bs"

text \<open>The statements between two sweeps read clocks no earlier than the
  first of them.\<close>

definition batches_clocked :: "ms \<Rightarrow> tbl_op list list \<Rightarrow> bool" where
  "batches_clocked t0 bs \<longleftrightarrow>
     (\<forall>k < length bs. \<forall>op \<in> set (bs ! k). \<forall>now. op_time op = Some now \<longrightarrow> t0 + int k * SWEEP_INTERVAL \<le> now)"

section \<open>Properties\<close>

text \<open>Every row of the new table comes from a row of the old one with the
  same expiry, blacklisted if that one was.\<close>

definition derives :: "session_row list \<Rightarrow> session_row list \<Rightarrow> bool" where
  "derives rs' rs \<longleftrightarrow>
     (\<forall>r' \<in> set rs'. \<exists>r \<in> set rs. expires_at r' = expires_at r \<and> (is_blacklisted r \<longrightarrow> is_blacklisted r'))"

definition expired_blacklisted :: "ms \<Rightarrow> session_row list \<Rightarrow> bool" where
  "expired_blacklisted t rs \<longleftrightarrow> (\<forall>r \<in> set rs. expires_at r < t \<longrightarrow> is_blacklisted r)"

definition none_expired :: "ms \<Rightarrow> session_row list \<Rightarrow> bool" where
  "none_expired t rs \<longleftrightarrow> (\<forall>r \<in> set rs. t \<le> expires_at r)"

lemma derives_update_where:
  "(\<And>r. expires_at (f r) = expires_at r \<and> (is_blacklisted r \<longrightarrow> is_blacklisted (f r))) \<Longrightarrow>
   derives (update_where P f rs) rs"
  by (force simp: derives_def set_update_where)

lemma derives_delete_where: "derives (delete_where P rs) rs"
  by (auto simp: derives_def)

lemma derives_expired_blacklisted:
  "derives rs' rs \<Longrightarrow> expired_blacklisted t rs \<Longrightarrow> expired_blacklisted t rs'"
  by (fastforce simp: derives_def expired_blacklisted_def)

lemma derives_none_expired:
  "derives rs' rs \<Longrightarrow> none_expired t rs \<Longrightarrow> none_expired t rs'"
  by (fastforce simp: derives_def none_expired_def)

lemma derives_blacklist: "expires_at (blacklist r) = expires_at r \<and> (is_blacklisted r \<longrightarrow> is_blacklisted (blacklist r))"
  by (simp add: blacklist_def)

lemma derives_sweep: "derives (runTokenCleanup NoFault sc now rs) rs"
proof -
  have u: "derives (expire_sessions now xs) xs" for xs
    by (simp add: expire_sessions_def derives_update_where derives_blacklist)
  have d: "derives (purge_blacklisted xs) xs" for xs
    by (simp add: purge_blacklisted_def derives_delete_where)
  have t: "derives zs ys \<Longrightarrow> derives ys xs \<Longrightarrow> derives zs xs" for xs ys zs
    by (fastforce simp: derives_def)
  show ?thesis
    using t [OF u d] t [OF d u] by (cases sc) (simp_all add: runTokenCleanup_def)
qed

text \<open>A sweep at time \<open>t\<close> leaves every row that expired before \<open>t\<close>
  blacklisted (or deleted), and keeps no row that was blacklisted before it,
  whichever of its two statements the pool applies first.\<close>

lemma sweep_blacklists_expired: "expired_blacklisted now (runTokenCleanup NoFault sc now rs)"
  by (cases sc)
     (auto simp: runTokenCleanup_def expire_sessions_def purge_blacklisted_def expired_blacklisted_def
           update_where_def blacklist_def)

lemma sweep_purges_blacklisted:
  "expired_blacklisted t rs \<Longrightarrow> none_expired t (runTokenCleanup NoFault sc now rs)"
  by (cases sc)
     (auto simp: runTokenCleanup_def expire_sessions_def purge_blacklisted_def expired_blacklisted_def
           none_expired_def update_where_def blacklist_def not_less)

lemma step_derives:
  "derives (tbl_step op rs) rs \<or> (\<exists>jti aid ip ua now. op = TInsert jti aid ip ua now)"
  by (cases op) (simp_all add: session_ops_defs derives_update_where derives_delete_where derives_blacklist derives_sweep)

lemma step_expired_blacklisted:
  assumes "expired_blacklisted t rs" "\<And>now. op_time op = Some now \<Longrightarrow> t \<le> now"
  shows "expired_blacklisted t (tbl_step op rs)"
proof (cases "\<exists>jti aid ip ua now. op = TInsert jti aid ip ua now")
  case True
  with assms show ?thesis
    by (auto simp: insert_session_def new_session_def expired_blacklisted_def SESSION_TTL_def split: if_splits)
next
  case False
  then show ?thesis
    using assms(1) step_derives [of op rs] by (blast intro: derives_expired_blacklisted)
qed

lemma step_none_expired:
  assumes "none_expired t rs" "\<And>now. op_time op = Some now \<Longrightarrow> t \<le> now"
  shows "none_expired t (tbl_step op rs)"
proof (cases "\<exists>jti aid ip ua now. op = TInsert jti aid ip ua now")
  case True
  with assms show ?thesis
    by (auto simp: insert_session_def new_session_def none_expired_def SESSION_TTL_def split: if_splits)
next
  case False
  then show ?thesis
    using assms(1) step_derives [of op rs] by (blast intro: derives_none_expired)
qed


lemma tbl_run_append [simp]: "tbl_run (xs @ ys) rs = tbl_run ys (tbl_run xs rs)"
  by (induction xs arbitrary: rs) simp_all

lemma run_expired_blacklisted:
  "expired_blacklisted t rs \<Longrightarrow> \<forall>op \<in> set ops. \<forall>now. op_time op = Some now \<longrightarrow> t \<le> now \<Longrightarrow>
   expired_blacklisted t (tbl_run ops rs)"
  by (induction ops arbitrary: rs) (simp_all add: step_expired_blacklisted)

lemma run_none_expired:
  "none_expired t rs \<Longrightarrow> \<forall>op \<in> set ops. \<forall>now. op_time op = Some now \<longrightarrow> t \<le> now \<Longrightarrow>
   none_expired t (tbl_run ops rs)"
  by (induction ops arbitrary: rs) (simp_all add: step_none_expired)

text \<open>With sweeps every \<open>SWEEP_INTERVAL\<close> from \<open>t0\<close>, a time \<open>e\<close> after
  startup is passed by some sweep no later than one interval after it,
  and the sweep after that comes at most two intervals after \<open>e\<close>.\<close>

lemma sweep_times_after:
  assumes "t0 \<le> e"
  shows "\<exists>k. e < t0 + int k * SWEEP_INTERVAL \<and> t0 + int (Suc k) * SWEEP_INTERVAL \<le> e + 2 * SWEEP_INTERVAL"
proof -
  define I where "I = SWEEP_INTERVAL"
  have I: "0 < I" by (simp add: I_def SWEEP_INTERVAL_def)
  define q where "q = (e - t0) div I"
  have q: "0 \<le> q" using assms I by (simp add: q_def pos_imp_zdiv_nonneg_iff)
  have "q * I \<le> e - t0" "e - t0 < q * I + I"
    using I by (simp_all add: q_def minus_mod_eq_div_mult [symmetric] pos_mod_bound)
  moreover have n: "int (nat (q + 1)) = q + 1" "int (Suc (nat (q + 1))) = q + 2"
    using q by simp_all
  ultimately have "e < t0 + int (nat (q + 1)) * I \<and> t0 + int (Suc (nat (q + 1))) * I \<le> e + 2 * I"
    by (simp only: n) (simp add: algebra_simps)
  then show ?thesis unfolding I_def by blast
qed

text \<open>Liveness of the sweep: in any run of the session table, once a
  sweep at time \<open>t1\<close> and a later sweep have run, with every statement
  after the first sweep reading a clock no earlier than \<open>t1\<close>, no session
  that expired before \<open>t1\<close> is left, whatever order the pool gave each
  sweep's two statements. With the sweeps \<open>index.js\<close> schedules every five
  minutes (\<open>sweep_times_after\<close>), every session is deleted at most ten
  minutes after it expires.\<close>

lemma swept_by_second_sweep:
  assumes "ops = xs @ TSweep sc1 t1 # ys @ TSweep sc2 t2 # zs"
    and "\<forall>op \<in> set (ys @ TSweep sc2 t2 # zs). \<forall>now. op_time op = Some now \<longrightarrow> t1 \<le> now"
  shows "none_expired t1 (tbl_run ops rs)"
proof -
  let ?r1 = "runTokenCleanup NoFault sc1 t1 (tbl_run xs rs)"
  have "expired_blacklisted t1 (tbl_run ys ?r1)"
    using assms(2) by (intro run_expired_blacklisted) (auto simp: sweep_blacklists_expired)
  then have "none_expired t1 (runTokenCleanup NoFault sc2 t2 (tbl_run ys ?r1))"
    by (rule sweep_purges_blacklisted)
  then have "none_expired t1 (tbl_run zs (runTokenCleanup NoFault sc2 t2 (tbl_run ys ?r1)))"
    using assms(2) by (intro run_none_expired) auto
  then show ?thesis
    using assms(1) by simp
qed

lemma sched_run_ops_append:
  "sched_run_ops t0 m sc (xs @ ys) = sched_run_ops t0 m sc xs @ sched_run_ops t0 (m + length xs) sc ys"
  by (induction xs arbitrary: m) simp_all

lemma sched_run_ops_times:
  assumes "\<forall>i < length bs. \<forall>op \<in> set (bs ! i). \<forall>now. op_time op = Some now \<longrightarrow> t \<le> now"
    and "t \<le> t0 + int m * SWEEP_INTERVAL"
  shows "\<forall>op \<in> set (sched_run_ops t0 m sc bs). \<forall>now. op_time op = Some now \<longrightarrow> t \<le> now"
  using assms
proof (induction bs arbitrary: m)
  case Nil then show ?case by simp
next
  case (Cons b bs)
  have m: "t \<le> t0 + int (Suc m) * SWEEP_INTERVAL"
    using Cons.prems(2) by (simp add: SWEEP_INTERVAL_def algebra_simps)
  have "\<forall>i < length bs. \<forall>op \<in> set (bs ! i). \<forall>now. op_time op = Some now \<longrightarrow> t \<le> now"
    using Cons.prems(1) by (metis Suc_less_eq length_Cons nth_Cons_Suc)
  then have r: "\<forall>op \<in> set (sched_run_ops t0 (Suc m) sc bs). \<forall>now. op_time op = Some now \<longrightarrow> t \<le> now"
    using Cons.IH m by blast
  have "\<forall>op \<in> set b. \<forall>now. op_time op = Some now \<longrightarrow> t \<le> now"
    using Cons.prems(1) by (metis length_Cons nth_Cons_0 zero_less_Suc)
  then show ?case using r Cons.prems(2) by auto
qed

text \<open>C31. Every session is deleted at most ten minutes after it expires.
  In the run \<open>index.js\<close> schedules (a sweep at startup \<open>t0\<close> and then
  every five minutes, with any statements of the handlers between them,
  reading clocks that do not go back, and any pool order of each sweep's two
  statements), once the run has reached the five-minute interval in which
  \<open>e + 10\<close> minutes falls, no session that expires at \<open>e\<close> or earlier is
  left: every remaining row expires after \<open>e\<close>.\<close>

theorem swept_within_ten_minutes:
  assumes "batches_clocked t0 bs" "t0 \<le> e"
    and "e + 10 * 60 * 1000 < t0 + int (length bs) * SWEEP_INTERVAL"
  shows "\<forall>r \<in> set (tbl_run (sched_run_ops t0 0 sc bs) rs). e < expires_at r"
proof -
  obtain k where k: "e < t0 + int k * SWEEP_INTERVAL"
      "t0 + int (Suc k) * SWEEP_INTERVAL \<le> e + 2 * SWEEP_INTERVAL"
    using sweep_times_after [OF assms(2)] by blast
  have "int (Suc k) * SWEEP_INTERVAL < int (length bs) * SWEEP_INTERVAL"
    using k(2) assms(3) by (simp add: SWEEP_INTERVAL_def)
  then have len: "Suc k < length bs" by (simp add: SWEEP_INTERVAL_def)
  define t1 where "t1 = t0 + int k * SWEEP_INTERVAL"
  define rest where "rest = sched_run_ops t0 (Suc (Suc k)) sc (drop (Suc (Suc k)) bs)"
  have d1: "drop k bs = bs ! k # drop (Suc k) bs" and d2: "drop (Suc k) bs = bs ! Suc k # drop (Suc (Suc k)) bs"
    using len by (simp_all add: Cons_nth_drop_Suc)
  have ops: "sched_run_ops t0 0 sc bs =
      sched_run_ops t0 0 sc (take k bs) @ TSweep (sc k) t1 # bs ! k @
        TSweep (sc (Suc k)) (t0 + int (Suc k) * SWEEP_INTERVAL) # bs ! Suc k @ rest"
  proof -
    have "sched_run_ops t0 0 sc bs = sched_run_ops t0 0 sc (take k bs) @ sched_run_ops t0 k sc (drop k bs)"
      using sched_run_ops_append [of t0 0 sc "take k bs" "drop k bs"] len by simp
    then show ?thesis by (simp add: d1 d2 t1_def rest_def)
  qed
  have late: "\<forall>i < length (drop (Suc k) bs). \<forall>op \<in> set (drop (Suc k) bs ! i).
      \<forall>now. op_time op = Some now \<longrightarrow> t1 \<le> now"
  proof (intro allI impI ballI)
    fix i op now
    assume i: "i < length (drop (Suc k) bs)" and op: "op \<in> set (drop (Suc k) bs ! i)" and t: "op_time op = Some now"
    have b: "Suc k + i < length bs" using i by simp
    have o: "op \<in> set (bs ! (Suc k + i))" using op i by simp
    have "t0 + int (Suc k + i) * SWEEP_INTERVAL \<le> now"
      using assms(1) b o t unfolding batches_clocked_def by blast
    then show "t1 \<le> now" by (simp add: t1_def SWEEP_INTERVAL_def algebra_simps)
  qed
  have "\<forall>op \<in> set (sched_run_ops t0 (Suc k) sc (drop (Suc k) bs)). \<forall>now. op_time op = Some now \<longrightarrow> t1 \<le> now"
    by (rule sched_run_ops_times [OF late]) (simp add: t1_def SWEEP_INTERVAL_def)
  moreover have "\<forall>op \<in> set (bs ! k). \<forall>now. op_time op = Some now \<longrightarrow> t1 \<le> now"
    using assms(1) len by (simp add: batches_clocked_def t1_def)
  ultimately have clk: "\<forall>op \<in> set (bs ! k @ TSweep (sc (Suc k)) (t0 + int (Suc k) * SWEEP_INTERVAL) # bs ! Suc k @ rest).
      \<forall>now. op_time op = Some now \<longrightarrow> t1 \<le> now"
    by (simp add: d2 rest_def) blast
  have "none_expired t1 (tbl_run (sched_run_ops t0 0 sc bs) rs)"
    by (rule swept_by_second_sweep [OF ops clk])
  then show ?thesis using k(1) by (auto simp: none_expired_def t1_def)
qed

end
