(* ===== verification/Agency.thy ===== *)
theory Agency
  imports Middleware ItemSearch Complex_Main
begin

text \<open>
  \<open>getAgencyById\<close> of \<open>src/controller/login/login.js\<close> (lines 174--196)
  and its route \<open>/admin/getagencybyid/:id\<close> behind \<open>verifyToken\<close>. The
  route parameter is a string. The handler's guard \<open>isNaN(id)\<close> converts
  it with JavaScript's \<open>Number\<close>, whose grammar of numeric strings
  (ECMAScript \<open>StringToNumber\<close>: white space around a decimal literal
  with sign, fraction and exponent, \<open>Infinity\<close>, or a \<open>0x\<close>, \<open>0o\<close>,
  \<open>0b\<close> literal) is written out as a predicate. The query then binds the
  same string into \<open>WHERE id = ?\<close>, where MySQL compares the integer
  column with the string as numbers, reading the longest numeric prefix of
  the string. Both conversions are library behaviour outside the repository,
  written from the ECMAScript and MySQL documentation; characters are ASCII,
  and MySQL's numbers are taken as exact rationals (its rounding to double
  precision only matters beyond 15 significant digits).
\<close>

section \<open>\<open>isNaN\<close> on a string\<close>

definition is_oct_digit :: "char \<Rightarrow> bool" where
  "is_oct_digit c \<longleftrightarrow> of_char c \<in> {48..55 :: nat}"

definition is_bin_digit :: "char \<Rightarrow> bool" where
  "is_bin_digit c \<longleftrightarrow> c = CHR ''0'' \<or> c = CHR ''1''"

definition digits1 :: "(char \<Rightarrow> bool) \<Rightarrow> string \<Rightarrow> bool" where
  "digits1 P ds \<longleftrightarrow> ds \<noteq> [] \<and> list_all P ds"

text \<open>\<open>ExponentPart\<close>, optional: \<open>e\<close> or \<open>E\<close>, a sign, digits.\<close>

definition str_exponent_ok :: "string \<Rightarrow> bool" where
  "str_exponent_ok r =
     (case r of [] \<Rightarrow> True
      | c # u \<Rightarrow> (c = CHR ''e'' \<or> c = CHR ''E'') \<and>
          (case u of [] \<Rightarrow> False
           | d # v \<Rightarrow> if d = CHR ''+'' \<or> d = CHR ''-'' then digits1 is_digit v else digits1 is_digit u))"

text \<open>\<open>StrUnsignedDecimalLiteral\<close>: \<open>Infinity\<close>, or digits with an optional
  fraction (at least one digit before or after the point) and exponent.\<close>

definition str_unsigned_decimal :: "string \<Rightarrow> bool" where
  "str_unsigned_decimal t \<longleftrightarrow> t = ''Infinity'' \<or>
     (let ip = takeWhile is_digit t; r1 = dropWhile is_digit t in
      case r1 of [] \<Rightarrow> ip \<noteq> []
      | c # u \<Rightarrow>
          if c = CHR ''.'' then (ip \<noteq> [] \<or> takeWhile is_digit u \<noteq> []) \<and> str_exponent_ok (dropWhile is_digit u)
          else ip \<noteq> [] \<and> str_exponent_ok r1)"

definition str_decimal :: "string \<Rightarrow> bool" where
  "str_decimal t =
     (case t of [] \<Rightarrow> False
      | c # u \<Rightarrow> if c = CHR ''+'' \<or> c = CHR ''-'' then str_unsigned_decimal u else str_unsigned_decimal t)"

text \<open>\<open>NonDecimalIntegerLiteral\<close>: no sign is allowed.\<close>

definition str_nondecimal :: "string \<Rightarrow> bool" where
  "str_nondecimal t =
     (case t of c # x # ds \<Rightarrow> c = CHR ''0'' \<and>
          ((x = CHR ''x'' \<or> x = CHR ''X'') \<and> digits1 is_hex_digit ds \<or>
           (x = CHR ''o'' \<or> x = CHR ''O'') \<and> digits1 is_oct_digit ds \<or>
           (x = CHR ''b'' \<or> x = CHR ''B'') \<and> digits1 is_bin_digit ds)
      | _ \<Rightarrow> False)"

text \<open>\<open>isNaN(s)\<close> for a string \<open>s\<close>: \<open>Number(s)\<close> is \<open>NaN\<close> unless the
  trimmed string is empty (which is \<open>0\<close>) or a numeric literal.\<close>

definition js_isNaN_str :: "string \<Rightarrow> bool" where
  "js_isNaN_str s \<longleftrightarrow>
     \<not> (let t = js_trim s in t = [] \<or> str_decimal t \<or> str_nondecimal t)"

section \<open>MySQL's number of a string\<close>

text \<open>The exponent of a numeric prefix: \<open>e\<close> or \<open>E\<close>, a sign, digits;
  without digits there is no exponent.\<close>

definition sql_exponent :: "string \<Rightarrow> int" where
  "sql_exponent r =
     (case r of [] \<Rightarrow> 0
      | c # u \<Rightarrow>
          if c = CHR ''e'' \<or> c = CHR ''E'' then
            (let neg = (u \<noteq> [] \<and> hd u = CHR ''-'');
                 v = (if u \<noteq> [] \<and> (hd u = CHR ''-'' \<or> hd u = CHR ''+'') then tl u else u);
                 ds = takeWhile is_digit v
             in if ds = [] then 0 else (if neg then -1 else 1) * int (digits_value ds))
          else 0)"

text \<open>The number MySQL compares a string with: leading white space
  skipped, a sign, digits, a fraction, an exponent, as long a prefix as
  reads as a number; no digits at all read as \<open>0\<close>.\<close>

definition sql_str_num :: "string \<Rightarrow> rat" where
  "sql_str_num s =
     (let t = dropWhile is_js_space s;
          neg = (t \<noteq> [] \<and> hd t = CHR ''-'');
          r = (if t \<noteq> [] \<and> (hd t = CHR ''-'' \<or> hd t = CHR ''+'') then tl t else t);
          ip = takeWhile is_digit r;
          r1 = dropWhile is_digit r;
          frac = (r1 \<noteq> [] \<and> hd r1 = CHR ''.'');
          fp = (if frac then takeWhile is_digit (tl r1) else []);
          r2 = (if frac then dropWhile is_digit (tl r1) else r1);
          e = sql_exponent r2 - int (length fp);
          m = (if neg then -1 else 1) * of_nat (digits_value (ip @ fp))
      in if 0 \<le> e then m * 10 ^ nat e else m / 10 ^ nat (- e))"

section \<open>The handler and its route\<close>

text \<open>\<open>getAgencyById\<close>: the guard \<open>!id || isNaN(id)\<close>, query 1
  \<open>SELECT id, name, email, number, status, ... FROM admin WHERE id = ?\<close>,
  the first row as the body (the password column is not selected).\<close>

definition getAgencyById :: "fault \<Rightarrow> string \<Rightarrow> auth_db \<Rightarrow> auth_body response" where
  "getAgencyById ff id' db =
     (if id' = [] \<or> js_isNaN_str id' then Response 400 (ErrBody ''Invalid admin ID'')
      else if fails ff 1 then Response 500 (ErrBody ''Database error'')
      else case first_where (\<lambda>a. of_nat (adm_id a) = sql_str_num id') (admins db) of
             None \<Rightarrow> Response 404 (ErrBody ''Admin not found'')
           | Some a \<Rightarrow> Response 200 (AdminInfo (adm_id a) (adm_name a) (adm_email a) (adm_number a) (adm_status a)))"

text \<open>\<open>router.get('/getagencybyid/:id', verifyToken, login.getAgencyById)\<close>
  after the router's \<open>authenticateAPIKey\<close>.\<close>

definition route_getagency :: "string option \<Rightarrow> fault \<Rightarrow> fault \<Rightarrow> ms \<Rightarrow> http_req \<Rightarrow> string \<Rightarrow>
    auth_db \<Rightarrow> auth_result" where
  "route_getagency cfg fv ff now rq id' db =
     route_protected cfg fv now rq db (\<lambda>ra. (db, getAgencyById ff id' db))"

section \<open>Properties\<close>

lemma dropWhile_no_space:
  "s = [] \<or> \<not> is_js_space (hd s) \<Longrightarrow> dropWhile is_js_space s = s"
  by (cases s) simp_all

lemma js_trim_digits_prefix:
  assumes "c # s \<noteq> []" "\<not> is_js_space c" "list_all (\<lambda>x. \<not> is_js_space x) s"
  shows "js_trim (c # s) = c # s"
proof -
  have "dropWhile is_js_space (rev (c # s)) = rev (c # s)"
    using assms(2,3) by (cases "rev s") (auto simp: list_all_iff dest: arg_cong [where f = set])
  then show ?thesis using assms(2) by (simp add: js_trim_def)
qed

lemma takeWhile_digits_stop:
  "list_all is_digit xs \<Longrightarrow> \<not> is_digit c \<Longrightarrow> takeWhile is_digit (xs @ c # ys) = xs"
  by (induction xs) simp_all

lemma dropWhile_digits_stop:
  "list_all is_digit xs \<Longrightarrow> \<not> is_digit c \<Longrightarrow> dropWhile is_digit (xs @ c # ys) = c # ys"
  by (induction xs) simp_all

lemma dropWhile_digits_all: "list_all is_digit xs \<Longrightarrow> dropWhile is_digit xs = []"
  by (induction xs) simp_all

lemma nat_digits_not_space: "list_all (\<lambda>x. \<not> is_js_space x) (nat_digits n)"
  using nat_digits_digits [of n] by (simp add: list_all_iff digit_not_special)

lemma nat_digits_Cons: "\<exists>c s. nat_digits n = c # s \<and> is_digit c"
  using nat_digits_ne [of n] nat_digits_hd [of n] by (cases "nat_digits n") auto

text \<open>The decimal string of an account id passes the guard and is read by
  MySQL as that id.\<close>

lemma isNaN_nat_digits: "\<not> js_isNaN_str (nat_digits n)"
proof -
  obtain c s where cs: "nat_digits n = c # s" "is_digit c" using nat_digits_Cons by blast
  have t: "js_trim (nat_digits n) = nat_digits n"
    using cs nat_digits_not_space [of n] digit_not_special [OF cs(2)] by (simp add: js_trim_digits_prefix)
  have "str_unsigned_decimal (nat_digits n)"
    using nat_digits_digits [of n] nat_digits_ne [of n]
    by (simp add: str_unsigned_decimal_def dropWhile_digits_all takeWhile_nat_digits)
  then show ?thesis
    using t cs digit_not_special [OF cs(2)] by (simp add: js_isNaN_str_def str_decimal_def)
qed

lemma sql_str_num_nat_digits: "sql_str_num (nat_digits n) = of_nat n"
proof -
  have h: "\<not> is_js_space (hd (nat_digits n)) \<and> hd (nat_digits n) \<noteq> CHR ''-'' \<and> hd (nat_digits n) \<noteq> CHR ''+''"
    using digit_not_special [OF nat_digits_hd [of n]] .
  then have "dropWhile is_js_space (nat_digits n) = nat_digits n"
    by (simp add: dropWhile_no_space)
  then show ?thesis
    using h nat_digits_ne [of n] nat_digits_digits [of n]
    by (simp add: sql_str_num_def Let_def dropWhile_digits_all takeWhile_nat_digits
                  digits_value_nat_digits sql_exponent_def del: nat_digits.simps)
qed

text \<open>On the decimal string of a number \<open>n\<close>, as a client sends an
  account id, \<open>getAgencyById\<close> answers with the account whose id is
  \<open>n\<close>, without its password, or 404 when there is none.\<close>

lemma getAgencyById_dec:
  "getAgencyById ff (nat_digits n) db =
     (if fails ff 1 then Response 500 (ErrBody ''Database error'')
      else case admin_by_id n (admins db) of
             None \<Rightarrow> Response 404 (ErrBody ''Admin not found'')
           | Some a \<Rightarrow> Response 200 (AdminInfo (adm_id a) (adm_name a) (adm_email a) (adm_number a) (adm_status a)))"
  using nat_digits_ne [of n]
  by (simp add: getAgencyById_def isNaN_nat_digits sql_str_num_nat_digits admin_by_id_def del: nat_digits.simps)

lemma hex_digit_not_space: "is_hex_digit c \<Longrightarrow> \<not> is_js_space c"
  by (auto simp: is_hex_digit_def is_digit_def is_js_space_def)

lemma hex_not_isNaN: "digits1 is_hex_digit ds \<Longrightarrow> \<not> js_isNaN_str (''0x'' @ ds)"
proof -
  assume ds: "digits1 is_hex_digit ds"
  have "list_all (\<lambda>x. \<not> is_js_space x) ds"
    using ds by (auto simp: digits1_def list_all_iff hex_digit_not_space)
  moreover have "\<not> is_js_space CHR ''x''" by (simp add: is_js_space_def)
  ultimately have "list_all (\<lambda>x. \<not> is_js_space x) (CHR ''x'' # ds)" by simp
  then have "js_trim (''0x'' @ ds) = ''0x'' @ ds"
    using js_trim_digits_prefix [of "CHR ''0''" "CHR ''x'' # ds"] by (simp add: is_js_space_def)
  then show ?thesis using ds by (simp add: js_isNaN_str_def str_nondecimal_def)
qed

lemma sql_str_num_hex: "sql_str_num (''0x'' @ ds) = 0"
  by (simp add: sql_str_num_def Let_def is_js_space_def is_digit_def sql_exponent_def digits_value_def digit_val_def)

text \<open>C9. The guard \<open>isNaN(id)\<close> and the query read the parameter
  differently: a hexadecimal id such as \<open>0x1F\<close> passes the guard, since
  \<open>Number\<close> accepts it, but MySQL reads it as \<open>0\<close>, so the handler
  answers for it exactly as for the id \<open>0\<close>, never with the account the
  hexadecimal number names.\<close>

theorem getAgencyById_hex_reads_zero:
  assumes "digits1 is_hex_digit ds"
  shows "getAgencyById ff (''0x'' @ ds) db = getAgencyById ff ''0'' db"
proof -
  have z: "''0'' = nat_digits 0" by code_simp
  show ?thesis
    using hex_not_isNaN [OF assms] sql_str_num_hex [of ds]
    by (simp only: z getAgencyById_dec) (simp add: getAgencyById_def admin_by_id_def)
qed

end
