(* ===== verification/Pool.thy ===== *)
theory Pool
  imports Offers "HOL-Library.Multiset"
begin

text \<open>
  The connection pool of \<open>src/connection/connection.js\<close>: a \<open>mysql2\<close>
  pool created with \<open>connectionLimit: 10\<close>, \<open>waitForConnections: true\<close>
  and \<open>queueLimit: 0\<close>, and the connection test the module runs at load.
  \<open>getConnection\<close> and \<open>releaseConnection\<close> are the library's (not in the
  repository), written from its documented behaviour: an idle connection
  is handed out first, a new one is opened while fewer than the limit exist,
  otherwise the request waits in a first-in first-out queue (or is refused
  when waiting is off or the queue is at its limit, \<open>0\<close> meaning no limit);
  a released connection goes to the first waiting request, or back to the
  idle ones. Requests are named by a type \<open>'j\<close>. The handlers use the pool
  in two ways: \<open>connection.query\<close> takes a connection for one statement
  and releases it, and \<open>editOffer\<close> holds one for its transaction; its
  use of the connection is the event trace \<open>editOffer_conn\<close>, branch by
  branch as \<open>offer.js\<close> writes it.
\<close>

record pool_config =
  connectionLimit :: nat
  waitForConnections :: bool
  queueLimit :: nat

text \<open>\<open>mysql.createPool({...})\<close>, lines 4--12 (host and credentials are
  not modelled).\<close>

definition connection_config :: pool_config where
  "connection_config = \<lparr>connectionLimit = 10, waitForConnections = True, queueLimit = 0\<rparr>"

text \<open>The pool: the connections it has opened (\<open>_allConnections\<close>), the
  idle ones (\<open>_freeConnections\<close>), the requests holding one, and the
  waiting requests (\<open>_connectionQueue\<close>).\<close>

record 'j pool =
  p_all :: nat
  p_free :: nat
  p_holders :: "'j list"
  p_queue :: "'j list"

definition empty_pool :: "'j pool" where
  "empty_pool = \<lparr>p_all = 0, p_free = 0, p_holders = [], p_queue = []\<rparr>"

datatype get_result = Granted | Queued | ConnectError | NoConnections | QueueLimitReached

text \<open>\<open>pool.getConnection(cb)\<close>; \<open>fails ff 1\<close> is a failed connect of a
  new connection, which the pool then drops.\<close>

definition getConnection :: "pool_config \<Rightarrow> fault \<Rightarrow> 'j \<Rightarrow> 'j pool \<Rightarrow> get_result \<times> 'j pool" where
  "getConnection cfg ff j p =
     (if 0 < p_free p then (Granted, p\<lparr>p_free := p_free p - 1, p_holders := p_holders p @ [j]\<rparr>)
      else if connectionLimit cfg = 0 \<or> p_all p < connectionLimit cfg then
        (if fails ff 1 then (ConnectError, p)
         else (Granted, p\<lparr>p_all := Suc (p_all p), p_holders := p_holders p @ [j]\<rparr>))
      else if \<not> waitForConnections cfg then (NoConnections, p)
      else if queueLimit cfg \<noteq> 0 \<and> queueLimit cfg \<le> length (p_queue p) then (QueueLimitReached, p)
      else (Queued, p\<lparr>p_queue := p_queue p @ [j]\<rparr>))"

text \<open>\<open>conn.release()\<close> by the request \<open>j\<close> holding it: the connection
  passes to the first waiting request, or becomes idle.\<close>

definition releaseConnection :: "'j \<Rightarrow> 'j pool \<Rightarrow> 'j pool" where
  "releaseConnection j p =
     (let hs = remove1 j (p_holders p) in
      case p_queue p of
        [] \<Rightarrow> p\<lparr>p_holders := hs, p_free := Suc (p_free p)\<rparr>
      | w # ws \<Rightarrow> p\<lparr>p_holders := hs @ [w], p_queue := ws\<rparr>)"

text \<open>The test at load, lines 15--22: \<open>getConnection\<close>, then on success
  \<open>conn.release()\<close>; on an error it only logs.\<close>

definition pool_startup :: "fault \<Rightarrow> 'j \<Rightarrow> 'j pool \<Rightarrow> 'j pool" where
  "pool_startup ff j p =
     (case getConnection connection_config ff j p of
        (Granted, p') \<Rightarrow> releaseConnection j p'
      | (_, p') \<Rightarrow> p')"

section \<open>The connection as \<open>editOffer\<close> uses it\<close>

datatype conn_ev = Acquire | Begin | Exec | Commit | Rollback | Release

text \<open>\<open>editOffer\<close>, lines 144--199, with the faults numbered as in
  \<open>Offers.editOffer\<close>: the events on the connection on each branch. A
  failed \<open>getConnection\<close> hands out no connection.\<close>

definition editOffer_conn :: "fault \<Rightarrow> offer_form \<Rightarrow> conn_ev list" where
  "editOffer_conn ff f =
     (if \<not> offer_form_ok f then []
      else if fails ff 1 then []
      else if fails ff 2 then [Acquire, Begin, Release]
      else if fails ff 3 then [Acquire, Begin, Exec, Rollback, Release]
      else if fails ff 4 then [Acquire, Begin, Exec, Exec, Rollback, Release]
      else if fails ff 5 then [Acquire, Begin, Exec, Exec, Exec, Rollback, Release]
      else if fails ff 6 then [Acquire, Begin, Exec, Exec, Exec, Commit, Rollback, Release]
      else [Acquire, Begin, Exec, Exec, Exec, Commit, Release])"

text \<open>\<open>connection.query(sql, values, cb)\<close> on the pool: a connection for
  one statement, released when it ends.\<close>

definition pool_query_conn :: "conn_ev list" where
  "pool_query_conn = [Acquire, Exec, Release]"

text \<open>A well-formed use of a pooled connection: acquired first, released
  last and once, a transaction begun at most once and only right after
  the acquire, nothing after the release.\<close>

definition conn_session_ok :: "conn_ev list \<Rightarrow> bool" where
  "conn_session_ok evs \<longleftrightarrow>
     evs = [] \<or>
     (hd evs = Acquire \<and> last evs = Release \<and> 2 \<le> length evs \<and>
      count (mset evs) Acquire = 1 \<and> count (mset evs) Release = 1 \<and>
      (Begin \<in> set evs \<longrightarrow> evs ! 1 = Begin \<and> count (mset evs) Begin = 1))"

section \<open>Serving every request\<close>

text \<open>The requests holding a connection finish one after the other and
  release it; \<open>ch\<close> chooses which of them finishes next. The result lists
  the requests in the order they finish, and the final pool.\<close>

function drain :: "('j list \<Rightarrow> nat) \<Rightarrow> 'j pool \<Rightarrow> 'j list \<times> 'j pool" where
  "drain ch p =
     (if p_holders p = [] then ([], p)
      else let h = p_holders p ! (ch (p_holders p) mod length (p_holders p));
               (js, p') = drain ch (releaseConnection h p)
           in (h # js, p'))"
  by pat_completeness auto

termination drain
proof (relation "measure (\<lambda>(ch, p). length (p_holders p) + length (p_queue p))")
  fix ch :: "'j list \<Rightarrow> nat" and p :: "'j pool" and h
  assume ne: "p_holders p \<noteq> []" and h: "h = p_holders p ! (ch (p_holders p) mod length (p_holders p))"
  then have "0 < length (p_holders p)" "h \<in> set (p_holders p)" by simp_all
  then show "((ch, releaseConnection h p), ch, p) \<in> measure (\<lambda>(ch, p). length (p_holders p) + length (p_queue p))"
    by (cases "p_queue p") (simp_all add: releaseConnection_def length_remove1 Let_def)
qed simp

declare drain.simps [simp del]

text \<open>The requests a pool has served or is serving, reachable from the
  empty pool by \<open>getConnection\<close> and the release of a held connection.\<close>

inductive pool_reach :: "pool_config \<Rightarrow> 'j pool \<Rightarrow> bool" for cfg where
  empty: "pool_reach cfg empty_pool"
| get: "pool_reach cfg p \<Longrightarrow> pool_reach cfg (snd (getConnection cfg ff j p))"
| release: "pool_reach cfg p \<Longrightarrow> h \<in> set (p_holders p) \<Longrightarrow> pool_reach cfg (releaseConnection h p)"

text \<open>Every opened connection is idle or held, no more are opened than the
  limit allows, and a request waits only when every connection is held.\<close>

definition pool_inv :: "pool_config \<Rightarrow> 'j pool \<Rightarrow> bool" where
  "pool_inv cfg p \<longleftrightarrow>
     p_all p = p_free p + length (p_holders p) \<and>
     (connectionLimit cfg \<noteq> 0 \<longrightarrow> p_all p \<le> connectionLimit cfg) \<and>
     (p_queue p \<noteq> [] \<longrightarrow> p_free p = 0 \<and> connectionLimit cfg \<noteq> 0 \<and> p_all p = connectionLimit cfg)"

section \<open>Properties\<close>

lemma pool_inv_get: "pool_inv cfg p \<Longrightarrow> pool_inv cfg (snd (getConnection cfg ff j p))"
  by (auto simp: pool_inv_def getConnection_def)

lemma pool_inv_release:
  assumes "pool_inv cfg p" "h \<in> set (p_holders p)"
  shows "pool_inv cfg (releaseConnection h p)"
proof -
  have "0 < length (p_holders p)" using assms(2) by (cases "p_holders p") auto
  then show ?thesis
    using assms by (cases "p_queue p") (auto simp: pool_inv_def releaseConnection_def length_remove1)
qed

lemma pool_reach_inv: "pool_reach cfg p \<Longrightarrow> pool_inv cfg p"
proof (induction rule: pool_reach.induct)
  case empty then show ?case by (simp add: pool_inv_def empty_pool_def)
qed (simp_all add: pool_inv_get pool_inv_release)

lemma release_holder_mset:
  "h \<in> set (p_holders p) \<Longrightarrow>
   mset (p_holders (releaseConnection h p)) + mset (p_queue (releaseConnection h p)) + {#h#} =
   mset (p_holders p) + mset (p_queue p)"
  by (cases "p_queue p") (simp_all add: releaseConnection_def Let_def)

lemma release_holder_free:
  "h \<in> set (p_holders p) \<Longrightarrow>
   p_free (releaseConnection h p) + length (p_holders (releaseConnection h p)) = p_free p + length (p_holders p)"
  by (cases "p_queue p") (auto simp: releaseConnection_def Let_def length_remove1 dest: length_pos_if_in_set)

lemma getConnection_connection_config:
  "fst (getConnection connection_config ff j p) \<in> {Granted, Queued, ConnectError}"
  by (simp add: getConnection_def connection_config_def)

lemma pool_reach_fold_get:
  "pool_reach cfg p \<Longrightarrow> pool_reach cfg (fold (\<lambda>j p. snd (getConnection cfg ff j p)) js p)"
  by (induction js arbitrary: p) (simp_all add: pool_reach.get)

lemma pool_inv_no_holders: "pool_inv cfg p \<Longrightarrow> p_holders p = [] \<Longrightarrow> p_queue p = []"
  by (auto simp: pool_inv_def)

lemma drain_holder:
  "p_holders p \<noteq> [] \<Longrightarrow> p_holders p ! (ch (p_holders p) mod length (p_holders p)) \<in> set (p_holders p)"
  by simp

text \<open>C7. \<open>editOffer\<close> uses its pooled connection well on every branch:
  whenever it obtains one (the form is complete and \<open>getConnection\<close>
  succeeds) it begins one transaction right away and releases the
  connection exactly once, as its last action, also after every rollback;
  it never holds a connection it did not acquire.\<close>

theorem editOffer_conn_session:
  "conn_session_ok (editOffer_conn ff f) \<and>
   (Acquire \<in> set (editOffer_conn ff f) \<longleftrightarrow> offer_form_ok f \<and> \<not> fails ff 1)"
  by (simp add: editOffer_conn_def conn_session_ok_def)

text \<open>C25. In every pool reachable under the configuration of
  \<open>connection.js\<close>, by any interleaving of \<open>getConnection\<close> and of
  releases by the requests holding a connection, at most ten connections
  are open, each idle or held by one request, and a request waits only
  when all ten are held.\<close>

theorem pool_reach_bounds:
  assumes "pool_reach connection_config p"
  shows "p_all p \<le> 10 \<and> p_all p = p_free p + length (p_holders p) \<and>
         (p_queue p \<noteq> [] \<longrightarrow> p_free p = 0 \<and> length (p_holders p) = 10)"
  using pool_reach_inv [OF assms] by (auto simp: pool_inv_def connection_config_def)

lemma drain_inv:
  assumes "pool_inv cfg p"
  shows "mset (fst (drain ch p)) = mset (p_holders p @ p_queue p) \<and>
         p_holders (snd (drain ch p)) = [] \<and> p_queue (snd (drain ch p)) = [] \<and>
         p_free (snd (drain ch p)) = p_free p + length (p_holders p)"
  using assms
proof (induction ch p rule: drain.induct)
  case (1 ch p)
  show ?case
  proof (cases "p_holders p = []")
    case True
    then show ?thesis using pool_inv_no_holders [OF "1.prems" True] by (simp add: drain.simps [of ch p])
  next
    case False
    define h where "h = p_holders p ! (ch (p_holders p) mod length (p_holders p))"
    have h: "h \<in> set (p_holders p)" using drain_holder [OF False] by (simp add: h_def)
    have ih: "mset (fst (drain ch (releaseConnection h p))) =
                mset (p_holders (releaseConnection h p) @ p_queue (releaseConnection h p)) \<and>
              p_holders (snd (drain ch (releaseConnection h p))) = [] \<and>
              p_queue (snd (drain ch (releaseConnection h p))) = [] \<and>
              p_free (snd (drain ch (releaseConnection h p))) =
                p_free (releaseConnection h p) + length (p_holders (releaseConnection h p))"
      using "1.IH" [OF False h_def pool_inv_release [OF "1.prems" h]] by (simp add: prod.collapse)
    have d: "drain ch p = (h # fst (drain ch (releaseConnection h p)), snd (drain ch (releaseConnection h p)))"
      using False by (simp add: drain.simps [of ch p] h_def [symmetric] split: prod.split)
    show ?thesis
      using ih release_holder_mset [OF h] release_holder_free [OF h] by (simp add: d add.commute)
  qed
qed

lemma getConnection_adds:
  assumes "getConnection cfg ff j p = (r, p')" "r \<in> {Granted, Queued}"
  shows "mset (p_holders p' @ p_queue p') = mset (p_holders p @ p_queue p) + {#j#}"
  using assms by (auto simp: getConnection_def split: if_splits)

text \<open>C14. Under the settings of \<open>connection.js\<close>
  (\<open>waitForConnections: true\<close>, \<open>queueLimit: 0\<close>), every request the pool
  can connect is served: \<open>getConnection\<close> never refuses it (it is given a
  connection or queued, never answered \<open>No connections available\<close> or
  \<open>Queue limit reached\<close>), and however the requests holding connections
  finish, releasing them in turn (\<open>drain\<close>) gives this request a
  connection exactly once. With waiting off or a queue limit, a request to
  a full pool would be refused and never served.\<close>

theorem pool_request_served:
  assumes "pool_reach connection_config p" "j \<notin> set (p_holders p @ p_queue p)"
    and "getConnection connection_config ff j p = (r, p')" "r \<noteq> ConnectError"
  shows "r \<in> {Granted, Queued} \<and> count (mset (fst (drain ch p'))) j = 1"
proof -
  have r: "r \<in> {Granted, Queued}"
    using getConnection_connection_config [of ff j p] assms(3,4) by auto
  have "pool_reach connection_config p'"
    using pool_reach.get [OF assms(1), of ff j] assms(3) by simp
  then have "mset (fst (drain ch p')) = mset (p_holders p' @ p_queue p')"
    using drain_inv [OF pool_reach_inv] by blast
  moreover have "mset (p_holders p' @ p_queue p') = mset (p_holders p @ p_queue p) + {#j#}"
    by (rule getConnection_adds [OF assms(3) r])
  ultimately show ?thesis
    using r assms(2) by (simp add: count_eq_zero_iff)
qed

end
