(* ===== verification/OfferTxn.thy ===== *)
theory OfferTxn
  imports Offers
begin

text \<open>
  The transactions \<open>addOffer\<close> and \<open>deleteOffer\<close> of
  \<open>src/controller/offer/offer.js\<close> mean to run: the callbacks they pass to
  \<open>connection.beginTransaction\<close>, as they would run on a connection that
  has transactions (as \<open>editOffer\<close>'s does). On the pool the code has,
  \<open>beginTransaction\<close> does not exist and neither callback ever runs
  (\<open>Offers.addOffer\<close>, \<open>Offers.deleteOffer\<close>); the theory shows what
  the requests would do and that the handlers as written never do it.
  Faults are numbered in the order of the calls: \<open>beginTransaction\<close> (1),
  the statements, \<open>commit\<close> (last). A failure rolls back to the tables as
  they were; \<open>nid\<close> is the \<open>insertId\<close> the database assigns and
  \<open>created\<close> the row's default creation time.
\<close>

text \<open>\<open>addOffer\<close>, lines 96--131: the check, then the \<open>INSERT\<close> of the
  offer (2), the \<open>INSERT\<close> of its discounts under \<open>offerResult.insertId\<close>
  (3) and \<open>commit\<close> (4), answering 201 with the new id.\<close>

definition addOffer_txn :: "fault \<Rightarrow> nat \<Rightarrow> ms \<Rightarrow> offer_form \<Rightarrow> offer_db \<Rightarrow> offer_result" where
  "addOffer_txn ff nid created f db =
     (if \<not> offer_form_ok f then (db, Response 400 (OMsg ''All required fields must be filled''))
      else if fails ff 1 then (db, Response 500 (OMsg ''Database transaction error''))
      else
        let t1 = db\<lparr>offers := offers db @
                   [\<lparr>of_id = nid, of_title = the (o_title f), of_description = o_description f,
                     of_start = the (o_start f), of_end = the (o_end f),
                     of_status = status_or_active (o_status f), of_created = created\<rparr>]\<rparr> in
        if fails ff 2 then (db, Response 500 (OMsg ''Error adding offer''))
        else
          let t2 = t1\<lparr>offer_cats := offer_cats t1 @ discount_rows nid (the (o_categories f))\<rparr> in
          if fails ff 3 then (db, Response 500 (OMsg ''Error adding offer categories''))
          else if fails ff 4 then (db, Response 500 (OMsg ''Transaction commit error''))
          else (t2, Response 201 (OCreated ''Offer added successfully'' nid)))"

text \<open>\<open>deleteOffer\<close>, lines 232--254: the \<open>DELETE\<close> of the offer's
  discounts (2), of the offer (3), and \<open>commit\<close> (4).\<close>

definition deleteOffer_txn :: "fault \<Rightarrow> nat \<Rightarrow> offer_db \<Rightarrow> offer_result" where
  "deleteOffer_txn ff i db =
     (if fails ff 1 then (db, Response 500 (OMsg ''Database transaction error''))
      else
        let t1 = db\<lparr>offer_cats := delete_where (\<lambda>oc. oc_offer oc = i) (offer_cats db)\<rparr> in
        if fails ff 2 then (db, Response 500 (OMsg ''Error deleting categories''))
        else
          let t2 = t1\<lparr>offers := delete_where (\<lambda>ofr. of_id ofr = i) (offers t1)\<rparr> in
          if fails ff 3 then (db, Response 500 (OMsg ''Error deleting offer''))
          else if fails ff 4 then (db, Response 500 (OMsg ''Transaction commit error''))
          else (t2, Response 200 (OMsg ''Offer deleted successfully'')))"

section \<open>Properties\<close>

text \<open>Every discount row names an offer.\<close>

definition discounts_ref_ok :: "offer_db \<Rightarrow> bool" where
  "discounts_ref_ok db \<longleftrightarrow> (\<forall>oc \<in> set (offer_cats db). oc_offer oc \<in> of_id ` set (offers db))"

text \<open>Both transactions are all or nothing: a request that is not
  answered with success leaves the tables as they were.\<close>

lemma addOffer_txn_effect:
  "addOffer_txn ff nid created f db =
     (if offer_form_ok f \<and> \<not> fails ff 1 \<and> \<not> fails ff 2 \<and> \<not> fails ff 3 \<and> \<not> fails ff 4
      then (db\<lparr>offers := offers db @
                 [\<lparr>of_id = nid, of_title = the (o_title f), of_description = o_description f,
                   of_start = the (o_start f), of_end = the (o_end f),
                   of_status = status_or_active (o_status f), of_created = created\<rparr>],
               offer_cats := offer_cats db @ discount_rows nid (the (o_categories f))\<rparr>,
            Response 201 (OCreated ''Offer added successfully'' nid))
      else (db, snd (addOffer_txn ff nid created f db)))"
  by (simp add: addOffer_txn_def Let_def)

lemma deleteOffer_txn_effect:
  "deleteOffer_txn ff i db =
     (if \<not> fails ff 1 \<and> \<not> fails ff 2 \<and> \<not> fails ff 3 \<and> \<not> fails ff 4
      then (db\<lparr>offers := delete_where (\<lambda>ofr. of_id ofr = i) (offers db),
               offer_cats := delete_where (\<lambda>oc. oc_offer oc = i) (offer_cats db)\<rparr>,
            Response 200 (OMsg ''Offer deleted successfully''))
      else (db, snd (deleteOffer_txn ff i db)))"
  by (simp add: deleteOffer_txn_def Let_def)

text \<open>Both would keep every discount row pointing at an offer.\<close>

lemma discount_rows_offer: "oc \<in> set (discount_rows nid ds) \<Longrightarrow> oc_offer oc = nid"
  by (auto simp: discount_rows_def)

lemma addOffer_txn_refs:
  "discounts_ref_ok db \<Longrightarrow> discounts_ref_ok (fst (addOffer_txn ff nid created f db))"
  by (subst addOffer_txn_effect) (auto simp: discounts_ref_ok_def dest: discount_rows_offer)

lemma deleteOffer_txn_refs:
  "discounts_ref_ok db \<Longrightarrow> discounts_ref_ok (fst (deleteOffer_txn ff i db))"
  by (subst deleteOffer_txn_effect) (auto simp: discounts_ref_ok_def)

text \<open>What the handlers do instead: a complete form that the transaction
  would store with 201 is answered with the pool's \<open>TypeError\<close>, and an
  offer the transaction would delete stays, with its discounts.\<close>

lemma addOffer_never_adds:
  "offer_form_ok f \<Longrightarrow>
   addOffer_txn NoFault nid created f db \<noteq> addOffer f db \<and>
   addOffer f db = (db, pool_has_no_transactions)"
  by (simp add: addOffer_txn_def addOffer_def Let_def pool_has_no_transactions_def)

lemma deleteOffer_never_deletes:
  "i \<in> of_id ` set (offers db) \<Longrightarrow>
   deleteOffer_txn NoFault i db \<noteq> deleteOffer i db \<and> deleteOffer i db = (db, pool_has_no_transactions)"
  by (simp add: deleteOffer_txn_def deleteOffer_def Let_def pool_has_no_transactions_def)

end
