(* ===== verification/Upload.thy ===== *)
theory Upload
  imports Catalog
begin

text \<open>
  The upload middleware of \<open>src/middleware/fileHandler.js\<close> as the routes
  mount it: \<open>upload.single(name)\<close> and \<open>upload.fields([...])\<close> of
  \<open>multer\<close> (a library, written from its documented behaviour). A file of
  a multipart request is accepted only under a field the middleware names,
  and no more often than its \<open>maxCount\<close> (one for \<open>single\<close>); any other
  file aborts the request with \<open>MulterError: Unexpected field\<close>, naming
  the file's field, after removing the files already stored; Express then
  answers 500 and the handler does not run. A request that is not
  multipart, or has no file, passes with no file. Files are stored under
  \<open>upload_name\<close> (\<open>Catalog\<close>), with one clock reading per request.
  The category and item routes compose the middleware with the handlers
  of \<open>Catalog\<close>.
\<close>

record upfile =
  uf_field :: string
  uf_name :: string

text \<open>multer's \<open>filesLeft\<close> count per field: the field of the first file
  that finds no count left, if any.\<close>

fun unexpected_file :: "(string \<Rightarrow> nat) \<Rightarrow> upfile list \<Rightarrow> string option" where
  "unexpected_file left [] = None"
| "unexpected_file left (f # fs) =
     (if left (uf_field f) = 0 then Some (uf_field f)
      else unexpected_file (left(uf_field f := left (uf_field f) - 1)) fs)"

text \<open>\<open>upload.fields(spec)\<close>: the error's field, or each file's field and
  stored name.\<close>

definition multer_fields :: "(string \<times> nat) list \<Rightarrow> ms \<Rightarrow> upfile list \<Rightarrow> string + (string \<times> string) list" where
  "multer_fields spec now fs =
     (case unexpected_file (\<lambda>x. case map_of spec x of None \<Rightarrow> 0 | Some n \<Rightarrow> n) fs of
        Some fld \<Rightarrow> Inl fld
      | None \<Rightarrow> Inr (map (\<lambda>f. (uf_field f, upload_name now (uf_name f))) fs))"

text \<open>\<open>upload.single(name)\<close>, and \<open>req.file ? req.file.filename : null\<close>.\<close>

definition multer_single :: "string \<Rightarrow> ms \<Rightarrow> upfile list \<Rightarrow> string + string option" where
  "multer_single fld now fs =
     (case multer_fields [(fld, 1)] now fs of
        Inl e \<Rightarrow> Inl e
      | Inr xs \<Rightarrow> Inr (case xs of [] \<Rightarrow> None | x # _ \<Rightarrow> Some (snd x)))"

text \<open>A route \<open>router.post/put(path, upload.single(fld), handler)\<close>:
  \<open>Inl\<close> of the field multer refuses (Express's 500, tables and upload
  directory unchanged), or the handler's result after the file is stored.\<close>

definition single_route :: "string \<Rightarrow> ms \<Rightarrow> upfile list \<Rightarrow> catalog \<Rightarrow>
    (string option \<Rightarrow> catalog \<Rightarrow> cat_result) \<Rightarrow> string + cat_result" where
  "single_route fld now fs db handler =
     (case multer_single fld now fs of
        Inl e \<Rightarrow> Inl e
      | Inr img \<Rightarrow> Inr (handler img (upload_single img db)))"

text \<open>\<open>src/routes/category/category.js\<close>, lines 11--12, and
  \<open>src/routes/category/item.js\<close>, lines 13--14.\<close>

definition route_addCategory :: "fault \<Rightarrow> nat \<Rightarrow> category_form \<Rightarrow> ms \<Rightarrow> upfile list \<Rightarrow> catalog \<Rightarrow> string + cat_result" where
  "route_addCategory ff nid f now fs db = single_route ''image'' now fs db (addCategory_cat ff nid f)"

definition route_editCategory :: "fault \<Rightarrow> nat \<Rightarrow> category_form \<Rightarrow> ms \<Rightarrow> upfile list \<Rightarrow> catalog \<Rightarrow> string + cat_result" where
  "route_editCategory ff i f now fs db = single_route ''img'' now fs db (editCategory ff i f)"

definition route_addItem :: "fault \<Rightarrow> nat \<Rightarrow> item_form \<Rightarrow> ms \<Rightarrow> upfile list \<Rightarrow> catalog \<Rightarrow> string + cat_result" where
  "route_addItem ff nid f now fs db = single_route ''image'' now fs db (addItem ff nid f)"

definition route_editItem :: "fault \<Rightarrow> nat \<Rightarrow> item_form \<Rightarrow> ms \<Rightarrow> upfile list \<Rightarrow> catalog \<Rightarrow> string + cat_result" where
  "route_editItem ff i f now fs db = single_route ''image'' now fs db (editItem ff i f)"

section \<open>Properties\<close>

lemma multer_single_one:
  "multer_single fld now [\<lparr>uf_field = g, uf_name = n\<rparr>] =
     (if g = fld then Inr (Some (upload_name now n)) else Inl g)"
  by (simp add: multer_single_def multer_fields_def)

lemma multer_single_none: "multer_single fld now [] = Inr None"
  by (simp add: multer_single_def multer_fields_def)

text \<open>A second file under the same field is refused too.\<close>

lemma multer_single_two:
  "multer_single fld now [\<lparr>uf_field = fld, uf_name = n\<rparr>, \<lparr>uf_field = fld, uf_name = m\<rparr>] = Inl fld"
  by (simp add: multer_single_def multer_fields_def)

text \<open>C21. The category routes name the image field differently:
  \<open>POST /category\<close> takes the file under \<open>image\<close>, \<open>PUT /category/:id\<close>
  under \<open>img\<close>. A client that sends the edited image the way it sent the
  new one, under \<open>image\<close>, is refused by multer with 500 before
  \<open>editCategory\<close> runs: the category keeps its old image and nothing is
  stored. The item routes take \<open>image\<close> on both.\<close>

theorem category_image_field_mismatch:
  "route_addCategory ff nid f now [\<lparr>uf_field = ''image'', uf_name = n\<rparr>] db =
     Inr (addCategory_cat ff nid f (Some (upload_name now n)) (upload_single (Some (upload_name now n)) db)) \<and>
   route_editCategory ff' i f' now [\<lparr>uf_field = ''image'', uf_name = n\<rparr>] db = Inl ''image'' \<and>
   route_editItem ff' i g now [\<lparr>uf_field = ''image'', uf_name = n\<rparr>] db =
     Inr (editItem ff' i g (Some (upload_name now n)) (upload_single (Some (upload_name now n)) db))"
  by (simp add: route_addCategory_def route_editCategory_def route_editItem_def single_route_def multer_single_one)

text \<open>C35. Adding a category and reading it back: a \<open>POST /category\<close>
  with a title, a status and an image file under \<open>image\<close>, for an id the
  table does not hold, answers 200; the file is stored under the name
  \<open>fileHandler.js\<close> gives it, and \<open>GET /category/:id\<close> then returns the
  row with exactly the title, description (empty when absent), status and
  stored image name the request sent.\<close>

theorem add_then_get_category:
  assumes "nid \<notin> cat_id ` set (cats db)" "truthy (kf_title f)" "kf_status f \<noteq> None"
  shows "\<exists>db'. route_addCategory NoFault nid f now [\<lparr>uf_field = ''image'', uf_name = n\<rparr>] db = Inr (db', OK) \<and>
           upload_name now n \<in> uploads db' \<and>
           getCategoryById NoFault nid db' =
             Response 200 (KCat \<lparr>cat_id = nid, cat_title = the (kf_title f),
               cat_description = or_default (kf_description f) [], cat_status = kf_status f,
               cat_image = upload_name now n\<rparr>)"
proof -
  have "first_where (\<lambda>c. cat_id c = nid) (cats db) = None"
    using assms(1) by (auto simp: first_where_None)
  then show ?thesis
    using assms(2,3)
    by (simp add: route_addCategory_def single_route_def multer_single_one addCategory_cat_def
                  upload_single_def getCategoryById_def first_where_append)
qed

end
