(* ===== verification/Scenarios.thy ===== *)
theory Scenarios
  imports Middleware Contact ItemSearch Offers Gallery SiteContent Routing Sweeper Agency Pool OfferTxn Upload
begin

text \<open>
  Concrete stores and requests, and the theorems of the components applied
  to them: each witness below instantiates a theorem whose hypotheses hold
  here, with every definition evaluated by the simplifier.
  Account 1 is active and has one live session \<open>j0\<close>, issued at time 0 with
  activity recorded two minutes later; account 2 is blocked. The credential
  verifier accepts a password \<open>p\<close> against the stored hash
  \<open>''bcrypt:'' @ p\<close>. Branch 1 is active; the contact table
  \<open>ex_contacts\<close> holds three submissions from one address within three
  minutes, the sender's address taken from \<open>x-forwarded-for\<close>.
\<close>

definition ex_admin :: admin where
  "ex_admin = \<lparr>adm_id = 1, adm_name = ''Asha'', adm_email = ''a@x.com'',
     adm_number = ''9876543210'', adm_password = ''bcrypt:secret1'', adm_status = ''active''\<rparr>"

definition ex_blocked :: admin where
  "ex_blocked = \<lparr>adm_id = 2, adm_name = ''Bo'', adm_email = ''b@x.com'',
     adm_number = ''9876500000'', adm_password = ''bcrypt:secret1'', adm_status = ''blocked''\<rparr>"

definition ex_cmp :: "string \<Rightarrow> string \<Rightarrow> bool" where
  "ex_cmp p h \<longleftrightarrow> h = ''bcrypt:'' @ p"

definition ex_client :: client where
  "ex_client = \<lparr>req_ip = Some ''10.0.0.7'', req_ua = Some ''Mozilla/5.0''\<rparr>"

definition ex_row :: session_row where
  "ex_row = (new_session ''j0'' 1 ''10.0.0.7'' ''Mozilla/5.0'' 0)\<lparr>last_activity := 120000\<rparr>"

definition ex_idle_row :: session_row where
  "ex_idle_row = new_session ''j0'' 1 ''10.0.0.7'' ''Mozilla/5.0'' 0"

definition ex_db :: auth_db where
  "ex_db = \<lparr>admins = [ex_admin, ex_blocked], active_tokens = [ex_row]\<rparr>"

definition ex_idle_db :: auth_db where
  "ex_idle_db = \<lparr>admins = [ex_admin, ex_blocked], active_tokens = [ex_idle_row]\<rparr>"

definition ex_login :: login_req where
  "ex_login = \<lparr>body_identifier = Some ''a@x.com'', body_password = Some ''secret1''\<rparr>"

definition ex_login_blocked :: login_req where
  "ex_login_blocked = \<lparr>body_identifier = Some ''b@x.com'', body_password = Some ''secret1''\<rparr>"

definition ex_token :: token_str where
  "ex_token = fst (generateAccessToken ex_admin ''10.0.0.7'' ''Mozilla/5.0'' ''j0'' 0)"

definition ex_form :: admin_form where
  "ex_form = \<lparr>f_name = Some ''Chen'', f_email = Some ''c@x.com'', f_number = Some ''9000000001'',
     f_password = Some ''hunter22'', f_status = Some ''Blocked''\<rparr>"

definition ex_patch :: admin_patch where
  "ex_patch = \<lparr>p_id = None, p_name = None, p_email = Some ''b@x.com'', p_number = None,
     p_password = None, p_status = None\<rparr>"

definition ex_branch :: branch where
  "ex_branch = \<lparr>br_id = 1, br_name = ''Harbour Road'', br_category = None, br_location = ''Pier 4'',
     br_phone_main = ''0200000001'', br_phone_orders = None, br_email_info = ''h@x.com'',
     br_email_orders = None, br_opening_hours = ''9-21'', br_map_embed = None, br_status = ''active'',
     br_created = 0, br_updated = 0\<rparr>"

definition ex_src :: ip_src where
  "ex_src = \<lparr>src_ip = None, src_conn = Some '''', src_sock = None, src_conn_sock = None,
     src_xff = Some ''203.0.113.5, 10.0.0.1'', src_xri = None\<rparr>"

definition ex_creq :: contact_req where
  "ex_creq = \<lparr>cf_name = Some ''Dee'', cf_email = Some ''d@y.org'', cf_phone = None,
     cf_subject = Some ''Hours'', cf_message = Some ''Open on Sunday?'', cf_branch = Some 1\<rparr>"

definition ex_contacts :: "contact list" where
  "ex_contacts = [new_contact 1 ex_creq ''203.0.113.5'' 0, new_contact 2 ex_creq ''203.0.113.5'' 60000,
     new_contact 3 ex_creq ''203.0.113.5'' 120000]"

definition ex_branch2 :: branch where
  "ex_branch2 = ex_branch\<lparr>br_id := 2, br_name := ''Cliff Walk'', br_category := Some 5\<rparr>"

definition ex_cat :: branch_category where
  "ex_cat = \<lparr>bc_id = 5, bc_name = ''Coastal'', bc_status = ''active'', bc_created = 0, bc_updated = 0\<rparr>"

definition ex_bdb :: branch_db where
  "ex_bdb = \<lparr>branches = [ex_branch, ex_branch2], categories = [ex_cat]\<rparr>"

definition ex_bform :: branch_form where
  "ex_bform = \<lparr>bf_name = Some ''Old Town'', bf_category = Some 7, bf_location = Some ''Market St'',
     bf_phone_main = Some ''0200000002'', bf_phone_orders = None, bf_email_info = Some ''o@x.com'',
     bf_email_orders = None, bf_opening_hours = Some ''10-22'', bf_map_embed = None\<rparr>"

definition ex_kcat :: category_row where
  "ex_kcat = \<lparr>cat_id = 1, cat_title = ''Cakes'', cat_description = [], cat_status = Some 1,
     cat_image = ''1700000000000cakes.png''\<rparr>"

definition ex_kform :: category_form where
  "ex_kform = \<lparr>kf_title = Some ''Cakes'', kf_description = None, kf_status = Some 1\<rparr>"

definition ex_iform :: item_form where
  "ex_iform = \<lparr>if_title = Some ''Cheesecake'', if_status = None, if_category = Some 1\<rparr>"

definition ex_catalog :: catalog where
  "ex_catalog = \<lparr>cats = [ex_kcat], items = [], uploads = {''1700000000000cakes.png''}\<rparr>"

definition ex_item1 :: item_row where
  "ex_item1 = \<lparr>it_id = 1, it_category = Some 1, it_title = Some ''Cheesecake'',
     it_image = ''1700000000001cheese.png'', it_status = Some 1\<rparr>"

definition ex_item2 :: item_row where
  "ex_item2 = ex_item1\<lparr>it_id := 2, it_title := Some ''Carrot cake'', it_image := ''1700000000002carrot.png''\<rparr>"

definition ex_shop :: catalog where
  "ex_shop = \<lparr>cats = [ex_kcat], items = [ex_item1, ex_item2],
     uploads = {''1700000000000cakes.png'', ''1700000000001cheese.png'', ''1700000000002carrot.png''}\<rparr>"

definition ex_query :: item_query where
  "ex_query = \<lparr>q_category = None, q_page = Some (QStr ''2''), q_limit = Some (QStr ''1''), q_search = None\<rparr>"

definition ex_offer :: offer_row where
  "ex_offer = \<lparr>of_id = 3, of_title = ''Diwali'', of_description = None, of_start = 10, of_end = 20,
     of_status = ''active'', of_created = 0\<rparr>"

definition ex_offers :: offer_db where
  "ex_offers = \<lparr>offers = [ex_offer, ex_offer\<lparr>of_id := 4\<rparr>],
     offer_cats = [\<lparr>oc_offer = 3, oc_category = 1, oc_type = Some ''percent'', oc_value = Some ''10''\<rparr>,
                   \<lparr>oc_offer = 4, oc_category = 1, oc_type = Some ''flat'', oc_value = Some ''50''\<rparr>]\<rparr>"

definition ex_oform :: offer_form where
  "ex_oform = \<lparr>o_title = Some ''Diwali'', o_description = None, o_start = Some 10, o_end = Some 25,
     o_status = None, o_categories = Some [\<lparr>d_category = 1, d_type = Some ''percent'', d_value = Some ''15''\<rparr>]\<rparr>"

definition ex_gallery :: gallery_db where
  "ex_gallery = \<lparr>gallery = [\<lparr>g_id = 1, g_title = Some ''Shop'', g_img = ''1a.png''\<rparr>,
                              \<lparr>g_id = 2, g_title = Some ''Sweets'', g_img = ''2b.png''\<rparr>],
     g_files = {''1a.png'', ''2b.png''}\<rparr>"

lemmas ex_defs = ex_admin_def ex_blocked_def ex_cmp_def ex_client_def ex_row_def
  ex_idle_row_def ex_db_def ex_idle_db_def ex_login_def ex_login_blocked_def

lemmas ex_contact_defs = ex_branch_def ex_src_def ex_creq_def ex_contacts_def

lemmas ex_branch_defs = ex_branch_def ex_branch2_def ex_cat_def ex_bdb_def ex_bform_def

lemmas ex_catalog_defs = ex_kcat_def ex_kform_def ex_iform_def ex_catalog_def ex_item1_def ex_item2_def
  ex_shop_def ex_query_def

lemmas ex_offer_defs = ex_offer_def ex_offers_def ex_oform_def

text \<open>Eleven requests for a connection in a row: ten are granted, the
  eleventh waits.\<close>

definition ex_pool :: "nat pool" where
  "ex_pool = fold (\<lambda>j p. snd (getConnection connection_config NoFault j p)) [1..<12] empty_pool"


section \<open>Witnesses of the lifecycle theorems\<close>

theorem login_one_live_session_witness:
  "status (snd (login ex_cmp NoFault FirstIssuedFirst 900000 ''j1'' ex_client ex_login ex_db)) = 200 \<and>
   live_sessions 1 (active_tokens (fst (login ex_cmp NoFault FirstIssuedFirst 900000 ''j1'' ex_client ex_login ex_db)))
     = [new_session ''j1'' 1 ''10.0.0.7'' ''Mozilla/5.0'' 900000]"
  using login_one_live_session [of ex_login "''a@x.com''" "''secret1''" ex_db ex_admin ex_cmp "''j1''"
      900000 ex_client]
  by (simp add: ex_defs admin_by_identifier_def client_ip_def client_ua_def or_default_def new_session_def)

theorem login_race_kills_new_session_witness:
  "status (snd (login ex_cmp NoFault SecondIssuedFirst 900000 ''j1'' ex_client ex_login ex_db)) = 200 \<and>
   live_sessions 1 (active_tokens (fst (login ex_cmp NoFault SecondIssuedFirst 900000 ''j1'' ex_client ex_login ex_db))) = []"
  using login_race_kills_new_session [of ex_login "''a@x.com''" "''secret1''" ex_db ex_admin ex_cmp "''j1''"
      900000 ex_client]
  by (simp add: ex_defs admin_by_identifier_def new_session_def)

theorem login_blocked_no_session_witness:
  "login ex_cmp NoFault FirstIssuedFirst 900000 ''j1'' ex_client ex_login_blocked ex_db =
     (ex_db, Response 403 (ErrBody ''Your account is blocked. Please contact support.''))"
  using login_blocked_no_session [of ex_login_blocked "''b@x.com''" "''secret1''" NoFault ex_db ex_blocked
      ex_cmp FirstIssuedFirst 900000 "''j1''" ex_client]
  by (simp add: ex_defs admin_by_identifier_def)

theorem refresh_within_window_same_token_witness:
  "refreshToken NoFault 600000 ''j1'' (1, ''j0'') ex_token ex_client ex_db =
     (ex_db, Response 200 (TokenBody ex_token))"
  using refresh_within_window_same_token [of "''j0''" 1 ex_db ex_row "[]" NoFault 600000 "''j1''"
      ex_token ex_client]
  by (simp add: ex_defs live_rows_def new_session_def)

theorem refresh_idle_session_blacklisted_witness:
  "status (snd (refreshToken NoFault 900000 ''j1'' (1, ''j0'') ex_token ex_client ex_idle_db)) = 401 \<and>
   live_rows ''j0'' 1 (active_tokens (fst (refreshToken NoFault 900000 ''j1'' (1, ''j0'') ex_token ex_client ex_idle_db))) = []"
  using refresh_idle_session_blacklisted [of "''j0''" 1 ex_idle_db ex_idle_row "[]" 900000 "''j1''"
      ex_token ex_client]
  by (simp add: ex_defs live_rows_def new_session_def)

theorem refresh_rotates_session_witness:
  "snd (refreshToken NoFault 900000 ''j1'' (1, ''j0'') ex_token ex_client ex_db) =
     Response 200 (TokenBody (fst (generateAccessToken ex_admin ''10.0.0.7'' ''Mozilla/5.0'' ''j1'' 900000))) \<and>
   ''j1'' \<noteq> ''j0'' \<and>
   live_rows ''j0'' 1 (active_tokens (fst (refreshToken NoFault 900000 ''j1'' (1, ''j0'') ex_token ex_client ex_db))) = [] \<and>
   live_rows ''j1'' 1 (active_tokens (fst (refreshToken NoFault 900000 ''j1'' (1, ''j0'') ex_token ex_client ex_db))) =
     [new_session ''j1'' 1 ''10.0.0.7'' ''Mozilla/5.0'' 900000]"
  using refresh_rotates_session [of "''j0''" 1 ex_db ex_row "[]" 900000 ex_admin "''j1''" ex_token ex_client]
  by (simp add: ex_defs live_rows_def new_session_def admin_by_id_def client_ip_def client_ua_def or_default_def)

theorem refresh_blacklist_failure_two_live_witness:
  "status (snd (refreshToken (FailAt 4) 900000 ''j1'' (1, ''j0'') ex_token ex_client ex_db)) = 200 \<and>
   2 \<le> length (live_sessions 1 (active_tokens (fst (refreshToken (FailAt 4) 900000 ''j1'' (1, ''j0'') ex_token ex_client ex_db))))"
  using refresh_blacklist_failure_two_live [of "''j0''" 1 ex_db ex_row "[]" 900000 ex_admin "''j1''"
      ex_token ex_client]
  by (simp add: ex_defs live_rows_def new_session_def admin_by_id_def)

theorem updateActivity_succeeds_without_session_witness:
  "updateActivity NoFault 900000 (1, ''j9'') ex_db = (ex_db, Response 200 (MsgBody ''Activity updated''))"
  using updateActivity_succeeds_without_session [of "''j9''" 1 ex_db 900000]
  by (simp add: ex_defs live_rows_def new_session_def)

theorem sweep_clears_expired_witness:
  "runTokenCleanup NoFault FirstIssuedFirst 0 [ex_row] = [ex_row] \<and>
   \<not> is_blacklisted ex_row \<and> 0 \<le> expires_at ex_row"
proof -
  have "runTokenCleanup NoFault FirstIssuedFirst 0 [ex_row] = [ex_row]"
    by (simp add: ex_row_def new_session_def SESSION_TTL_def runTokenCleanup_ordered
        expire_sessions_def purge_blacklisted_def)
  with sweep_clears_expired [of 0 "[ex_row]"] show ?thesis by simp
qed

theorem sweep_reversed_defers_delete_witness:
  "blacklist ex_row \<in> set (runTokenCleanup NoFault SecondIssuedFirst 3600000 [ex_row]) \<and>
   blacklist ex_row \<notin> set (runTokenCleanup NoFault SecondIssuedFirst 3600000
                           (runTokenCleanup NoFault SecondIssuedFirst 3600000 [ex_row]))"
  using sweep_reversed_defers_delete [of ex_row "[ex_row]" 3600000]
  by (simp add: ex_row_def new_session_def SESSION_TTL_def)

section \<open>Witnesses of the codec and middleware theorems\<close>

theorem token_lifetime_bounds_witness:
  "jwt_verify (fst (generateAccessToken ex_admin ''10.0.0.7'' ''ua'' ''j5'' 500)) ACCESS_TOKEN_SECRET 1799500 =
     Inr (token_claims ex_admin ''j5'' ''10.0.0.7'' ''ua'') \<and>
   jwt_verify (fst (generateAccessToken ex_admin ''10.0.0.7'' ''ua'' ''j5'' 500)) ACCESS_TOKEN_SECRET 1800500 =
     Inl TokenExpiredError"
  using token_lifetime_bounds [of 500 1799500 ex_admin "''10.0.0.7''" "''ua''" "''j5''"]
    token_lifetime_bounds [of 500 1800500 ex_admin "''10.0.0.7''" "''ua''" "''j5''"]
  by simp

theorem authenticateToken_admits_blocked_witness:
  "authenticateToken (Some ACCESS_TOKEN_SECRET) 60000
     (Bearer (fst (generateAccessToken ex_blocked ''10.0.0.7'' ''ua'' ''j5'' 0))) =
   Inr (token_claims ex_blocked ''j5'' ''10.0.0.7'' ''ua'')"
  using authenticateToken_admits_blocked [of ex_blocked 60000 0 "''10.0.0.7''" "''ua''" "''j5''"]
  by (simp add: ex_blocked_def)

theorem authenticateToken_env_secret_mismatch_witness:
  "authenticateToken None 60000 (Bearer (fst (generateAccessToken ex_admin ''10.0.0.7'' ''ua'' ''j5'' 0))) =
     Inl (Response 403 (ErrBody ''Invalid or expired access token''))"
  using authenticateToken_env_secret_mismatch [of None 60000 ex_admin "''10.0.0.7''" "''ua''" "''j5''" 0]
  by simp

theorem verifyToken_admits_iff_witness:
  "verifyToken NoFault 60000 (Bearer ex_token) ex_db = Inr (1, ''j0'')"
  using verifyToken_admits_iff [of 60000 "Bearer ex_token" ex_db 1 "''j0''"]
  by (auto simp: ex_token_def ex_defs verify_generated live_rows_def new_session_def)

theorem authenticateAPIKey_admits_iff_witness:
  "authenticateAPIKey (Some ''k1'') (Some ''k1'') = Inr () \<and> authenticateAPIKey None (Some ''k1'') \<noteq> Inr ()"
  using authenticateAPIKey_admits_iff [of "Some ''k1''" "Some ''k1''"]
    authenticateAPIKey_admits_iff [of None "Some ''k1''"]
  by simp

section \<open>Witnesses of the admin-management theorems\<close>

theorem addadmin_keeps_accounts_unique_witness:
  "accounts_unique (admins (fst (addadmin (\<lambda>p. ''bcrypt:'' @ p) NoFault 3 ex_form ex_db)))"
  using addadmin_keeps_accounts_unique [of ex_db 3 "\<lambda>p. ''bcrypt:'' @ p" NoFault ex_form]
  by (simp add: ex_defs accounts_unique_def)

theorem updateadmin_allows_duplicate_email_witness:
  "status (snd (updateadmin (\<lambda>p. ''bcrypt:'' @ p) NoFault 1 ex_patch ex_db)) = 200 \<and>
   \<not> distinct (map adm_email (admins (fst (updateadmin (\<lambda>p. ''bcrypt:'' @ p) NoFault 1 ex_patch ex_db))))"
  using updateadmin_allows_duplicate_email [of 1 ex_db ex_admin ex_blocked ex_patch "\<lambda>p. ''bcrypt:'' @ p"]
  by (simp add: ex_defs ex_patch_def admin_by_id_def)

theorem adminstatus_sets_status_only_witness:
  "adminstatus NoFault 1 (Some ''blocked'') ex_db =
     (ex_db\<lparr>admins := set_status_where 1 ''blocked'' (admins ex_db)\<rparr>,
      Response 200 (AdmStatus ''Admin status updated successfully'' (ex_admin\<lparr>adm_status := ''blocked''\<rparr>))) \<and>
   admin_by_id 1 (set_status_where 1 ''blocked'' (admins ex_db)) = Some (ex_admin\<lparr>adm_status := ''blocked''\<rparr>)"
  using adminstatus_sets_status_only [of 1 ex_db ex_admin "''blocked''"]
  by (simp add: ex_defs admin_by_id_def)

theorem adminstatus_rejects_other_values_witness:
  "adminstatus NoFault 1 (Some ''deleted'') ex_db =
     (ex_db, Response 400 (AdmMsg (''Invalid status value. Allowed: 'active' or 'blocked'' @ [CHR 0x27])))"
  using adminstatus_rejects_other_values [of 1 ex_db ex_admin "Some ''deleted''" NoFault]
  by (simp add: ex_defs admin_by_id_def)

section \<open>Witnesses of the contact-form theorems\<close>

theorem contact_rate_limit_window_witness:
  "contact_run [ex_branch] (fst (submitContact NoFault 0 1 ex_src ex_creq [ex_branch] [])) \<and>
   win_count ''203.0.113.5'' 0 (fst (submitContact NoFault 0 1 ex_src ex_creq [ex_branch] [])) \<le> MAX_SUBMISSIONS"
proof -
  have r: "contact_run [ex_branch] (fst (submitContact NoFault 0 1 ex_src ex_creq [ex_branch] []))"
    by (rule contact_run.submit, rule contact_run.start)
  show ?thesis using r contact_rate_limit_window [OF r] by simp
qed

theorem submitContact_created_iff_witness:
  "submitContact NoFault 0 1 ex_src ex_creq [ex_branch] [] =
     ([new_contact 1 ex_creq ''203.0.113.5'' 0],
      Response 201 (CCreated 1 \<lparr>submissionCount = 1, remainingSubmissions = 2, isLimitExceeded = False\<rparr>))"
  using submitContact_created_iff [of 0 1 ex_src ex_creq "[ex_branch]" "[]"
      "[new_contact 1 ex_creq ''203.0.113.5'' 0]"
      "CCreated 1 \<lparr>submissionCount = 1, remainingSubmissions = 2, isLimitExceeded = False\<rparr>"]
  by (simp add: ex_contact_defs getClientIP_def truthy_def branch_given_def email_ok_def is_js_space_def
      recent_count_def active_branch_def MAX_SUBMISSIONS_def window_ms_def WINDOW_HOURS_def)

theorem submitContact_store_unchanged_witness:
  "status (snd (submitContact NoFault 180000 4 ex_src ex_creq [ex_branch] ex_contacts)) \<noteq> 201 \<and>
   fst (submitContact NoFault 180000 4 ex_src ex_creq [ex_branch] ex_contacts) = ex_contacts"
  using submitContact_store_unchanged [of NoFault 180000 4 ex_src ex_creq "[ex_branch]" ex_contacts]
  by (simp add: submitContact_def checkRateLimit_def Let_def ex_contact_defs getClientIP_def truthy_def
      branch_given_def email_ok_def is_js_space_def recent_count_def new_contact_def
      MAX_SUBMISSIONS_def window_ms_def WINDOW_HOURS_def)

theorem getAllContacts_newest_first_witness:
  "getAllContacts NoFault ex_contacts = Response 200 (CList (rev ex_contacts)) \<and>
   sorted_wrt (\<lambda>a b. ct_created b \<le> ct_created a) (rev ex_contacts) \<and> mset (rev ex_contacts) = mset ex_contacts"
  using getAllContacts_newest_first [of ex_contacts "rev ex_contacts"]
  by (simp add: getAllContacts_def ex_contacts_def new_contact_def)

theorem deleteContact_removes_witness:
  "deleteContact NoFault 2 ex_contacts = ([hd ex_contacts, last ex_contacts], Response 200 (CMsg ''Contact deleted successfully'')) \<and>
   set [hd ex_contacts, last ex_contacts] = {c \<in> set ex_contacts. ct_id c \<noteq> 2} \<and>
   (status (Response 200 (CMsg ''Contact deleted successfully'')) = 404 \<longleftrightarrow> 2 \<notin> ct_id ` set ex_contacts)"
  using deleteContact_removes [of 2 ex_contacts "[hd ex_contacts, last ex_contacts]"
      "Response 200 (CMsg ''Contact deleted successfully'')"]
  by (simp add: deleteContact_def delete_where_def ex_contacts_def new_contact_def)

section \<open>Witnesses of the branch theorems\<close>

theorem branch_stats_partition_witness:
  "statuses_ok ex_bdb \<and>
   getBranchStats NoFault (branch_run [AddBranch NoFault 0 3 ex_bform,
       UpdateBranchStatus NoFault 0 (Some 1) (Some ''inactive'')] ex_bdb) = Response 200 (BrStats 3 2 1) \<and>
   2 + 1 = (3::nat)"
  using branch_stats_partition [of ex_bdb "[AddBranch NoFault 0 3 ex_bform,
       UpdateBranchStatus NoFault 0 (Some 1) (Some ''inactive'')]" 3 2 1]
  by (simp add: ex_branch_defs statuses_ok_def getBranchStats_def branch_run_def addBranch_def
      updateBranchStatus_def status_ok_def Let_def)

theorem deleteCategory_keeps_refs_witness:
  "refs_ok ex_bdb \<and> refs_ok (fst (deleteCategory (FailAt 2) (Some 5) ex_bdb))"
  using deleteCategory_keeps_refs [of ex_bdb "FailAt 2" "Some 5"]
  by (simp add: ex_branch_defs refs_ok_def cat_ref_ok_def)

theorem website_lists_active_branches_witness:
  "distinct (map bc_id (categories ex_bdb)) \<and>
   getAllBranchesForWebsite id NoFault ex_bdb = Response 200 (BrRows [(ex_branch, None), (ex_branch2, Some ''Coastal'')]) \<and>
   mset [ex_branch, ex_branch2] = mset (filter (\<lambda>b. br_status b = ''active'') (branches ex_bdb)) \<and>
   sorted [(None, ''Harbour Road''), (Some ''Coastal'', ''Cliff Walk'')]"
  using website_lists_active_branches [of ex_bdb id "[(ex_branch, None), (ex_branch2, Some ''Coastal'')]"]
  by (simp add: ex_branch_defs getAllBranchesForWebsite_def branch_rows_def left_join_def)

theorem addBranch_unchecked_category_witness:
  "status (snd (addBranch NoFault 0 3 ex_bform ex_bdb)) = 201 \<and> \<not> refs_ok (fst (addBranch NoFault 0 3 ex_bform ex_bdb))"
  using addBranch_unchecked_category [of ex_bform 7 ex_bdb 0 3]
  by (simp add: ex_branch_defs)

section \<open>Witnesses of the catalog theorems\<close>

theorem catalog_images_present_witness:
  "catalog_reach (catalog_step (AddCategoryOp NoFault 1 ex_kform (Some ''1700000000000cakes.png''))
                   \<lparr>cats = [], items = [], uploads = {}\<rparr>) \<and>
   set (stored_images (catalog_step (AddCategoryOp NoFault 1 ex_kform (Some ''1700000000000cakes.png''))
                   \<lparr>cats = [], items = [], uploads = {}\<rparr>)) \<subseteq>
     uploads (catalog_step (AddCategoryOp NoFault 1 ex_kform (Some ''1700000000000cakes.png''))
                   \<lparr>cats = [], items = [], uploads = {}\<rparr>)"
proof -
  have r: "catalog_reach (catalog_step (AddCategoryOp NoFault 1 ex_kform (Some ''1700000000000cakes.png''))
                   \<lparr>cats = [], items = [], uploads = {}\<rparr>)"
    by (rule catalog_reach.step [OF catalog_reach.init]) simp
  show ?thesis using r catalog_images_present [OF r] by simp
qed

theorem deleteCategory_race_orphans_item_witness:
  "deleteCategory_check NoFault 1 ex_catalog = Inr ''1700000000000cakes.png'' \<and>
   truthy (if_title ex_iform) \<and> if_category ex_iform = Some 1 \<and>
   status (snd (addItem NoFault 7 ex_iform (Some ''1700000000003tart.png'')
     (upload_single (Some ''1700000000003tart.png'') ex_catalog))) = 200 \<and>
   list_ex (\<lambda>t. it_category t = Some 1)
     (items (fst (deleteCategory_commit NoFault 1 ''1700000000000cakes.png''
        (catalog_step (AddItemOp NoFault 7 ex_iform (Some ''1700000000003tart.png'')) ex_catalog)))) \<and>
   \<not> list_ex (\<lambda>c. cat_id c = 1)
     (cats (fst (deleteCategory_commit NoFault 1 ''1700000000000cakes.png''
        (catalog_step (AddItemOp NoFault 7 ex_iform (Some ''1700000000003tart.png'')) ex_catalog))))"
proof -
  have c: "deleteCategory_check NoFault 1 ex_catalog = Inr ''1700000000000cakes.png''"
    by (simp add: deleteCategory_check_def ex_catalog_defs)
  show ?thesis
    using c deleteCategory_race_orphans_item [OF c, of ex_iform 7 "''1700000000003tart.png''"]
    by (simp add: ex_catalog_defs)
qed

theorem like_search_contains_witness:
  "wildcard_free ''CAKE'' \<and>
   (like ascii_lower (search_pattern ''CAKE'') ''Cheesecake'' \<longleftrightarrow>
      sublist (map ascii_lower ''CAKE'') (map ascii_lower ''Cheesecake''))"
  using like_search_contains [of "''CAKE''" ascii_lower "''Cheesecake''"]
  by (simp add: wildcard_free_def)

theorem getAllItemsClient_page_witness:
  "getAllItemsClient ascii_lower NoFault ex_query ex_shop = Response 200 (KPage [(ex_item1, Some ''Cakes'')] 2)"
  using getAllItemsClient_page [of ascii_lower ex_query ex_shop "[(ex_item1, Some ''Cakes'')]" 2]
  by (simp add: ex_catalog_defs query_int_def qstring_def js_parseInt_def is_js_space_def is_digit_def
      digits_value_def digit_val_def search_mode_def client_rows_def client_match_def item_join_def
      active_item_def Let_def)


section \<open>Witnesses of the offer theorems\<close>

theorem editOffer_rollback_witness:
  "status (snd (editOffer (FailAt 5) 3 ex_oform ex_offers)) \<noteq> 200 \<and>
   fst (editOffer (FailAt 5) 3 ex_oform ex_offers) = ex_offers"
proof -
  have h: "status (snd (editOffer (FailAt 5) 3 ex_oform ex_offers)) \<noteq> 200"
    by (simp add: editOffer_def offer_form_ok_def ex_offer_defs)
  show ?thesis
    by (rule conjI [OF h editOffer_rollback [OF h]])
qed

theorem editOffer_replaces_discounts_witness:
  "editOffer NoFault 3 ex_oform ex_offers =
     (fst (editOffer NoFault 3 ex_oform ex_offers), Response 200 (OMsg ''Offer updated successfully'')) \<and>
   o_categories ex_oform = Some [\<lparr>d_category = 1, d_type = Some ''percent'', d_value = Some ''15''\<rparr>] \<and>
   filter (\<lambda>oc. oc_offer oc = 3) (offer_cats (fst (editOffer NoFault 3 ex_oform ex_offers))) =
     [\<lparr>oc_offer = 3, oc_category = 1, oc_type = Some ''percent'', oc_value = Some ''15''\<rparr>] \<and>
   filter (\<lambda>oc. oc_offer oc = 4) (offer_cats (fst (editOffer NoFault 3 ex_oform ex_offers))) =
     filter (\<lambda>oc. oc_offer oc = 4) (offer_cats ex_offers)"
proof -
  have h: "editOffer NoFault 3 ex_oform ex_offers =
     (fst (editOffer NoFault 3 ex_oform ex_offers), Response 200 (OMsg ''Offer updated successfully''))"
    by (simp add: editOffer_def offer_form_ok_def ex_offer_defs)
  have c: "o_categories ex_oform = Some [\<lparr>d_category = 1, d_type = Some ''percent'', d_value = Some ''15''\<rparr>]"
    by (simp add: ex_oform_def)
  note r = editOffer_replaces_discounts [OF h c]
  show ?thesis
    using h c r by (simp add: discount_rows_def)
qed


section \<open>Witnesses of the gallery theorems\<close>

theorem gallery_pages_cover_witness:
  "query_int_auto (Some (QStr ''0x2'')) 11 = 2 \<and> 0 < query_int_auto (Some (QStr ''0x2'')) 11 \<and>
   concat (map (\<lambda>p. page_items (getAllGalleryClient NoFault (Some (QStr (dec_string (int p)))) (Some (QStr ''0x2'')) ex_gallery))
     [1..<Suc (nat (ceil_div (length (gallery ex_gallery)) (query_int_auto (Some (QStr ''0x2'')) 11)))]) =
   by_gid_desc (gallery ex_gallery)"
proof -
  have v: "query_int_auto (Some (QStr ''0x2'')) 11 = 2"
    by (simp add: query_int_auto_def qstring_def js_parseInt_auto_def is_js_space_def is_hex_digit_def
                  is_digit_def hex_value_def hex_digit_val_def digit_val_def)
  then have h: "0 < query_int_auto (Some (QStr ''0x2'')) 11" by simp
  show ?thesis using v h gallery_pages_cover [OF h] by simp
qed


section \<open>Witnesses of the application and sweep theorems\<close>

theorem app_refuses_without_key_witness:
  "authenticateAPIKey (Some ''secret'') None = Inl (Response 401 (MsgBody ''Access Denied'')) \<and>
   app (Some ''secret'') {} \<lparr>rq_method = GET, rq_path = ''/'', rq_api_key = None, rq_body_ok = True\<rparr> =
     Refused (Response 401 (MsgBody ''Access Denied''))"
proof -
  have k: "authenticateAPIKey (Some ''secret'') (rq_api_key \<lparr>rq_method = GET, rq_path = ''/'', rq_api_key = None, rq_body_ok = True\<rparr>) =
      Inl (Response 401 (MsgBody ''Access Denied''))"
    by (simp add: authenticateAPIKey_def)
  have "app (Some ''secret'') {} \<lparr>rq_method = GET, rq_path = ''/'', rq_api_key = None, rq_body_ok = True\<rparr> =
      Refused (Response 401 (MsgBody ''Access Denied''))"
    using app_refuses_without_key [OF k, where files = "{}"] by simp
  with k show ?thesis by simp
qed

theorem gallery_refines_spec_witness:
  "gallery_fresh (AddGalleryOp NoFault 3 (Some ''Cakes'') (Some ''3c.png'')) ex_gallery \<and>
   gallery_lookup (gallery_step (AddGalleryOp NoFault 3 (Some ''Cakes'') (Some ''3c.png'')) ex_gallery) =
     (gallery_lookup ex_gallery)(3 \<mapsto> (Some ''Cakes'', ''3c.png''))"
proof -
  have f: "gallery_fresh (AddGalleryOp NoFault 3 (Some ''Cakes'') (Some ''3c.png'')) ex_gallery"
    by (simp add: ex_gallery_def)
  show ?thesis
    using f gallery_refines_spec [OF f] by simp
qed

theorem swept_within_ten_minutes_witness:
  "list_all (\<lambda>r. 0 < expires_at r)
     (tbl_run (sched_run_ops 0 0 (\<lambda>_. SecondIssuedFirst) [[], [TInsert ''j2'' 1 ''ip'' ''ua'' 300000], []])
       [ex_row\<lparr>expires_at := 0\<rparr>, ex_row\<lparr>token_id := ''j1'', expires_at := -5\<rparr>])"
proof -
  have c: "batches_clocked 0 [[], [TInsert ''j2'' 1 ''ip'' ''ua'' 300000], []]"
    by (simp add: batches_clocked_def SWEEP_INTERVAL_def less_Suc_eq nth_Cons')
  have b: "(0::int) + 10 * 60 * 1000 < 0 + int (length [[], [TInsert ''j2'' 1 ''ip'' ''ua'' 300000], []]) * SWEEP_INTERVAL"
    by (simp add: SWEEP_INTERVAL_def)
  show ?thesis
    using swept_within_ten_minutes [OF c _ b, of "\<lambda>_. SecondIssuedFirst"] by (simp add: list_all_iff)
qed

theorem getAgencyById_hex_reads_zero_witness:
  "digits1 is_hex_digit ''1'' \<and>
   getAgencyById NoFault (''0x'' @ ''1'') ex_db = getAgencyById NoFault ''0'' ex_db \<and>
   getAgencyById NoFault ''0x1'' ex_db = Response 404 (ErrBody ''Admin not found'') \<and>
   getAgencyById NoFault ''1'' ex_db =
     Response 200 (AdminInfo 1 ''Asha'' ''a@x.com'' ''9876543210'' ''active'')"
proof -
  have h: "digits1 is_hex_digit ''1''" by (simp add: digits1_def is_hex_digit_def is_digit_def)
  have z: "getAgencyById NoFault ''0'' ex_db = Response 404 (ErrBody ''Admin not found'')"
    by code_simp
  have o: "getAgencyById NoFault ''1'' ex_db =
     Response 200 (AdminInfo 1 ''Asha'' ''a@x.com'' ''9876543210'' ''active'')"
    by code_simp
  show ?thesis
    using h z o getAgencyById_hex_reads_zero [OF h, of NoFault ex_db] by simp
qed

theorem editOffer_conn_session_witness:
  "conn_session_ok (editOffer_conn (FailAt 3) ex_oform) \<and>
   editOffer_conn (FailAt 3) ex_oform = [Acquire, Begin, Exec, Rollback, Release]"
proof -
  have e: "editOffer_conn (FailAt 3) ex_oform = [Acquire, Begin, Exec, Rollback, Release]"
    by (simp add: editOffer_conn_def ex_offer_defs offer_form_ok_def)
  show ?thesis using editOffer_conn_session [of "FailAt 3" ex_oform] e by simp
qed

lemma ex_pool_eval:
  "ex_pool = \<lparr>p_all = 10, p_free = 0, p_holders = [1..<11], p_queue = [11]\<rparr>"
  by (simp add: ex_pool_def getConnection_def connection_config_def empty_pool_def upt_rec)

theorem pool_reach_bounds_witness:
  "pool_reach connection_config ex_pool \<and> p_queue ex_pool = [11] \<and>
   p_all ex_pool \<le> 10 \<and> length (p_holders ex_pool) = 10"
proof -
  have r: "pool_reach connection_config ex_pool"
    unfolding ex_pool_def by (rule pool_reach_fold_get) (rule pool_reach.empty)
  show ?thesis using pool_reach_bounds [OF r] r by (simp add: ex_pool_eval)
qed

theorem pool_request_served_witness:
  "getConnection connection_config NoFault (12::nat) ex_pool =
     (Queued, ex_pool\<lparr>p_queue := [11, 12]\<rparr>) \<and>
   count (mset (fst (drain (\<lambda>_. 0) (ex_pool\<lparr>p_queue := [11, 12]\<rparr>)))) 12 = 1"
proof -
  have r: "pool_reach connection_config ex_pool"
    unfolding ex_pool_def by (rule pool_reach_fold_get) (rule pool_reach.empty)
  have f: "(12::nat) \<notin> set (p_holders ex_pool @ p_queue ex_pool)"
    by (simp add: ex_pool_eval)
  have g: "getConnection connection_config NoFault (12::nat) ex_pool = (Queued, ex_pool\<lparr>p_queue := [11, 12]\<rparr>)"
    by (simp add: ex_pool_eval getConnection_def connection_config_def)
  show ?thesis using pool_request_served [OF r f g, of "\<lambda>_. 0"] g by simp
qed

theorem add_then_get_category_witness:
  "(2::nat) \<notin> cat_id ` set (cats ex_catalog) \<and>
   (\<exists>db'. route_addCategory NoFault 2 ex_kform 5 [\<lparr>uf_field = ''image'', uf_name = ''pie.png''\<rparr>] ex_catalog =
           Inr (db', OK) \<and> upload_name 5 ''pie.png'' \<in> uploads db' \<and>
           getCategoryById NoFault 2 db' =
             Response 200 (KCat \<lparr>cat_id = 2, cat_title = ''Cakes'', cat_description = [],
               cat_status = Some 1, cat_image = upload_name 5 ''pie.png''\<rparr>))"
proof -
  have a: "(2::nat) \<notin> cat_id ` set (cats ex_catalog)" by (simp add: ex_catalog_defs)
  have t: "truthy (kf_title ex_kform)" and s: "kf_status ex_kform \<noteq> None" by (simp_all add: ex_catalog_defs)
  show ?thesis
    using add_then_get_category [OF a t s, of 5 "''pie.png''"] a by (simp add: ex_kform_def or_default_def)
qed

end
