(* ===== verification/Spec2Isabelle.thy ===== *)
theory Spec2Isabelle
  imports Scenarios
begin

text \<open>
  \<^bold>\<open>A verification library for the admin backend of \<open>src/\<close>.\<close>

  \<^bold>\<open>The program.\<close> An Express server (\<open>src/index.js\<close>) mounts one
  router per area; every router first passes \<open>authenticateAPIKey\<close>. The
  session subsystem (\<open>src/controller/login/login.js\<close>,
  \<open>src/utils/jwtUtils.js\<close>, \<open>src/utils/tokenCleanup.js\<close>,
  \<open>src/middleware/verifyToken.js\<close>, \<open>authMiddleware.js\<close>) mints
  signed access tokens bound to rows of the \<open>active_tokens\<close> table and
  rotates, extends, revokes and sweeps them. The other handlers are
  parameterised queries over the tables of the MySQL pool
  (\<open>src/connection/connection.js\<close>): admin accounts, contacts, branches
  and branch categories, catalog categories and items with their uploaded
  images, offers and their discounts on categories, the gallery, the
  banner, the general settings and the popular products. The handlers interact only through shared tables: the session
  handlers and admin management through \<open>admin\<close> and \<open>active_tokens\<close>,
  the contact form and branch settings through \<open>branches\<close>, the catalog
  handlers and the upload middleware through \<open>category\<close>, \<open>items\<close> and
  the \<open>uploads\<close> directory (which the gallery, modelled with its own view
  of the directory, shares), the offer listings and the catalog through
  \<open>category\<close>.

  \<^bold>\<open>How the code is modelled.\<close> A table is the list of its rows (records
  with the columns the code reads and writes) and a handler is a function
  from its inputs and the tables to the new tables and its HTTP response
  (\<open>'b response\<close>, status and JSON body). Each \<open>connection.query\<close> may
  fail: a \<open>fault\<close> input names the query of the handler that fails, and
  every error callback of the source is a branch of the model. Two queries a
  handler issues without waiting run on different pool connections in
  either order (\<open>sched\<close>, \<open>race2\<close>). Clocks, fresh \<open>uuidv4()\<close> session
  ids and auto-increment ids are inputs. JavaScript's falsy strings,
  \<open>x || d\<close>, \<open>parseInt\<close>, \<open>trim\<close> and \<open>String(n)\<close>, and SQL's
  \<open>LIKE\<close>, \<open>LEFT JOIN\<close>, \<open>ORDER BY\<close> (under a collation key given as a
  parameter) and \<open>LIMIT\<close> are written out as functions.

  \<^bold>\<open>The theories.\<close>
  \<^item> \<open>Prelude\<close>: JS values, faults and scheduling, responses, the row
    operations \<open>update_where\<close>, \<open>delete_where\<close>, \<open>first_where\<close> and
    their lemmas (collection \<open>row_ops\<close>), decimal printing.
  \<^item> \<open>Accounts\<close>, \<open>Token\<close>: the \<open>admin\<close> row; \<open>generateAccessToken\<close>
    and the \<open>jsonwebtoken\<close> library, which is not in the repository and is
    modelled from the spec (\<open>jwt_sign\<close>, \<open>jwt_verify\<close>, whole seconds).
  \<^item> \<open>Sessions\<close>: the \<open>active_tokens\<close> rows and every statement on them
    (\<open>login.js\<close>, \<open>tokenCleanup.js\<close>, \<open>admin.js\<close>), with the key and
    liveness lemmas.
  \<^item> \<open>Lifecycle\<close>: \<open>login\<close>, \<open>refreshToken\<close>, \<open>updateActivity\<close>,
    \<open>logout\<close>, \<open>runTokenCleanup\<close>; \<open>Middleware\<close>: \<open>verifyToken\<close>,
    \<open>authenticateToken\<close>, \<open>authenticateAPIKey\<close> and the login routes.
  \<^item> \<open>Agency\<close>: \<open>getAgencyById\<close> of \<open>login.js\<close> and its route, with
    JavaScript's \<open>isNaN\<close> on strings (the ECMAScript grammar of numeric
    strings) and MySQL's reading of a string compared with an integer
    column, both written from their documentation.
  \<^item> \<open>AdminMgmt\<close>: every handler of \<open>manage-admin/admin.js\<close>, the input
    checks as executable string predicates.
  \<^item> \<open>Branches\<close>: every handler of \<open>settings/branchSetting.js\<close>; its
    writes as a datatype of operations with a step function.
  \<^item> \<open>Contact\<close>: every handler of \<open>contact/contact.js\<close> and the per-address
    rate limit; runs of the handlers as an inductive relation.
  \<^item> \<open>Catalog\<close>: every handler of \<open>category/category.js\<close> and the admin
    handlers of \<open>category/item.js\<close>, the upload step of
    \<open>fileHandler.js\<close>, the reachable catalogs as an inductive relation;
    \<open>ItemSearch\<close>: the client listings of \<open>item.js\<close>.
  \<^item> \<open>Offers\<close>: every handler of \<open>offer/offer.js\<close>: the listings with
    \<open>GROUP_CONCAT\<close>, \<open>editOffer\<close> as a transaction on a pooled
    connection, \<open>addOffer\<close> and \<open>deleteOffer\<close> throwing at
    \<open>beginTransaction\<close> on the pool; the write routes as a datatype of
    operations and their runs.
  \<^item> \<open>Gallery\<close>: every handler of \<open>gallary/gallary.js\<close> on the gallery
    table and its image files, the reachable galleries as an inductive
    relation, and the client pagination with \<open>Math.ceil\<close>.
  \<^item> \<open>SiteContent\<close>: \<open>banner.js\<close>, \<open>generalSetting.js\<close> and
    \<open>popularProducts.js\<close>: the single-row banner and settings tables with
    their files, and the popular products joined with the catalog's items.
  \<^item> \<open>Routing\<close>: the middleware stack and the mounts of
    \<open>src/index.js\<close> and the route table of every file of
    \<open>src/routes/\<close> (\<open>app\<close>, \<open>run_layers\<close>, \<open>run_router\<close>);
    Express's path matching (case-insensitive, non-strict, \<open>:param\<close>
    segments, \<open>GET\<close> answering \<open>HEAD\<close>) is modelled from its
    documentation, as it is not in the repository.
  \<^item> \<open>Sweeper\<close>: the five-minute \<open>setInterval\<close> of
    \<open>runTokenCleanup\<close> in \<open>index.js\<close>, interleaved with every statement
    the handlers issue on \<open>active_tokens\<close> (\<open>tbl_step\<close>, \<open>tbl_run\<close>).
  \<^item> \<open>OfferTxn\<close>: the transactions \<open>addOffer\<close> and \<open>deleteOffer\<close>
    mean to run (the callbacks of \<open>beginTransaction\<close>, which on the pool
    never run), all or nothing and keeping discounts pointing at offers,
    beside what the handlers do instead.
  \<^item> \<open>Upload\<close>: \<open>upload.single\<close> and \<open>upload.fields\<close> of \<open>multer\<close>
    (its field and count checks, written from its documentation) and the
    category and item routes that mount them before the handlers.
  \<^item> \<open>Pool\<close>: the \<open>mysql2\<close> pool of \<open>src/connection/connection.js\<close>
    (\<open>connection_config\<close>, \<open>getConnection\<close>, \<open>releaseConnection\<close>, the
    test at load \<open>pool_startup\<close>), the library's behaviour written from
    its documentation; \<open>editOffer\<close>'s use of its connection branch by
    branch (\<open>editOffer_conn\<close>); the reachable pools as an inductive
    relation, and \<open>drain\<close>, the requests finishing in any order, as a
    \<open>function\<close> with its termination proof.
  \<^item> \<open>Scenarios\<close>: concrete tables and requests, and the witnesses that
    apply the theorems to them. This root theory holds the properties that
    span components: two logins against both authenticators, and a branch
    deactivation against the contact form.

  \<^bold>\<open>What is proved.\<close> For the session subsystem: a login leaves exactly
  one live session when its two queries run in order, and none when the
  insert runs first; refresh returns the same token within 13 minutes,
  revokes idle sessions, rotates otherwise, and leaves two live sessions
  when its revocation fails; logout is idempotent; the sweep clears expired
  rows and is idempotent when ordered, and defers deletion otherwise; tokens
  live between 1799 and 1800 seconds; the light authenticator admits
  blocked accounts and depends on an environment secret; a second login
  revokes the first token for the strict authenticator only;
  \<open>getAgencyById\<close> answers a decimal id with that account, while its
  \<open>isNaN\<close> guard lets hexadecimal ids through that MySQL reads as \<open>0\<close>. For the other
  components: the admin duplicate check is exact and keeps accounts
  unique while \<open>updateadmin\<close> does not; every contact table reachable
  by the handlers holds at most three submissions per address in any
  ten-hour window; branch statistics partition the branches; deleting a
  branch category keeps references valid; every image a catalog row names
  is a stored file in every reachable catalog, while the category delete
  guard can be raced; \<open>parseInt\<close> inverts \<open>String\<close>; the search pattern
  is substring matching for literal terms; the client page is the
  \<open>LIMIT\<close> slice of the listing; \<open>editOffer\<close> is all or nothing and,
  when it commits, replaces exactly the edited offer's discounts; no run of
  the offer routes creates or deletes an offer, while the transactions
  \<open>addOffer\<close> and \<open>deleteOffer\<close> mean to run would be all or nothing
  and keep every discount pointing at an offer; every gallery image is a
  stored file in every reachable gallery, and the client pages \<open>1\<close> to
  \<open>totalPages\<close> list the gallery exactly once, and the gallery
  handlers refine a finite-map specification (\<open>gallery_spec\<close> over
  \<open>gallery_lookup\<close>, a functional refinement for fresh ids). Across the
  application: every request other than a preflight or a malformed body that
  lacks the API key is refused, or served as a static upload, before any
  handler runs (including the root route). Liveness of the sweep: in the
  run \<open>index.js\<close> schedules (\<open>sched_run_ops\<close>: a sweep at startup and
  every five minutes, handler statements between them), every session is
  deleted at most ten minutes after it expires, whatever order the pool
  gives each sweep's two statements.

  The category routes take the image under different field names on add
  and edit, so an edit sent like an add is refused by multer; a category
  added through its route is read back by \<open>getCategoryById\<close> with
  exactly the fields and stored file name sent. For the pool: every use of a connection by \<open>editOffer\<close> acquires it
  before anything else and releases it once, last, on every branch; at most
  ten connections are ever open and a request waits only while all ten are
  held; and, because \<open>connection.js\<close> sets \<open>waitForConnections\<close> and
  no queue limit, a request is never refused by \<open>getConnection\<close> and is
  given a connection exactly once however the holders finish. The handlers' own code has no loop that may run forever (every
  loop is a fold over rows or a structural recursion), so each handler is
  a total HOL function; the only termination argument beyond structural
  recursion is that of \<open>drain\<close>, by the number of requests in the pool.

  \<^bold>\<open>Bounds and inputs.\<close> No fuel is used: every loop of the code is a
  fold over rows or a structurally recursive function, and the two
  non-structural recursions (\<open>nat_digits\<close> on \<open>n div 10\<close>, \<open>like\<close> on
  two shrinking strings) are \<open>fun\<close>s whose termination Isabelle proves;
  \<open>drain\<close> of \<open>Pool\<close> is a \<open>function\<close> terminating by the number of
  requests holding or waiting for a connection.
  The token bounds come from \<open>jsonwebtoken\<close> counting whole seconds:
  \<open>iat = now div 1000\<close>, \<open>exp = iat + 1800\<close>. The rate limit window is
  \<open>10 * 60 * 60 * 1000\<close> ms, counted with the code's strict \<open>>\<close>.
  The sweep interval is \<open>5 * 60 * 1000\<close> ms as \<open>index.js\<close> sets it;
  two sweeps after an expiry suffice, since the first blacklists the
  expired row and the second deletes it, in either statement order.
  \<open>GROUP_CONCAT\<close> is cut at MySQL's default \<open>group_concat_max_len\<close>
  of 1024. Integers are unbounded: JavaScript numbers are exact on the ranges the
  handlers compute (timestamps, counts, page offsets below \<open>2^53\<close>).

  \<^bold>\<open>Not modelled.\<close> \<open>bcrypt\<close> (the comparison is a parameter
  \<open>cmp\<close>); the inside of \<open>jsonwebtoken\<close> (signatures are modelled by the
  key); the SQL schema, which is not in the repository (columns are
  nullable where the code may write \<open>NULL\<close>, ids unique only where an
  invariant says so; \<open>created_at\<close> and \<open>updated_at\<close> of the site
  tables); multer's disk I/O (its field checks are modelled), and the contents the static
  file server returns (only which requests it answers); \<open>dotenv\<close> and
  \<open>app.listen\<close> of \<open>src/index.js\<close>, which are I/O; the host and
  credentials of the pool of \<open>connection.js\<close> (what the pool does with
  connections is modelled in \<open>Pool\<close>, and is not threaded
  through every handler: a handler's statements are modelled as running
  on whichever connection the pool gives); the blog router, whose controller is missing
  and which \<open>index.js\<close> does not mount;
  MySQL's collations: SQL \<open>=\<close> on strings (\<open>email = ? OR number = ?\<close>
  of \<open>login.js\<close>, the duplicate check of \<open>admin.js\<close>, the branch check of
  \<open>contact.js\<close>) is modelled as exact equality, while the default
  collation ignores case and trailing spaces (no theorem depends on the
  difference); concurrent requests to one handler (each handler call is
  one step; the races the code has between its own unawaited queries are
  modelled); the \<open>createdat\<close> and \<open>updatedat\<close> columns \<open>getAgencyById\<close> returns; MySQL's
  rounding of numbers to double precision (only strings of more than 15
  significant digits compare differently).
\<close>

text \<open>C12. The scenario of the spec: after a first login returns token A and a
  second login of the same account succeeds, a request with A is refused by
  the strict authenticator (its session is no longer live) while the light
  authenticator, which does not consult the store, still admits it before its
  expiry.\<close>

theorem second_login_revokes_first_token:
  assumes "present (body_identifier rq) = Some ident" "present (body_password rq) = Some pw"
    "admin_by_identifier ident (admins db) = Some a"
    "adm_status a = ''active''" "cmp pw (adm_password a)"
    "jti1 \<notin> token_id ` set (active_tokens db)" "jti2 \<notin> token_id ` set (active_tokens db)"
    "jti2 \<noteq> jti1" "t \<le> now1 + 1799000"
  shows "snd (login cmp NoFault FirstIssuedFirst now1 jti1 cl rq db) =
       Response 200 (LoginBody (fst (generateAccessToken a (client_ip cl) (client_ua cl) jti1 now1))
                       (adm_id a) (adm_name a) (adm_email a)) \<and>
     verifyToken NoFault t (Bearer (fst (generateAccessToken a (client_ip cl) (client_ua cl) jti1 now1)))
       (fst (login cmp NoFault FirstIssuedFirst now2 jti2 cl rq
              (fst (login cmp NoFault FirstIssuedFirst now1 jti1 cl rq db)))) =
       Inl (Response 401 (ErrBody ''Token has been invalidated'')) \<and>
     authenticateToken (Some ACCESS_TOKEN_SECRET) t
       (Bearer (fst (generateAccessToken a (client_ip cl) (client_ua cl) jti1 now1))) =
       Inr (token_claims a jti1 (client_ip cl) (client_ua cl))"
proof -
  let ?new1 = "new_session jti1 (adm_id a) (client_ip cl) (client_ua cl) now1"
  let ?db1 = "set_tokens (blacklist_admin_sessions (adm_id a) (active_tokens db) @ [?new1]) db"
  have l1: "login cmp NoFault FirstIssuedFirst now1 jti1 cl rq db =
      (?db1, Response 200 (LoginBody (fst (generateAccessToken a (client_ip cl) (client_ua cl) jti1 now1))
                            (adm_id a) (adm_name a) (adm_email a)))"
    using assms by (simp add: login_guards_pass login_session_ok)
  have fresh2: "jti2 \<notin> token_id ` set (active_tokens ?db1)"
    using jti_fresh_blacklist_admin [OF assms(7), of "adm_id a"] assms(8)
    by (simp add: new_session_def)
  have l2: "fst (login cmp NoFault FirstIssuedFirst now2 jti2 cl rq ?db1) =
      set_tokens (blacklist_admin_sessions (adm_id a) (active_tokens ?db1)
                  @ [new_session jti2 (adm_id a) (client_ip cl) (client_ua cl) now2]) ?db1"
    using assms fresh2 by (simp add: login_guards_pass login_session_ok)
  have dead: "live_rows jti1 (adm_id a) (active_tokens (fst (login cmp NoFault FirstIssuedFirst now2 jti2 cl rq ?db1))) = []"
    using assms(8) by (simp only: l2 set_tokens_simps live_rows_append live_rows_blacklist_admin_sessions
        live_rows_new_session) simp
  have valid: "t div 1000 < now1 div 1000 + 1800"
    using assms(9) by (rule generated_valid_within)
  show ?thesis
    using l1 dead valid assms(4)
    by (simp add: verifyToken_generated authenticateToken_generated)
qed

theorem second_login_revokes_first_token_witness:
  "snd (login ex_cmp NoFault FirstIssuedFirst 1000 ''j1'' ex_client ex_login ex_db) =
       Response 200 (LoginBody (fst (generateAccessToken ex_admin ''10.0.0.7'' ''Mozilla/5.0'' ''j1'' 1000))
                       1 ''Asha'' ''a@x.com'') \<and>
   verifyToken NoFault 5000 (Bearer (fst (generateAccessToken ex_admin ''10.0.0.7'' ''Mozilla/5.0'' ''j1'' 1000)))
     (fst (login ex_cmp NoFault FirstIssuedFirst 2000 ''j2'' ex_client ex_login
            (fst (login ex_cmp NoFault FirstIssuedFirst 1000 ''j1'' ex_client ex_login ex_db)))) =
     Inl (Response 401 (ErrBody ''Token has been invalidated'')) \<and>
   authenticateToken (Some ACCESS_TOKEN_SECRET) 5000
     (Bearer (fst (generateAccessToken ex_admin ''10.0.0.7'' ''Mozilla/5.0'' ''j1'' 1000))) =
     Inr (token_claims ex_admin ''j1'' ''10.0.0.7'' ''Mozilla/5.0'')"
  using second_login_revokes_first_token [of ex_login "''a@x.com''" "''secret1''" ex_db ex_admin ex_cmp
      "''j1''" "''j2''" 5000 1000 ex_client 2000]
  by (simp add: ex_defs admin_by_identifier_def new_session_def client_ip_def client_ua_def or_default_def)

text \<open>C32. Branch settings and the contact form share the branches table:
  once a branch is set to \<open>'inactive'\<close> (and that update succeeds),
  no contact submission naming it is stored, whatever its other fields,
  the sender's history or the faults of the submission.\<close>

theorem deactivated_branch_refuses_contact:
  assumes "\<not> fails ff 1" "cf_branch rq = Some i"
  shows "status (snd (submitContact ff' t cid src rq
             (branches (fst (updateBranchStatus ff now (Some i) (Some ''inactive'') db))) cs)) \<noteq> 201 \<and>
         fst (submitContact ff' t cid src rq
             (branches (fst (updateBranchStatus ff now (Some i) (Some ''inactive'') db))) cs) = cs"
  using assms by (simp add: submitContact_inactive_branch updateBranchStatus_inactive)

text \<open>Branch 1 accepts the example submission before it is deactivated and
  refuses it afterwards.\<close>

theorem deactivated_branch_refuses_contact_witness:
  "status (snd (submitContact NoFault 0 1 ex_src ex_creq (branches ex_bdb) [])) = 201 \<and>
   \<not> fails NoFault 1 \<and> cf_branch ex_creq = Some 1 \<and>
   status (snd (submitContact NoFault 0 1 ex_src ex_creq
       (branches (fst (updateBranchStatus NoFault 0 (Some 1) (Some ''inactive'') ex_bdb))) [])) \<noteq> 201 \<and>
   fst (submitContact NoFault 0 1 ex_src ex_creq
       (branches (fst (updateBranchStatus NoFault 0 (Some 1) (Some ''inactive'') ex_bdb))) []) = []"
  using deactivated_branch_refuses_contact [of NoFault ex_creq 1 NoFault 0 1 ex_src 0 ex_bdb "[]"]
  by (simp add: ex_branch_defs ex_contact_defs submitContact_def checkRateLimit_def Let_def getClientIP_def
      branch_given_def email_ok_def is_js_space_def recent_count_def active_branch_def MAX_SUBMISSIONS_def)

end
